theory Spec2Isabelle
  imports Complex_Main "HOL-Library.Signed_Division"
begin

section \<open>Number model and game constants\<close>

text \<open>
  The game is written in JavaScript; every quantity is a \<^verbatim>\<open>Number\<close>, an IEEE 754
  double.  Coordinates, radii, velocities, angles and times are modelled as \<^typ>\<open>real\<close>,
  and the arithmetic of the physics and of the geometry as exact arithmetic: an
  idealisation, in which a result differs from the program's by the rounding of each
  operation.  Rounding is modelled where the program takes a discrete decision from a
  rounded value of the seeded generator: in the generator itself, in the integer parts
  taken of its products (\<^verbatim>\<open>Math.floor\<close>) and in the comparisons of its values with
  decimal constants.  The swept collision test is modelled twice, in exact arithmetic and
  with every operation rounded.

  \<open>double x\<close> is the double nearest to \<open>x\<close>, ties going to the even mantissa: the result of
  an operation whose exact result is \<open>x\<close>, and the value of a decimal literal \<open>x\<close>.  With
  \<open>e\<close> the binary exponent of \<open>x\<close>, the doubles around \<open>x\<close> are the multiples of
  \<open>2\<^bsup>e - 52\<^esup>\<close>.  Overflow to \<^verbatim>\<open>Infinity\<close> and subnormal numbers are not modelled.
\<close>

definition nearestEven :: "real \<Rightarrow> int" where
  "nearestEven y =
     (let n = \<lfloor>y\<rfloor>;
          d = y - real_of_int n
      in if d < 1 / 2 then n else if 1 / 2 < d then n + 1 else if even n then n else n + 1)"

definition binaryExponent :: "real \<Rightarrow> int" where
  "binaryExponent x = \<lfloor>log 2 \<bar>x\<bar>\<rfloor>"

definition double :: "real \<Rightarrow> real" where
  "double x =
     (if x = 0 then 0
      else (let ulp = 2 powi (binaryExponent x - 52)
            in real_of_int (nearestEven (x / ulp)) * ulp))"

definition CANVAS_WIDTH :: real where
  "CANVAS_WIDTH = 800"

definition CANVAS_HEIGHT :: real where
  "CANVAS_HEIGHT = 600"

definition GRAVITY_CONSTANT :: real where
  "GRAVITY_CONSTANT = 2778000"

section \<open>Geometry utilities\<close>

text \<open>
  \<^verbatim>\<open>lineSegmentIntersectsCircle\<close> (identical in \<^verbatim>\<open>script.js\<close> and in the utilities
  module): the swept test of the movement segment \<open>(x1,y1) \<rightarrow> (x2,y2)\<close> against the
  circle of centre \<open>(cx,cy)\<close>, in exact arithmetic.  This is the test the simulation step
  below is modelled with.
\<close>

definition lineSegmentIntersectsCircle ::
  "real \<Rightarrow> real \<Rightarrow> real \<Rightarrow> real \<Rightarrow> real \<Rightarrow> real \<Rightarrow> real \<Rightarrow> bool" where
  "lineSegmentIntersectsCircle x1 y1 x2 y2 cx cy radius =
     (let dx = x2 - x1;
          dy = y2 - y1;
          lengthSquared = dx * dx + dy * dy
      in if lengthSquared = 0
         then (let distSquared = (x1 - cx) * (x1 - cx) + (y1 - cy) * (y1 - cy)
               in distSquared \<le> radius * radius)
         else (let fx = x1 - cx;
                   fy = y1 - cy;
                   a = lengthSquared;
                   b = 2 * (fx * dx + fy * dy);
                   c = (fx * fx + fy * fy) - radius * radius;
                   discriminant = b * b - 4 * a * c
               in if discriminant < 0 then False
                  else (let sqrt_discriminant = sqrt discriminant;
                            t1 = (- b - sqrt_discriminant) / (2 * a);
                            t2 = (- b + sqrt_discriminant) / (2 * a)
                        in (t1 \<ge> 0 \<and> t1 \<le> 1) \<or> (t2 \<ge> 0 \<and> t2 \<le> 1) \<or> (t1 < 0 \<and> t2 > 1))))"

text \<open>
  The same function as the program computes it: every subtraction, product, sum and
  quotient is rounded to a double, and \<^verbatim>\<open>Math.sqrt\<close> returns the double nearest to the
  square root.  Negation is exact.  The arguments are doubles.
\<close>

definition lineSegmentIntersectsCircle_double ::
  "real \<Rightarrow> real \<Rightarrow> real \<Rightarrow> real \<Rightarrow> real \<Rightarrow> real \<Rightarrow> real \<Rightarrow> bool" where
  "lineSegmentIntersectsCircle_double x1 y1 x2 y2 cx cy radius =
     (let dx = double (x2 - x1);
          dy = double (y2 - y1);
          lengthSquared = double (double (dx * dx) + double (dy * dy))
      in if lengthSquared = 0
         then (let distSquared = double (double (double (x1 - cx) * double (x1 - cx))
                                         + double (double (y1 - cy) * double (y1 - cy)))
               in distSquared \<le> double (radius * radius))
         else (let fx = double (x1 - cx);
                   fy = double (y1 - cy);
                   a = lengthSquared;
                   b = double (2 * double (double (fx * dx) + double (fy * dy)));
                   c = double (double (double (fx * fx) + double (fy * fy))
                               - double (radius * radius));
                   discriminant = double (double (b * b) - double (double (4 * a) * c))
               in if discriminant < 0 then False
                  else (let sqrt_discriminant = double (sqrt discriminant);
                            t1 = double (double (- b - sqrt_discriminant) / double (2 * a));
                            t2 = double (double (- b + sqrt_discriminant) / double (2 * a))
                        in (t1 \<ge> 0 \<and> t1 \<le> 1) \<or> (t2 \<ge> 0 \<and> t2 \<le> 1) \<or> (t1 < 0 \<and> t2 > 1))))"

text \<open>
  The direct point-in-circle test used beside the swept test (closed disc), in exact
  arithmetic and as the program computes it
  (\<^verbatim>\<open>dx * dx + dy * dy <= radius * radius\<close> with \<^verbatim>\<open>dx = px - cx\<close>, \<^verbatim>\<open>dy = py - cy\<close>).
\<close>

definition pointInCircle :: "real \<Rightarrow> real \<Rightarrow> real \<Rightarrow> real \<Rightarrow> real \<Rightarrow> bool" where
  "pointInCircle px py cx cy radius =
     ((px - cx) * (px - cx) + (py - cy) * (py - cy) \<le> radius * radius)"

definition pointInCircle_double :: "real \<Rightarrow> real \<Rightarrow> real \<Rightarrow> real \<Rightarrow> real \<Rightarrow> bool" where
  "pointInCircle_double px py cx cy radius =
     (let dx = double (px - cx);
          dy = double (py - cy);
          distSquared = double (double (dx * dx) + double (dy * dy))
      in distSquared \<le> double (radius * radius))"

text \<open>
  Squared distance from the centre \<open>(cx,cy)\<close> to the point at parameter \<open>t\<close> of the
  segment \<open>(x1,y1) \<rightarrow> (x2,y2)\<close>; used to state what the swept test decides.
\<close>

definition segDistSq :: "real \<Rightarrow> real \<Rightarrow> real \<Rightarrow> real \<Rightarrow> real \<Rightarrow> real \<Rightarrow> real \<Rightarrow> real" where
  "segDistSq x1 y1 x2 y2 cx cy t =
     (x1 + t * (x2 - x1) - cx) * (x1 + t * (x2 - x1) - cx) +
     (y1 + t * (y2 - y1) - cy) * (y1 + t * (y2 - y1) - cy)"


section \<open>Data model\<close>

text \<open>
  Objects of the game as records.  The JavaScript fields \<^verbatim>\<open>x\<close> and \<^verbatim>\<open>y\<close> are the
  selectors \<open>posX\<close> and \<open>posY\<close>; every other field keeps its name.  A planet, the goal
  object and a black hole all carry \<^verbatim>\<open>x, y, radius, gravityStrength\<close>; the player
  carries \<^verbatim>\<open>x, y, radius\<close>.  Fields read only by the renderer (colours, the trail)
  are left out.
\<close>

record Circle =
  posX :: real
  posY :: real
  radius :: real

record GravitySource = Circle +
  gravityStrength :: real

type_synonym Planet = GravitySource

type_synonym Goal = GravitySource

text \<open>\<^verbatim>\<open>new Planet(radius, x, y, gravityStrength)\<close>\<close>

definition Planet_new :: "real \<Rightarrow> real \<Rightarrow> real \<Rightarrow> real \<Rightarrow> Planet" where
  "Planet_new r0 x0 y0 g0 = \<lparr>posX = x0, posY = y0, radius = r0, gravityStrength = g0\<rparr>"

text \<open>One vortex particle of a black hole's accretion disk (cosmetic).\<close>

record VortexParticle =
  pAngle :: real
  pDistance :: real
  pSpeed :: real
  pSize :: real
  pHue :: real

record BlackHole = GravitySource +
  particles :: "VortexParticle list"
  rotation :: real

subsection \<open>Force law\<close>

text \<open>
  \<^verbatim>\<open>calculateGravity(player)\<close> is written three times in the source, with the same
  body: in class \<^verbatim>\<open>Planet\<close>, in class \<^verbatim>\<open>BlackHole\<close> and in the goal object built by
  the \<^verbatim>\<open>Level\<close> constructor.  The global \<^verbatim>\<open>gameState.gravityMultiplier\<close> read by each
  is the first argument.  The result \<^verbatim>\<open>{x, y}\<close> is a pair.
\<close>

definition Planet_calculateGravity :: "real \<Rightarrow> Planet \<Rightarrow> 'a Circle_scheme \<Rightarrow> real \<times> real" where
  "Planet_calculateGravity gm this player =
     (let dx = posX this - posX player;
          dy = posY this - posY player;
          distSquared = dx * dx + dy * dy;
          distance = sqrt distSquared
      in if distance < radius this + 5 then (0, 0)
         else (let forceMagnitude =
                     (gravityStrength this * GRAVITY_CONSTANT * gm) / (distSquared + 100);
                   forceX = forceMagnitude * (dx / distance);
                   forceY = forceMagnitude * (dy / distance)
               in (forceX, forceY)))"

definition BlackHole_calculateGravity :: "real \<Rightarrow> BlackHole \<Rightarrow> 'a Circle_scheme \<Rightarrow> real \<times> real" where
  "BlackHole_calculateGravity gm this player =
     (let dx = posX this - posX player;
          dy = posY this - posY player;
          distSquared = dx * dx + dy * dy;
          distance = sqrt distSquared
      in if distance < radius this + 5 then (0, 0)
         else (let forceMagnitude =
                     (gravityStrength this * GRAVITY_CONSTANT * gm) / (distSquared + 100);
                   forceX = forceMagnitude * (dx / distance);
                   forceY = forceMagnitude * (dy / distance)
               in (forceX, forceY)))"

definition goal_calculateGravity :: "real \<Rightarrow> Goal \<Rightarrow> 'a Circle_scheme \<Rightarrow> real \<times> real" where
  "goal_calculateGravity gm this player =
     (let dx = posX this - posX player;
          dy = posY this - posY player;
          distSquared = dx * dx + dy * dy;
          distance = sqrt distSquared
      in if distance < radius this + 5 then (0, 0)
         else (let forceMagnitude =
                     (gravityStrength this * GRAVITY_CONSTANT * gm) / (distSquared + 100);
                   forceX = forceMagnitude * (dx / distance);
                   forceY = forceMagnitude * (dy / distance)
               in (forceX, forceY)))"



section \<open>Player kinetics\<close>

text \<open>
  \<^verbatim>\<open>Math.atan2(y, x)\<close> is a function of the JavaScript library, modelled by its
  mathematical definition on the reals: the angle in \<open>(-\<pi>, \<pi>]\<close> of the point \<open>(x, y)\<close>,
  and 0 at the origin.
\<close>

definition atan2 :: "real \<Rightarrow> real \<Rightarrow> real" where
  "atan2 b a =
     (if 0 < a then arctan (b / a)
      else if a < 0 \<and> 0 \<le> b then arctan (b / a) + pi
      else if a < 0 then arctan (b / a) - pi
      else if 0 < b then pi / 2
      else if b < 0 then - (pi / 2)
      else 0)"

text \<open>\<^verbatim>\<open>gameState.keys\<close>, and \<^verbatim>\<open>gameState.mobileInput\<close> of the modular version.\<close>

record Keys =
  left :: bool
  right :: bool

record MobileInput = Keys +
  active :: bool
  currentX :: real
  centerX :: real
  deadzone :: real
  maxDistance :: real
  targetSpeed :: real

record Player = Circle +
  prevX :: real
  prevY :: real
  screenWrapped :: bool
  vx :: real
  vy :: real
  onPlanet :: bool
  currentPlanet :: "Planet option"
  hasJumped :: bool
  angle :: real
  angularSpeed :: real
  baseAngularSpeed :: real
  angularAcceleration :: real
  angularDeceleration :: real
  escapeThreshold :: real

text \<open>
  \<^verbatim>\<open>new Player(x, y, planet)\<close>.  The constructor of \<^verbatim>\<open>script.js\<close> calibrates the
  acceleration as \<open>\<omega>\<^sup>2 / (16 \<pi>)\<close> with 60\% deceleration; the constructor of the modular
  version as \<open>\<omega>\<^sup>2 / (32 \<pi>)\<close> with 80\%.  A \<^verbatim>\<open>null\<close> planet is \<open>None\<close>.
\<close>

definition Player_new_script :: "real \<Rightarrow> real \<Rightarrow> Planet option \<Rightarrow> Player" where
  "Player_new_script x0 y0 planet =
     (let base = 6 * 2 * pi;
          accel = base\<^sup>2 / (16 * pi)
      in \<lparr>posX = x0, posY = y0, radius = 8,
          prevX = x0, prevY = y0, screenWrapped = False, vx = 0, vy = 0,
          onPlanet = (planet \<noteq> None), currentPlanet = planet, hasJumped = False,
          angle = (case planet of None \<Rightarrow> 0
                   | Some pl \<Rightarrow> atan2 (y0 - posY pl) (x0 - posX pl)),
          angularSpeed = 0, baseAngularSpeed = base,
          angularAcceleration = accel, angularDeceleration = accel * (6 / 10),
          escapeThreshold = 1 / sqrt 2\<rparr>)"

definition Player_new :: "real \<Rightarrow> real \<Rightarrow> Planet option \<Rightarrow> Player" where
  "Player_new x0 y0 planet =
     (let base = 6 * 2 * pi;
          accel = base\<^sup>2 / (32 * pi)
      in \<lparr>posX = x0, posY = y0, radius = 8,
          prevX = x0, prevY = y0, screenWrapped = False, vx = 0, vy = 0,
          onPlanet = (planet \<noteq> None), currentPlanet = planet, hasJumped = False,
          angle = (case planet of None \<Rightarrow> 0
                   | Some pl \<Rightarrow> atan2 (y0 - posY pl) (x0 - posX pl)),
          angularSpeed = 0, baseAngularSpeed = base,
          angularAcceleration = accel, angularDeceleration = accel * (8 / 10),
          escapeThreshold = 1 / sqrt 2\<rparr>)"

text \<open>
  \<^verbatim>\<open>Player.updateAngularMovement(keys, dt)\<close> of \<^verbatim>\<open>script.js\<close>: the left key is tested
  first, then the right key, then friction.
\<close>

definition updateAngularMovement_script :: "'a Keys_scheme \<Rightarrow> real \<Rightarrow> Player \<Rightarrow> Player" where
  "updateAngularMovement_script keys dt this =
     (let this1 =
            (if left keys then
               this\<lparr>angularSpeed :=
                 max (angularSpeed this - angularAcceleration this * dt) (- baseAngularSpeed this)\<rparr>
             else if right keys then
               this\<lparr>angularSpeed :=
                 min (angularSpeed this + angularAcceleration this * dt) (baseAngularSpeed this)\<rparr>
             else
               (let decel = angularDeceleration this * dt
                in if \<bar>angularSpeed this\<bar> < decel then this\<lparr>angularSpeed := 0\<rparr>
                   else this\<lparr>angularSpeed := angularSpeed this - sgn (angularSpeed this) * decel\<rparr>))
      in this1\<lparr>angle := angle this1 + angularSpeed this1 * dt\<rparr>)"

text \<open>
  \<^verbatim>\<open>Player.updateAngularMovement(keys, dt)\<close> of the modular version: a target speed is
  chosen from the keys, overridden by the joystick when
  \<^verbatim>\<open>gameState.mobileInput.targetSpeed > 0\<close>, and the angular speed moves toward it by at
  most \<^verbatim>\<open>angularAcceleration * dt\<close>.  \<open>targetSpeedOf\<close> is the first half of the method
  (the value of its local \<^verbatim>\<open>targetSpeed\<close>).
\<close>

definition targetSpeedOf :: "MobileInput \<Rightarrow> 'a Keys_scheme \<Rightarrow> Player \<Rightarrow> real" where
  "targetSpeedOf mobileInput keys this =
     (let targetSpeed =
            (if left keys \<and> right keys then 0
             else if left keys then - baseAngularSpeed this
             else if right keys then baseAngularSpeed this
             else 0)
      in if MobileInput.targetSpeed mobileInput > 0
         then (let mobileDirection = (if left mobileInput then - 1 else 1)
               in mobileDirection * baseAngularSpeed this * MobileInput.targetSpeed mobileInput)
         else targetSpeed)"

definition updateAngularMovement :: "MobileInput \<Rightarrow> 'a Keys_scheme \<Rightarrow> real \<Rightarrow> Player \<Rightarrow> Player" where
  "updateAngularMovement mobileInput keys dt this =
     (let target = targetSpeedOf mobileInput keys this;
          speedDifference = target - angularSpeed this;
          maxAcceleration = angularAcceleration this * dt;
          this1 =
            (if \<bar>speedDifference\<bar> < maxAcceleration then this\<lparr>angularSpeed := target\<rparr>
             else (let accelerationDirection = sgn speedDifference
                   in this\<lparr>angularSpeed := angularSpeed this + accelerationDirection * maxAcceleration\<rparr>));
          this2 = this1\<lparr>angularSpeed :=
                    max (- baseAngularSpeed this1) (min (baseAngularSpeed this1) (angularSpeed this1))\<rparr>
      in this2\<lparr>angle := angle this2 + angularSpeed this2 * dt\<rparr>)"

text \<open>
  \<^verbatim>\<open>Player.jump()\<close> (the same in both versions).  The particle burst is cosmetic and
  left out.
\<close>

definition jump :: "Player \<Rightarrow> Player" where
  "jump this =
     (if onPlanet this \<and> currentPlanet this \<noteq> None then
        (let planet = the (currentPlanet this);
             orbitalRadius = radius planet + radius this + 2;
             currentLinearVelocity = \<bar>angularSpeed this\<bar> * orbitalRadius;
             radialAngle = atan2 (posY this - posY planet) (posX this - posX planet);
             directionSign = (if angularSpeed this \<ge> 0 then 1 else - 1);
             tangentialAngle = radialAngle + (pi / 2) * directionSign;
             minRadialVelocity = 50
         in this\<lparr>vx := cos tangentialAngle * currentLinearVelocity + cos radialAngle * minRadialVelocity,
                 vy := sin tangentialAngle * currentLinearVelocity + sin radialAngle * minRadialVelocity,
                 onPlanet := False,
                 hasJumped := True\<rparr>)
      else this)"

subsection \<open>Scenario values\<close>

text \<open>
  A planet of radius 35 at the origin, a body running on it (orbital radius 45), both
  directional keys held, and two joystick states of the modular version.
\<close>

definition scenarioPlanet :: Planet where
  "scenarioPlanet = Planet_new 35 0 0 1"

definition scenarioRunner :: Player where
  "scenarioRunner =
     \<lparr>posX = 45, posY = 0, radius = 8,
      prevX = 45, prevY = 0, screenWrapped = False, vx = 0, vy = 0,
      onPlanet = True, currentPlanet = Some scenarioPlanet, hasJumped = False,
      angle = 0, angularSpeed = 2, baseAngularSpeed = 4,
      angularAcceleration = 10, angularDeceleration = 6,
      escapeThreshold = 1 / 2\<rparr>"

definition bothKeys :: Keys where
  "bothKeys = \<lparr>left = True, right = True\<rparr>"

definition joystickRight :: MobileInput where
  "joystickRight =
     \<lparr>left = False, right = True, active = True, currentX = 25, centerX = 0,
      deadzone = 10, maxDistance = 50, targetSpeed = 1 / 2\<rparr>"

definition joystickIdle :: MobileInput where
  "joystickIdle =
     \<lparr>left = False, right = False, active = False, currentX = 0, centerX = 0,
      deadzone = 10, maxDistance = 50, targetSpeed = 0\<rparr>"

section \<open>Level generator\<close>

subsection \<open>Seeded random sequence\<close>

text \<open>
  The closure \<^verbatim>\<open>random\<close> of \<^verbatim>\<open>Level.generateLevel\<close> mutates the captured variable
  \<^verbatim>\<open>randSeed\<close>; the model takes the state and returns the value together with the new
  state.  The state is an integer: the level number at first, and then the result of
  \<^verbatim>\<open>%\<close>, which is exact on doubles and truncates toward zero (\<open>smod\<close> on integers).  The
  product and the sum before \<^verbatim>\<open>%\<close> are rounded, which matters for a level number beyond
  \<open>2\<^sup>5\<^sup>3 / 9301\<close>; their result is a double with an integer value.  The value returned is
  the rounded quotient.
\<close>

definition random :: "int \<Rightarrow> real \<times> int" where
  "random randSeed =
     (let randSeed' = \<lfloor>double (double (real_of_int randSeed * 9301) + 49297)\<rfloor> smod 233280
      in (double (real_of_int randSeed' / 233280), randSeed'))"

text \<open>
  \<^verbatim>\<open>Math.random()\<close> is not seeded.  The results of its future calls are an explicit
  ambient stream; a call returns the head and leaves the tail.
\<close>

type_synonym Ambient = "nat \<Rightarrow> real"

definition Math_random :: "Ambient \<Rightarrow> real \<times> Ambient" where
  "Math_random amb = (amb 0, \<lambda>i. amb (Suc i))"

subsection \<open>Difficulty tiers\<close>

text \<open>
  The archetype tag is a string in the source.  \<open>Standard\<close> is the constructor's default
  \<^verbatim>\<open>'standard'\<close>; \<open>NoArchetype\<close> is \<^verbatim>\<open>undefined\<close>, the value of an array read out of
  range.
\<close>

datatype Archetype =
  Standard | Simple | Binary | Gauntlet | Void | Maze | Giant | Precision | Slingshot | Chaos
  | NoArchetype

text \<open>
  The \<^verbatim>\<open>config\<close> object literal of a tier.  Its field \<^verbatim>\<open>archetype\<close> is \<open>cfgArchetype\<close>
  (the \<^verbatim>\<open>Level\<close> class has a field of the same name); \<^verbatim>\<open>obstacleCount\<close>, present in
  \<^verbatim>\<open>script.js\<close> only and never read, is left out.
\<close>

record Config =
  planetCount :: "int \<times> int"
  sizeRange :: "real \<times> real"
  minSpacing :: real
  blackHoleCount :: int
  goalHops :: int
  cfgArchetype :: Archetype

text \<open>\<^verbatim>\<open>array[Math.floor(v)]\<close>, with \<^verbatim>\<open>undefined\<close> out of range.\<close>

definition pick :: "Archetype list \<Rightarrow> int \<Rightarrow> Archetype" where
  "pick choices i = (if 0 \<le> i \<and> i < int (length choices) then choices ! nat i else NoArchetype)"

text \<open>
  The tier selection at the head of \<^verbatim>\<open>Level.generateLevel\<close>: the configuration and the
  state of the random sequence after the draws of the object literal, evaluated in
  source order.  The constants 0.7 and 0.3 are the doubles nearest to them (0.5 is a
  double), and the products under \<^verbatim>\<open>Math.floor\<close> are rounded.
\<close>

definition tierConfig :: "int \<Rightarrow> int \<Rightarrow> Config \<times> int" where
  "tierConfig levelNumber randSeed =
     (if levelNumber \<le> 5 then
        (\<lparr>planetCount = (3, 4), sizeRange = (25, 45), minSpacing = 120,
          blackHoleCount = 0, goalHops = 1, cfgArchetype = Simple\<rparr>, randSeed)
      else if levelNumber \<le> 15 then
        (let (r1, s1) = random randSeed;
             (r2, s2) = random s1
         in (\<lparr>planetCount = (4, 5), sizeRange = (20, 55), minSpacing = 140,
              blackHoleCount = 0,
              goalHops = (if r1 < 5 / 10 then 1 else 2),
              cfgArchetype = (if r2 < double (7 / 10) then Simple else Binary)\<rparr>, s2))
      else if levelNumber \<le> 30 then
        (let (r1, s1) = random randSeed;
             (r2, s2) = random s1
         in (\<lparr>planetCount = (5, 6), sizeRange = (15, 65), minSpacing = 160,
              blackHoleCount = 0,
              goalHops = \<lfloor>double (r1 * 2)\<rfloor> + 2,
              cfgArchetype = pick [Simple, Binary, Gauntlet, Slingshot] \<lfloor>double (r2 * 4)\<rfloor>\<rparr>, s2))
      else if levelNumber \<le> 50 then
        (let (r1, s1) = random randSeed;
             (r2, s2) = random s1
         in (\<lparr>planetCount = (6, 7), sizeRange = (12, 75), minSpacing = 180,
              blackHoleCount = 0,
              goalHops = \<lfloor>double (r1 * 2)\<rfloor> + 3,
              cfgArchetype = pick [Binary, Gauntlet, Slingshot, Void, Maze] \<lfloor>double (r2 * 5)\<rfloor>\<rparr>, s2))
      else if levelNumber \<le> 75 then
        (let (r0, s0) = random randSeed;
             (r1, s1) = random s0;
             (r2, s2) = random s1
         in (\<lparr>planetCount = (6, 8), sizeRange = (10, 85), minSpacing = 200,
              blackHoleCount = (if r0 < double (3 / 10) then 1 else 0),
              goalHops = \<lfloor>double (r1 * 2)\<rfloor> + 3,
              cfgArchetype = pick [Gauntlet, Void, Maze, Giant, Precision] \<lfloor>double (r2 * 5)\<rfloor>\<rparr>, s2))
      else
        (let (r1, s1) = random randSeed;
             (r2, s2) = random s1
         in (\<lparr>planetCount = (6, 9), sizeRange = (8, 90), minSpacing = 220,
              blackHoleCount = min \<lfloor>double (real_of_int levelNumber / 50)\<rfloor> 3,
              goalHops = \<lfloor>double (r1 * 3)\<rfloor> + 3,
              cfgArchetype = pick [Void, Maze, Giant, Precision, Chaos] \<lfloor>double (r2 * 5)\<rfloor>\<rparr>, s2)))"

subsection \<open>Rejection sampling\<close>

text \<open>
  A placement candidate is the triple of the locals \<^verbatim>\<open>radius, x, y\<close>.  The inner
  \<^verbatim>\<open>for (const existing of planets)\<close> of every rejection loop leaves \<^verbatim>\<open>validPosition\<close>
  true exactly when no existing planet is closer than
  \<^verbatim>\<open>existing.radius + radius + spacing\<close>.
\<close>

type_synonym Candidate = "real \<times> real \<times> real"

definition centreDistance :: "real \<Rightarrow> real \<Rightarrow> 'a Circle_scheme \<Rightarrow> real" where
  "centreDistance x0 y0 existing =
     (let dx = x0 - posX existing;
          dy = y0 - posY existing
      in sqrt (dx * dx + dy * dy))"

definition validAgainst :: "Planet list \<Rightarrow> real \<Rightarrow> Candidate \<Rightarrow> bool" where
  "validAgainst existingPlanets spacing cand =
     (case cand of (r0, x0, y0) \<Rightarrow>
        list_all (\<lambda>existing.
            \<not> centreDistance x0 y0 existing < radius existing + r0 + spacing)
          existingPlanets)"

text \<open>
  The loop \<^verbatim>\<open>while (!validPosition && attempts < 100)\<close>, written six times in the
  source (simple, binary, maze, giant, precision, chaos) with the same shape: the
  archetypes differ in how a candidate is drawn (\<open>draw\<close>) and in the spacing added to the
  two radii.  It returns \<^verbatim>\<open>validPosition\<close>, the last candidate and the random state.
\<close>

function placeLoop ::
  "(int \<Rightarrow> Candidate \<times> int) \<Rightarrow> real \<Rightarrow> Planet list \<Rightarrow> bool \<Rightarrow> nat \<Rightarrow> Candidate \<Rightarrow> int
     \<Rightarrow> bool \<times> Candidate \<times> int" where
  "placeLoop draw spacing existingPlanets validPosition attempts cand randSeed =
     (if \<not> validPosition \<and> attempts < 100 then
        (let (cand', randSeed') = draw randSeed
         in placeLoop draw spacing existingPlanets
              (validAgainst existingPlanets spacing cand') (attempts + 1) cand' randSeed')
      else (validPosition, cand, randSeed))"
  by pat_completeness auto
termination
  by (relation "measure (\<lambda>(draw, spacing, existingPlanets, validPosition, attempts, cand, randSeed).
        100 - attempts)") auto

text \<open>
  The enclosing \<^verbatim>\<open>for (let i = 0; i < count; i++)\<close>: each round runs the rejection loop
  from \<^verbatim>\<open>attempts = 0\<close> and pushes a planet when a valid position was found (\<open>mk\<close> builds
  it; the chaos archetype draws its gravity variance there).
\<close>

fun placePlanets ::
  "(int \<Rightarrow> Candidate \<times> int) \<Rightarrow> real \<Rightarrow> (Candidate \<Rightarrow> int \<Rightarrow> Planet \<times> int) \<Rightarrow> nat
     \<Rightarrow> Planet list \<Rightarrow> int \<Rightarrow> Planet list \<times> int" where
  "placePlanets draw spacing mk 0 acc randSeed = (acc, randSeed)"
| "placePlanets draw spacing mk (Suc n) acc randSeed =
     (case placeLoop draw spacing acc False 0 (0, 0, 0) randSeed of
        (validPosition, cand, s1) \<Rightarrow>
          if validPosition
          then (case mk cand s1 of (planet, s2) \<Rightarrow>
                  placePlanets draw spacing mk n (acc @ [planet]) s2)
          else placePlanets draw spacing mk n acc s1)"

text \<open>\<^verbatim>\<open>new Planet(radius, x, y, Math.pow(radius / baseRadius, 3))\<close> with \<^verbatim>\<open>baseRadius = 35\<close>.\<close>

definition mkPlanet :: "Candidate \<Rightarrow> int \<Rightarrow> Planet \<times> int" where
  "mkPlanet cand randSeed =
     (case cand of (r0, x0, y0) \<Rightarrow> (Planet_new r0 x0 y0 ((r0 / 35) ^ 3), randSeed))"

text \<open>The chaos archetype: \<^verbatim>\<open>gravityVariance = 0.7 + random() * 0.6\<close>.\<close>

definition mkPlanetChaos :: "Candidate \<Rightarrow> int \<Rightarrow> Planet \<times> int" where
  "mkPlanetChaos cand randSeed =
     (case cand of (r0, x0, y0) \<Rightarrow>
        (let (v, s1) = random randSeed;
             gravityVariance = 7 / 10 + v * (6 / 10)
         in (Planet_new r0 x0 y0 ((r0 / 35) ^ 3 * gravityVariance), s1)))"

subsection \<open>Archetypes\<close>

text \<open>
  Every \<^verbatim>\<open>_generateX\<close> of the source ends with
  \<^verbatim>\<open>return Level._finalizeLevelGeneration(levelNumber, config, random, planets)\<close>.  The
  model of each archetype returns the planet list and the random state at that point;
  \<open>generateLevel\<close> below applies the finalizer.  Each \<open>drawX\<close> is the head of the
  archetype's rejection loop body: the three assignments to \<^verbatim>\<open>radius\<close>, \<^verbatim>\<open>x\<close>, \<^verbatim>\<open>y\<close>.
  Every product under \<^verbatim>\<open>Math.floor\<close> is rounded, one rounding for each multiplication
  (the sums and differences of the integers of a tier configuration are exact).
\<close>

definition drawSimple :: "Config \<Rightarrow> int \<Rightarrow> Candidate \<times> int" where
  "drawSimple config randSeed =
     (let (r1, s1) = random randSeed;
          radius = fst (sizeRange config)
                   + real_of_int \<lfloor>double (r1 * (snd (sizeRange config) - fst (sizeRange config)))\<rfloor>;
          (r2, s2) = random s1;
          x = radius + 20 + r2 * (CANVAS_WIDTH - 2 * radius - 40);
          (r3, s3) = random s2;
          y = radius + 20 + r3 * (CANVAS_HEIGHT - 2 * radius - 40)
      in ((radius, x, y), s3))"

definition generateSimple :: "int \<Rightarrow> Config \<Rightarrow> int \<Rightarrow> Planet list \<times> int" where
  "generateSimple levelNumber config randSeed =
     (let (r0, s0) = random randSeed;
          count = fst (planetCount config)
                  + \<lfloor>double (r0 * real_of_int (snd (planetCount config) - fst (planetCount config) + 1))\<rfloor>
      in placePlanets (drawSimple config) (minSpacing config) mkPlanet (nat count) [] s0)"

definition drawBinary :: "Config \<Rightarrow> int \<Rightarrow> Candidate \<times> int" where
  "drawBinary config randSeed =
     (let (r1, s1) = random randSeed;
          radius = fst (sizeRange config)
                   + real_of_int \<lfloor>double (double (r1 * (snd (sizeRange config) - fst (sizeRange config)))
                                            * double (6 / 10))\<rfloor>;
          (r2, s2) = random s1;
          x = radius + 20 + r2 * (CANVAS_WIDTH - 2 * radius - 40);
          (r3, s3) = random s2;
          y = radius + 20 + r3 * (CANVAS_HEIGHT - 2 * radius - 40)
      in ((radius, x, y), s3))"

definition generateBinarySystem :: "int \<Rightarrow> Config \<Rightarrow> int \<Rightarrow> Planet list \<times> int" where
  "generateBinarySystem levelNumber config randSeed =
     (let (r1, s1) = random randSeed;
          binaryRadius1 = snd (sizeRange config) * (7 / 10) + r1 * snd (sizeRange config) * (3 / 10);
          (r2, s2) = random s1;
          binaryRadius2 = snd (sizeRange config) * (6 / 10) + r2 * snd (sizeRange config) * (3 / 10);
          binarySeparation = binaryRadius1 + binaryRadius2 + minSpacing config * (7 / 10);
          centerX = CANVAS_WIDTH / 2;
          centerY = CANVAS_HEIGHT / 2;
          (r3, s3) = random s2;
          angle = r3 * pi * 2;
          x1 = centerX + cos angle * binarySeparation / 2;
          y1 = centerY + sin angle * binarySeparation / 2;
          x2 = centerX - cos angle * binarySeparation / 2;
          y2 = centerY - sin angle * binarySeparation / 2;
          pair = [Planet_new binaryRadius1 x1 y1 ((binaryRadius1 / 35) ^ 3),
                  Planet_new binaryRadius2 x2 y2 ((binaryRadius2 / 35) ^ 3)];
          (r4, s4) = random s3;
          remainingPlanets = fst (planetCount config) - 2
            + \<lfloor>double (r4 * real_of_int (snd (planetCount config) - fst (planetCount config)))\<rfloor>
      in placePlanets (drawBinary config) (minSpacing config) mkPlanet (nat remainingPlanets)
           pair s4)"

text \<open>
  The gauntlet places its planets on a line, with no spacing test.  One round of its
  \<^verbatim>\<open>for\<close> loop, for index \<open>i\<close>; the draws happen in source order (radius, then \<^verbatim>\<open>x\<close>,
  then \<^verbatim>\<open>y\<close>).
\<close>

definition gauntletStep :: "Config \<Rightarrow> int \<Rightarrow> bool \<Rightarrow> nat \<Rightarrow> Planet list \<times> int \<Rightarrow> Planet list \<times> int" where
  "gauntletStep config count horizontal i st =
     (case st of (acc, s0) \<Rightarrow>
        (let t = (real i + 1) / (real_of_int count + 1);
             alternateSize = (i mod 2 = 0);
             (radius, s1) =
               (if alternateSize then (snd (sizeRange config) * (7 / 10), s0)
                else (let (r1, s') = random s0
                      in (fst (sizeRange config) + r1 * (fst (sizeRange config) * (5 / 10)), s')));
             (x, s2) =
               (if horizontal then (t * (CANVAS_WIDTH - 100) + 50, s1)
                else (let (r2, s') = random s1
                      in (CANVAS_WIDTH / 2 + (r2 - 5 / 10) * 200, s')));
             (y, s3) =
               (if horizontal
                then (let (r3, s') = random s2
                      in (CANVAS_HEIGHT / 2 + (r3 - 5 / 10) * 200, s'))
                else (t * (CANVAS_HEIGHT - 100) + 50, s2))
         in (acc @ [Planet_new radius x y ((radius / 35) ^ 3)], s3)))"

definition generateGauntlet :: "int \<Rightarrow> Config \<Rightarrow> int \<Rightarrow> Planet list \<times> int" where
  "generateGauntlet levelNumber config randSeed =
     (let count = max 5 (fst (planetCount config));
          (r0, s0) = random randSeed;
          horizontal = (r0 < 5 / 10)
      in fold (gauntletStep config count horizontal) [0..<nat count] ([], s0))"

definition voidStep :: "Config \<Rightarrow> nat \<Rightarrow> Planet list \<times> int \<Rightarrow> Planet list \<times> int" where
  "voidStep config i st =
     (case st of (acc, s0) \<Rightarrow>
        (let (r1, s1) = random s0;
             radius = fst (sizeRange config)
                      + real_of_int \<lfloor>double (r1 * (snd (sizeRange config) - fst (sizeRange config)))\<rfloor>;
             (r2, s2) = random s1;
             x = radius + 40 + r2 * (CANVAS_WIDTH - 2 * radius - 80);
             (r3, s3) = random s2;
             y = radius + 40 + r3 * (CANVAS_HEIGHT - 2 * radius - 80)
         in (acc @ [Planet_new radius x y ((radius / 35) ^ 3)], s3)))"

definition generateVoid :: "int \<Rightarrow> Config \<Rightarrow> int \<Rightarrow> Planet list \<times> int" where
  "generateVoid levelNumber config randSeed =
     (let count = max 3 (fst (planetCount config) - 1)
      in fold (voidStep config) [0..<nat count] ([], randSeed))"

definition generateMaze :: "int \<Rightarrow> Config \<Rightarrow> int \<Rightarrow> Planet list \<times> int" where
  "generateMaze levelNumber config randSeed =
     (let count = snd (planetCount config)
      in placePlanets (drawSimple config) (minSpacing config * (7 / 10)) mkPlanet (nat count)
           [] randSeed)"

definition drawGiant :: "Config \<Rightarrow> int \<Rightarrow> Candidate \<times> int" where
  "drawGiant config randSeed =
     (let (r1, s1) = random randSeed;
          radius = fst (sizeRange config)
                   + real_of_int \<lfloor>double (r1 * (fst (sizeRange config) * 2))\<rfloor>;
          (r2, s2) = random s1;
          x = radius + 20 + r2 * (CANVAS_WIDTH - 2 * radius - 40);
          (r3, s3) = random s2;
          y = radius + 20 + r3 * (CANVAS_HEIGHT - 2 * radius - 40)
      in ((radius, x, y), s3))"

definition generateGiant :: "int \<Rightarrow> Config \<Rightarrow> int \<Rightarrow> Planet list \<times> int" where
  "generateGiant levelNumber config randSeed =
     (let giantRadius = snd (sizeRange config);
          (r1, s1) = random randSeed;
          giantX = CANVAS_WIDTH / 2 + (r1 - 5 / 10) * 100;
          (r2, s2) = random s1;
          giantY = CANVAS_HEIGHT / 2 + (r2 - 5 / 10) * 100;
          giant = Planet_new giantRadius giantX giantY ((giantRadius / 35) ^ 3 * (15 / 10));
          satelliteCount = fst (planetCount config) - 1
      in placePlanets (drawGiant config) (minSpacing config) mkPlanet (nat satelliteCount)
           [giant] s2)"

definition drawPrecision :: "Config \<Rightarrow> int \<Rightarrow> Candidate \<times> int" where
  "drawPrecision config randSeed =
     (let tinySize = fst (sizeRange config);
          (r1, s1) = random randSeed;
          radius = tinySize + real_of_int \<lfloor>double (r1 * (tinySize * (5 / 10)))\<rfloor>;
          (r2, s2) = random s1;
          x = radius + 30 + r2 * (CANVAS_WIDTH - 2 * radius - 60);
          (r3, s3) = random s2;
          y = radius + 30 + r3 * (CANVAS_HEIGHT - 2 * radius - 60)
      in ((radius, x, y), s3))"

definition generatePrecision :: "int \<Rightarrow> Config \<Rightarrow> int \<Rightarrow> Planet list \<times> int" where
  "generatePrecision levelNumber config randSeed =
     (let count = snd (planetCount config)
      in placePlanets (drawPrecision config) (minSpacing config * (12 / 10)) mkPlanet (nat count)
           [] randSeed)"

definition slingshotStep :: "Config \<Rightarrow> nat \<Rightarrow> Planet list \<times> int \<Rightarrow> Planet list \<times> int" where
  "slingshotStep config i st =
     (case st of (acc, s0) \<Rightarrow>
        (let pathPlanets = 4;
             t = real i / (pathPlanets - 1);
             (r1, s1) = random s0;
             radius = fst (sizeRange config)
               + real_of_int \<lfloor>double (double (r1 * (snd (sizeRange config) - fst (sizeRange config)))
                                        * double (7 / 10))\<rfloor>;
             curveAngle = t * pi;
             curveRadius = min CANVAS_WIDTH CANVAS_HEIGHT * (35 / 100);
             x = CANVAS_WIDTH / 2 + cos curveAngle * curveRadius;
             y = CANVAS_HEIGHT / 2 + sin curveAngle * curveRadius * (5 / 10)
         in (acc @ [Planet_new radius x y ((radius / 35) ^ 3)], s1)))"

definition generateSlingshot :: "int \<Rightarrow> Config \<Rightarrow> int \<Rightarrow> Planet list \<times> int" where
  "generateSlingshot levelNumber config randSeed =
     fold (slingshotStep config) [0..<4] ([], randSeed)"

definition drawChaos :: "Config \<Rightarrow> int \<Rightarrow> Candidate \<times> int" where
  "drawChaos config randSeed =
     (let (r1, s1) = random randSeed;
          radius = fst (sizeRange config)
                   + real_of_int \<lfloor>double (r1 * (snd (sizeRange config) - fst (sizeRange config)))\<rfloor>;
          (r2, s2) = random s1;
          x = radius + 15 + r2 * (CANVAS_WIDTH - 2 * radius - 30);
          (r3, s3) = random s2;
          y = radius + 15 + r3 * (CANVAS_HEIGHT - 2 * radius - 30)
      in ((radius, x, y), s3))"

definition generateChaos :: "int \<Rightarrow> Config \<Rightarrow> int \<Rightarrow> Planet list \<times> int" where
  "generateChaos levelNumber config randSeed =
     (let count = snd (planetCount config)
      in placePlanets (drawChaos config) (minSpacing config * (8 / 10)) mkPlanetChaos (nat count)
           [] randSeed)"

text \<open>\<^verbatim>\<open>Level._generateByArchetype\<close>: the dispatch on the tag, simple by default.\<close>

definition generateByArchetype :: "int \<Rightarrow> Config \<Rightarrow> int \<Rightarrow> Planet list \<times> int" where
  "generateByArchetype levelNumber config randSeed =
     (let tag = cfgArchetype config
      in if tag = Binary then generateBinarySystem levelNumber config randSeed
         else if tag = Gauntlet then generateGauntlet levelNumber config randSeed
         else if tag = Void then generateVoid levelNumber config randSeed
         else if tag = Maze then generateMaze levelNumber config randSeed
         else if tag = Giant then generateGiant levelNumber config randSeed
         else if tag = Precision then generatePrecision levelNumber config randSeed
         else if tag = Slingshot then generateSlingshot levelNumber config randSeed
         else if tag = Chaos then generateChaos levelNumber config randSeed
         else generateSimple levelNumber config randSeed)"

subsection \<open>Levels and finalization\<close>

record Level =
  planets :: "Planet list"
  startPosition :: "real \<times> real"
  goalPosition :: "real \<times> real"
  goalRadius :: real
  blackHoles :: "BlackHole list"
  seed :: int
  archetype :: Archetype
  goal :: Goal

text \<open>\<^verbatim>\<open>new Level(planets, startPosition, goalPosition)\<close>\<close>

definition Level_new :: "Planet list \<Rightarrow> real \<times> real \<Rightarrow> real \<times> real \<Rightarrow> Level" where
  "Level_new ps start goalPos =
     \<lparr>planets = ps, startPosition = start, goalPosition = goalPos, goalRadius = 20,
      blackHoles = [], seed = 0, archetype = Standard,
      goal = \<lparr>posX = fst goalPos, posY = snd goalPos, radius = 20,
               gravityStrength = 56 / 100\<rparr>\<rparr>"

text \<open>
  The \<^verbatim>\<open>BlackHole\<close> constructor draws its 40 vortex particles from \<^verbatim>\<open>Math.random()\<close>,
  five calls for each.  Its gravity strength is 4 in \<^verbatim>\<open>script.js\<close> and 15 in the
  modular version.  The constant field \<^verbatim>\<open>collisionEffect\<close> is never read and left out.
\<close>

fun initParticles :: "nat \<Rightarrow> real \<Rightarrow> VortexParticle list \<Rightarrow> Ambient \<Rightarrow> VortexParticle list \<times> Ambient" where
  "initParticles 0 r0 acc amb = (acc, amb)"
| "initParticles (Suc n) r0 acc amb =
     (let (a1, amb1) = Math_random amb;
          (a2, amb2) = Math_random amb1;
          (a3, amb3) = Math_random amb2;
          (a4, amb4) = Math_random amb3;
          (a5, amb5) = Math_random amb4
      in initParticles n r0
           (acc @ [\<lparr>pAngle = a1 * pi * 2, pDistance = r0 + a2 * 30, pSpeed = 5 / 10 + a3 * (15 / 10),
                     pSize = 1 + a4 * 2, pHue = 250 + a5 * 40\<rparr>])
           amb5)"

definition BlackHole_new_script :: "real \<Rightarrow> real \<Rightarrow> real \<Rightarrow> Ambient \<Rightarrow> BlackHole \<times> Ambient" where
  "BlackHole_new_script x0 y0 r0 amb =
     (case initParticles 40 r0 [] amb of
        (ps, amb') \<Rightarrow>
          (\<lparr>posX = x0, posY = y0, radius = r0, gravityStrength = 4, particles = ps, rotation = 0\<rparr>,
           amb'))"

definition BlackHole_new :: "real \<Rightarrow> real \<Rightarrow> real \<Rightarrow> Ambient \<Rightarrow> BlackHole \<times> Ambient" where
  "BlackHole_new x0 y0 r0 amb =
     (case initParticles 40 r0 [] amb of
        (ps, amb') \<Rightarrow>
          (\<lparr>posX = x0, posY = y0, radius = r0, gravityStrength = 15, particles = ps, rotation = 0\<rparr>,
           amb'))"

text \<open>
  The goal re-roll of the modular finalizer.  \<open>goalCollision\<close> is the value of the local
  \<^verbatim>\<open>collision\<close> after the inner loop over the planets (\<^verbatim>\<open>goalRadius = 20\<close>,
  \<^verbatim>\<open>minBuffer = 40\<close>); \<open>goalReroll\<close> is the loop \<^verbatim>\<open>while (attempts < maxAttempts)\<close> with
  its \<^verbatim>\<open>break\<close>, returning the goal position, \<^verbatim>\<open>attempts\<close> and the random state.
\<close>

definition goalCollision :: "Planet list \<Rightarrow> real \<Rightarrow> real \<Rightarrow> bool" where
  "goalCollision ps goalX goalY =
     list_ex (\<lambda>planet. centreDistance goalX goalY planet < radius planet + 20 + 40) ps"

function goalReroll ::
  "Planet list \<Rightarrow> Planet \<Rightarrow> real \<Rightarrow> nat \<Rightarrow> real \<Rightarrow> real \<Rightarrow> int \<Rightarrow> real \<times> real \<times> nat \<times> int" where
  "goalReroll ps goalPlanet goalDistance attempts goalX goalY randSeed =
     (if attempts < 100 then
        (if \<not> goalCollision ps goalX goalY then (goalX, goalY, attempts, randSeed)
         else (let (r1, s1) = random randSeed;
                   newAngle = r1 * pi * 2;
                   (r2, s2) = random s1;
                   newDistance = goalDistance + (r2 - 5 / 10) * 60
               in goalReroll ps goalPlanet goalDistance (attempts + 1)
                    (posX goalPlanet + cos newAngle * newDistance)
                    (posY goalPlanet + sin newAngle * newDistance) s2))
      else (goalX, goalY, attempts, randSeed))"
  by pat_completeness auto
termination
  by (relation "measure (\<lambda>(ps, goalPlanet, goalDistance, attempts, goalX, goalY, randSeed).
        100 - attempts)") auto

text \<open>The forced displacement after a failed re-roll (\<^verbatim>\<open>if (attempts >= maxAttempts)\<close>).\<close>

definition forceGoalOutside :: "Planet \<Rightarrow> nat \<Rightarrow> real \<Rightarrow> real \<Rightarrow> real \<times> real" where
  "forceGoalOutside goalPlanet attempts goalX goalY =
     (if attempts \<ge> 100 then
        (let dx = goalX - posX goalPlanet;
             dy = goalY - posY goalPlanet;
             currentDistance = sqrt (dx * dx + dy * dy)
         in if currentDistance < radius goalPlanet + 20 + 40 then
              (let forceDistance = radius goalPlanet + 20 + 40 + 20;
                   ang = atan2 dy dx
               in (posX goalPlanet + cos ang * forceDistance,
                   posY goalPlanet + sin ang * forceDistance))
            else (goalX, goalY))
      else (goalX, goalY))"

text \<open>\<^verbatim>\<open>Math.max(goalRadius + goalMargin, Math.min(limit - goalRadius - goalMargin, v))\<close>\<close>

definition clampGoal :: "real \<Rightarrow> real \<Rightarrow> real" where
  "clampGoal limit v = max (20 + 30) (min (limit - 20 - 30) v)"

text \<open>
  Black-hole placement: the loop \<^verbatim>\<open>while (!validPosition && attempts < 50)\<close>, and the
  enclosing \<^verbatim>\<open>for\<close> over \<^verbatim>\<open>config.blackHoleCount\<close>, which pushes
  \<^verbatim>\<open>new BlackHole(x, y, 8 + Math.floor(random() * 4))\<close> (\<open>mkBlackHole\<close> is the
  constructor of the version at hand).
\<close>

function blackHoleLoop ::
  "Planet list \<Rightarrow> real \<Rightarrow> real \<Rightarrow> real \<times> real \<Rightarrow> BlackHole list \<Rightarrow> bool \<Rightarrow> nat \<Rightarrow> real \<Rightarrow> real
     \<Rightarrow> int \<Rightarrow> bool \<times> real \<times> real \<times> int" where
  "blackHoleLoop ps goalX goalY start holes validPosition attempts x0 y0 randSeed =
     (if \<not> validPosition \<and> attempts < 50 then
        (let (r1, s1) = random randSeed;
             x = 50 + r1 * (CANVAS_WIDTH - 100);
             (r2, s2) = random s1;
             y = 50 + r2 * (CANVAS_HEIGHT - 100);
             v1 = list_all (\<lambda>planet. \<not> centreDistance x y planet < radius planet + 80) ps;
             goalDist = sqrt ((x - goalX)\<^sup>2 + (y - goalY)\<^sup>2);
             v2 = (if goalDist < 100 then False else v1);
             startDist = sqrt ((x - fst start)\<^sup>2 + (y - snd start)\<^sup>2);
             v3 = (if startDist < 120 then False else v2);
             v4 = (if list_ex (\<lambda>bh. centreDistance x y bh < 150) holes then False else v3)
         in blackHoleLoop ps goalX goalY start holes v4 (attempts + 1) x y s2)
      else (validPosition, x0, y0, randSeed))"
  by pat_completeness auto
termination
  by (relation "measure (\<lambda>(ps, goalX, goalY, start, holes, validPosition, attempts, x0, y0, randSeed).
        50 - attempts)") auto

fun placeBlackHoles ::
  "(real \<Rightarrow> real \<Rightarrow> real \<Rightarrow> Ambient \<Rightarrow> BlackHole \<times> Ambient) \<Rightarrow> Planet list \<Rightarrow> real \<Rightarrow> real
     \<Rightarrow> real \<times> real \<Rightarrow> nat \<Rightarrow> BlackHole list \<Rightarrow> int \<Rightarrow> Ambient \<Rightarrow> BlackHole list \<times> int \<times> Ambient" where
  "placeBlackHoles mkBlackHole ps goalX goalY start 0 holes randSeed amb = (holes, randSeed, amb)"
| "placeBlackHoles mkBlackHole ps goalX goalY start (Suc n) holes randSeed amb =
     (case blackHoleLoop ps goalX goalY start holes False 0 0 0 randSeed of
        (validPosition, x, y, s1) \<Rightarrow>
          if validPosition
          then (let (r, s2) = random s1
                in case mkBlackHole x y (8 + real_of_int \<lfloor>double (r * 4)\<rfloor>) amb of
                     (bh, amb') \<Rightarrow>
                       placeBlackHoles mkBlackHole ps goalX goalY start n (holes @ [bh]) s2 amb')
          else placeBlackHoles mkBlackHole ps goalX goalY start n holes s1 amb)"

text \<open>
  \<^verbatim>\<open>Level._finalizeLevelGeneration\<close> in two phases.  The first phase runs up to the clamp
  of the goal: fallback planet, start position on planet 0, goal near the planet at index
  \<^verbatim>\<open>min(goalHops, planets.length - 1)\<close>.  It returns the planets, the start position, the
  goal position and the random state.  In \<^verbatim>\<open>script.js\<close> the goal is clamped as drawn.
\<close>

definition startAndGoal_script ::
  "Config \<Rightarrow> int \<Rightarrow> Planet list \<Rightarrow> Planet list \<times> (real \<times> real) \<times> (real \<times> real) \<times> int" where
  "startAndGoal_script config randSeed ps0 =
     (let ps = (if length ps0 = 0
                then ps0 @ [Planet_new 30 (CANVAS_WIDTH / 2) (CANVAS_HEIGHT / 2) 1] else ps0);
          startPlanet = ps ! 0;
          (r1, s1) = random randSeed;
          startAngle = r1 * pi * 2;
          start = (posX startPlanet + cos startAngle * (radius startPlanet + 15),
                   posY startPlanet + sin startAngle * (radius startPlanet + 15));
          goalPlanetIndex0 = min (goalHops config) (int (length ps) - 1);
          goalPlanetIndex = (if goalPlanetIndex0 < 0 then (if length ps > 1 then 1 else 0)
                             else goalPlanetIndex0);
          goalPlanet = ps ! nat goalPlanetIndex;
          (r2, s2) = random s1;
          goalAngle = r2 * pi * 2;
          (r3, s3) = random s2;
          goalDistance = radius goalPlanet + 40 + r3 * 30;
          goalX0 = posX goalPlanet + cos goalAngle * goalDistance;
          goalY0 = posY goalPlanet + sin goalAngle * goalDistance;
          goalX = clampGoal CANVAS_WIDTH goalX0;
          goalY = clampGoal CANVAS_HEIGHT goalY0
      in (ps, start, (goalX, goalY), s3))"

text \<open>
  In the modular version the goal is first re-rolled against the planets and, when the
  re-roll fails, forced outside the goal planet; then it is clamped.  \<open>goalSearch\<close> is the
  part of the finalizer from the choice of the goal planet to the end of the re-roll: it
  returns the goal planet and what the re-roll returns.
\<close>

definition goalSearch :: "Config \<Rightarrow> int \<Rightarrow> Planet list \<Rightarrow> Planet \<times> real \<times> real \<times> nat \<times> int" where
  "goalSearch config randSeed ps =
     (let goalPlanetIndex0 = min (goalHops config) (int (length ps) - 1);
          goalPlanetIndex = (if goalPlanetIndex0 < 0 then (if length ps > 1 then 1 else 0)
                             else goalPlanetIndex0);
          goalPlanet = ps ! nat goalPlanetIndex;
          (r2, s2) = random randSeed;
          goalAngle = r2 * pi * 2;
          (r3, s3) = random s2;
          goalDistance = radius goalPlanet + 40 + r3 * 30;
          goalX0 = posX goalPlanet + cos goalAngle * goalDistance;
          goalY0 = posY goalPlanet + sin goalAngle * goalDistance
      in (goalPlanet, goalReroll ps goalPlanet goalDistance 0 goalX0 goalY0 s3))"

definition startAndGoal ::
  "Config \<Rightarrow> int \<Rightarrow> Planet list \<Rightarrow> Planet list \<times> (real \<times> real) \<times> (real \<times> real) \<times> int" where
  "startAndGoal config randSeed ps0 =
     (let ps = (if length ps0 = 0
                then ps0 @ [Planet_new 30 (CANVAS_WIDTH / 2) (CANVAS_HEIGHT / 2) 1] else ps0);
          startPlanet = ps ! 0;
          (r1, s1) = random randSeed;
          startAngle = r1 * pi * 2;
          start = (posX startPlanet + cos startAngle * (radius startPlanet + 15),
                   posY startPlanet + sin startAngle * (radius startPlanet + 15));
          (goalPlanet, goalX1, goalY1, attempts, s4) = goalSearch config s1 ps;
          (goalX2, goalY2) = forceGoalOutside goalPlanet attempts goalX1 goalY1;
          goalX = clampGoal CANVAS_WIDTH goalX2;
          goalY = clampGoal CANVAS_HEIGHT goalY2
      in (ps, start, (goalX, goalY), s4))"

text \<open>
  The second phase builds the level and adds the black holes (\<open>mkBlackHole\<close> is the
  \<^verbatim>\<open>BlackHole\<close> constructor of the version).  It returns the level and what is left of
  the ambient stream.
\<close>

definition addBlackHoles ::
  "(real \<Rightarrow> real \<Rightarrow> real \<Rightarrow> Ambient \<Rightarrow> BlackHole \<times> Ambient) \<Rightarrow> Config
     \<Rightarrow> Planet list \<times> (real \<times> real) \<times> (real \<times> real) \<times> int \<Rightarrow> Ambient \<Rightarrow> Level \<times> Ambient" where
  "addBlackHoles mkBlackHole config placed amb =
     (case placed of (ps, start, goalPos, randSeed) \<Rightarrow>
        (let level = Level_new ps start goalPos
         in case placeBlackHoles mkBlackHole ps (fst goalPos) (snd goalPos) start
                   (nat (blackHoleCount config)) (blackHoles level) randSeed amb of
              (holes, s', amb') \<Rightarrow> (level\<lparr>blackHoles := holes\<rparr>, amb')))"

definition finalizeLevelGeneration_script ::
  "int \<Rightarrow> Config \<Rightarrow> int \<Rightarrow> Planet list \<Rightarrow> Ambient \<Rightarrow> Level \<times> Ambient" where
  "finalizeLevelGeneration_script levelNumber config randSeed ps0 amb =
     addBlackHoles BlackHole_new_script config (startAndGoal_script config randSeed ps0) amb"

definition finalizeLevelGeneration ::
  "int \<Rightarrow> Config \<Rightarrow> int \<Rightarrow> Planet list \<Rightarrow> Ambient \<Rightarrow> Level \<times> Ambient" where
  "finalizeLevelGeneration levelNumber config randSeed ps0 amb =
     addBlackHoles BlackHole_new config (startAndGoal config randSeed ps0) amb"

text \<open>
  \<^verbatim>\<open>Level.generateLevel(levelNumber)\<close>, in the two versions.  The random sequence starts
  at \<^verbatim>\<open>randSeed = levelNumber\<close>.
\<close>

definition generateLevel_script :: "int \<Rightarrow> Ambient \<Rightarrow> Level \<times> Ambient" where
  "generateLevel_script levelNumber amb =
     (let (config, s1) = tierConfig levelNumber levelNumber;
          (ps, s2) = generateByArchetype levelNumber config s1
      in case finalizeLevelGeneration_script levelNumber config s2 ps amb of
           (level, amb') \<Rightarrow> (level\<lparr>seed := levelNumber, archetype := cfgArchetype config\<rparr>, amb'))"

definition generateLevel :: "int \<Rightarrow> Ambient \<Rightarrow> Level \<times> Ambient" where
  "generateLevel levelNumber amb =
     (let (config, s1) = tierConfig levelNumber levelNumber;
          (ps, s2) = generateByArchetype levelNumber config s1
      in case finalizeLevelGeneration levelNumber config s2 ps amb of
           (level, amb') \<Rightarrow> (level\<lparr>seed := levelNumber, archetype := cfgArchetype config\<rparr>, amb'))"

declare placeLoop.simps [simp del]

declare goalReroll.simps [simp del]

declare blackHoleLoop.simps [simp del]

text \<open>
  The physical content of a level: planets (position, radius, gravity strength), start and
  goal position, and position and radius of every black hole.  The vortex particles and the
  rotation phase of a black hole are cosmetic.
\<close>

definition physicalHole :: "BlackHole \<Rightarrow> real \<times> real \<times> real" where
  "physicalHole bh = (posX bh, posY bh, radius bh)"

definition physicalLevel ::
  "Level \<Rightarrow> Planet list \<times> (real \<times> real) \<times> (real \<times> real) \<times> (real \<times> real \<times> real) list" where
  "physicalLevel l =
     (planets l, startPosition l, goalPosition l, map physicalHole (blackHoles l))"

subsection \<open>Spacing of a generated level\<close>

text \<open>
  Centre-to-centre distance of two planets, and the spacing property of a planet list:
  every pair of distinct planets is at least the sum of the two radii plus \<open>spacing\<close>
  apart.
\<close>

definition planetDistance :: "Planet \<Rightarrow> Planet \<Rightarrow> real" where
  "planetDistance a b = sqrt ((posX a - posX b)\<^sup>2 + (posY a - posY b)\<^sup>2)"

definition planetsSpaced :: "real \<Rightarrow> Planet list \<Rightarrow> bool" where
  "planetsSpaced spacing ps =
     (\<forall>i j. i < length ps \<and> j < length ps \<and> i \<noteq> j \<longrightarrow>
        radius (ps ! i) + radius (ps ! j) + spacing \<le> planetDistance (ps ! i) (ps ! j))"

text \<open>A planet constructor that keeps the radius and position of the accepted candidate.\<close>

definition geometryKept :: "(Candidate \<Rightarrow> int \<Rightarrow> Planet \<times> int) \<Rightarrow> bool" where
  "geometryKept mk =
     (\<forall>r x y s. radius (fst (mk (r, x, y) s)) = r \<and> posX (fst (mk (r, x, y) s)) = x \<and>
        posY (fst (mk (r, x, y) s)) = y)"

text \<open>
  The planet list a level ends up with: the finalizer pushes one centred planet when the
  archetype produced none.
\<close>

definition finalPlanets :: "Planet list \<Rightarrow> Planet list" where
  "finalPlanets ps0 =
     (if length ps0 = 0 then ps0 @ [Planet_new 30 (CANVAS_WIDTH / 2) (CANVAS_HEIGHT / 2) 1] else ps0)"

text \<open>
  What the archetypes guarantee for a level, given the tier's \<^verbatim>\<open>minSpacing\<close>: the full
  spacing for simple and giant (rejection sampling), 1.2 times it for precision, 0.8
  times it for chaos, and 0.7 times it for maze and for binary (whose pair is placed at
  exactly that separation, the other planets being sampled at the full spacing).  Nothing
  is said of gauntlet, void and slingshot, which place their planets without a test.
\<close>

definition spacingByArchetype :: "real \<Rightarrow> Level \<Rightarrow> bool" where
  "spacingByArchetype ms l =
     ((archetype l = Simple \<or> archetype l = Giant \<longrightarrow> planetsSpaced ms (planets l)) \<and>
      (archetype l = Precision \<longrightarrow> planetsSpaced (ms * (12 / 10)) (planets l)) \<and>
      (archetype l = Maze \<or> archetype l = Binary \<longrightarrow> planetsSpaced (ms * (7 / 10)) (planets l)) \<and>
      (archetype l = Chaos \<longrightarrow> planetsSpaced (ms * (8 / 10)) (planets l)))"

text \<open>
  The goal centre is at least \<^verbatim>\<open>planet.radius + goalRadius + minBuffer\<close> (20 and 40) away
  from the centre of every planet: the test of the modular finalizer.  \<open>goalInside\<close> is
  the opposite extreme: the goal centre lies within a planet's disc.
\<close>

definition goalClear :: "Planet list \<Rightarrow> real \<Rightarrow> real \<Rightarrow> bool" where
  "goalClear ps goalX goalY =
     (\<forall>planet \<in> set ps. radius planet + 20 + 40 \<le> centreDistance goalX goalY planet)"

definition goalInside :: "Planet list \<Rightarrow> real \<times> real \<Rightarrow> bool" where
  "goalInside ps goalPos =
     list_ex (\<lambda>planet. centreDistance (fst goalPos) (snd goalPos) planet < radius planet) ps"

text \<open>
  For a level number, what the modular finalizer holds just before it clamps the goal:
  the goal planet, the goal position and the number of re-rolls made.
\<close>

definition goalBeforeClamp :: "int \<Rightarrow> Planet \<times> real \<times> real \<times> nat" where
  "goalBeforeClamp levelNumber =
     (let (config, s1) = tierConfig levelNumber levelNumber;
          (ps0, s2) = generateByArchetype levelNumber config s1;
          (r1, s3) = random s2;
          (goalPlanet, goalX1, goalY1, attempts, s4) = goalSearch config s3 (finalPlanets ps0);
          (goalX2, goalY2) = forceGoalOutside goalPlanet attempts goalX1 goalY1
      in (goalPlanet, goalX2, goalY2, attempts))"

text \<open>An ambient stream (every \<^verbatim>\<open>Math.random()\<close> returns 0), for concrete runs.\<close>

definition silentAmbient :: Ambient where
  "silentAmbient = (\<lambda>i. 0)"

section \<open>Simulation step\<close>

subsection \<open>Flight and surface physics\<close>

text \<open>\<^verbatim>\<open>wrapScreenPosition(entity)\<close>: opposite-edge teleport, each axis on its own.\<close>

definition wrapScreenPosition :: "'a Circle_scheme \<Rightarrow> 'a Circle_scheme" where
  "wrapScreenPosition entity =
     (let e1 = (if posX entity < 0 then entity\<lparr>posX := CANVAS_WIDTH\<rparr>
                else if posX entity > CANVAS_WIDTH then entity\<lparr>posX := 0\<rparr>
                else entity)
      in if posY e1 < 0 then e1\<lparr>posY := CANVAS_HEIGHT\<rparr>
         else if posY e1 > CANVAS_HEIGHT then e1\<lparr>posY := 0\<rparr>
         else e1)"

text \<open>
  The landing loop of \<^verbatim>\<open>Player.updatePhysics\<close>: the first planet, in level order, that
  the body touches or that its movement segment crosses.  The flag returned tells whether
  the body landed (the source then counts \<^verbatim>\<open>gameState.stats.totalLandings\<close>).  The
  particle burst and the trail are cosmetic and left out.
\<close>

fun landingLoop :: "Player \<Rightarrow> Planet list \<Rightarrow> Player \<times> bool" where
  "landingLoop this [] = (this, False)"
| "landingLoop this (planet # rest) =
     (let landingDistance = radius planet + radius this;
          dx = posX this - posX planet;
          dy = posY this - posY planet;
          distSquared = dx * dx + dy * dy;
          landingDistSquared = landingDistance * landingDistance;
          shouldLand0 = (if distSquared \<le> landingDistSquared then True else False);
          shouldLand =
            (if \<not> shouldLand0
             then (if lineSegmentIntersectsCircle (prevX this) (prevY this) (posX this) (posY this)
                        (posX planet) (posY planet) landingDistance
                   then True else shouldLand0)
             else shouldLand0)
      in if shouldLand then
           (let surfaceDistance = radius planet + radius this;
                ang = atan2 dy dx
            in (this\<lparr>onPlanet := True, currentPlanet := Some planet, hasJumped := False,
                      angle := ang,
                      posX := posX planet + cos ang * surfaceDistance,
                      posY := posY planet + sin ang * surfaceDistance,
                      vx := 0, vy := 0, angularSpeed := 0\<rparr>, True))
         else landingLoop this rest)"

text \<open>
  The on-planet branch: run the angular movement of the version (\<open>angular\<close>), then pin the
  body to the surface point at the current angle.  The branch is entered with a current
  planet, which the angular movement does not touch; the case \<open>None\<close> is never taken.
\<close>

definition surfacePhase :: "(real \<Rightarrow> Player \<Rightarrow> Player) \<Rightarrow> real \<Rightarrow> Player \<Rightarrow> Player" where
  "surfacePhase angular dt this =
     (let this1 = angular dt this
      in case currentPlanet this1 of
           None \<Rightarrow> this1
         | Some planet \<Rightarrow>
             (let surfaceDistance = radius planet + radius this1 + 2;
                  cosAngle = cos (angle this1);
                  sinAngle = sin (angle this1)
              in this1\<lparr>posX := posX planet + cosAngle * surfaceDistance,
                        posY := posY planet + sinAngle * surfaceDistance\<rparr>))"

text \<open>
  The free-fall branch, first half: sum the forces of every planet, of the goal and of
  every black hole, then integrate velocity and position (explicit Euler).
\<close>

definition totalForce :: "real \<Rightarrow> Level \<Rightarrow> Planet list \<Rightarrow> Player \<Rightarrow> real \<times> real" where
  "totalForce gm level ps this =
     (let f1 = fold (\<lambda>planet f. (fst f + fst (Planet_calculateGravity gm planet this),
                                  snd f + snd (Planet_calculateGravity gm planet this)))
                 ps (0, 0);
          goalGravity = goal_calculateGravity gm (goal level) this;
          f2 = (fst f1 + fst goalGravity, snd f1 + snd goalGravity)
      in fold (\<lambda>blackHole f. (fst f + fst (BlackHole_calculateGravity gm blackHole this),
                               snd f + snd (BlackHole_calculateGravity gm blackHole this)))
           (blackHoles level) f2)"

definition integrate :: "real \<Rightarrow> Level \<Rightarrow> Planet list \<Rightarrow> real \<Rightarrow> Player \<Rightarrow> Player" where
  "integrate gm level ps dt this =
     (let force = totalForce gm level ps this;
          this1 = this\<lparr>vx := vx this + fst force * dt, vy := vy this + snd force * dt\<rparr>
      in this1\<lparr>posX := posX this1 + vx this1 * dt, posY := posY this1 + vy this1 * dt\<rparr>)"

text \<open>
  The free-fall branch, second half: wrap the position, and when the wrap changed it set
  \<^verbatim>\<open>screenWrapped\<close> and move \<^verbatim>\<open>prevX, prevY\<close> to the wrapped position.
\<close>

definition wrapAndReset :: "Player \<Rightarrow> Player" where
  "wrapAndReset this =
     (let this1 = this\<lparr>screenWrapped := False\<rparr>;
          oldX = posX this1;
          oldY = posY this1;
          this2 = wrapScreenPosition this1
      in if posX this2 \<noteq> oldX \<or> posY this2 \<noteq> oldY
         then this2\<lparr>screenWrapped := True, prevX := posX this2, prevY := posY this2\<rparr>
         else this2)"

definition freeFallPhase :: "real \<Rightarrow> Level \<Rightarrow> Planet list \<Rightarrow> real \<Rightarrow> Player \<Rightarrow> Player" where
  "freeFallPhase gm level ps dt this = wrapAndReset (integrate gm level ps dt this)"

text \<open>
  \<^verbatim>\<open>Player.updatePhysics(planets, keys, deltaTime)\<close>.  The two versions have the same
  text and call their own \<^verbatim>\<open>updateAngularMovement\<close>, here \<open>angular\<close>.  The globals read
  (\<^verbatim>\<open>gameState.gameSpeed\<close>, \<^verbatim>\<open>gravityMultiplier\<close>, \<^verbatim>\<open>currentLevel\<close>) are arguments.
\<close>

definition updatePhysics ::
  "(real \<Rightarrow> Player \<Rightarrow> Player) \<Rightarrow> real \<Rightarrow> real \<Rightarrow> Level \<Rightarrow> Planet list \<Rightarrow> real \<Rightarrow> Player
     \<Rightarrow> Player \<times> bool" where
  "updatePhysics angular speed gm level ps deltaTime this =
     (let dt = deltaTime * (1 / 1000) * speed;
          landing = (if \<not> onPlanet this then landingLoop this ps else (this, False));
          this1 = fst landing
      in (if onPlanet this1 \<and> currentPlanet this1 \<noteq> None
          then surfacePhase angular dt this1
          else freeFallPhase gm level ps dt this1,
          snd landing))"

subsection \<open>Goal and lethal-collision evaluation\<close>

text \<open>\<^verbatim>\<open>Level.checkGoal(player)\<close>\<close>

definition checkGoal :: "Level \<Rightarrow> Player \<Rightarrow> bool" where
  "checkGoal this player =
     (let dx = posX player - fst (goalPosition this);
          dy = posY player - snd (goalPosition this);
          distSquared = dx * dx + dy * dy;
          goalRadiusSquared = goalRadius this * goalRadius this
      in if distSquared \<le> goalRadiusSquared then True
         else lineSegmentIntersectsCircle (prevX player) (prevY player) (posX player) (posY player)
                (fst (goalPosition this)) (snd (goalPosition this)) (goalRadius this))"

text \<open>\<^verbatim>\<open>checkBlackHoleCollision(player, blackHoles)\<close>\<close>

fun checkBlackHoleCollision :: "Player \<Rightarrow> BlackHole list \<Rightarrow> bool" where
  "checkBlackHoleCollision player [] = False"
| "checkBlackHoleCollision player (blackHole # rest) =
     (let combinedRadius = radius blackHole + radius player;
          dx = posX player - posX blackHole;
          dy = posY player - posY blackHole;
          distSquared = dx * dx + dy * dy;
          radiusSquared = combinedRadius * combinedRadius
      in if distSquared < radiusSquared then True
         else if lineSegmentIntersectsCircle (prevX player) (prevY player) (posX player)
                   (posY player) (posX blackHole) (posY blackHole) combinedRadius
         then True
         else checkBlackHoleCollision player rest)"

text \<open>
  \<^verbatim>\<open>BlackHole.update(dt)\<close>: cosmetic animation of the rotation phase and of the vortex
  particles (a particle that reaches the centre restarts at a random angle).
\<close>

fun updateParticles :: "real \<Rightarrow> real \<Rightarrow> VortexParticle list \<Rightarrow> Ambient \<Rightarrow> VortexParticle list \<times> Ambient" where
  "updateParticles r0 dt [] amb = ([], amb)"
| "updateParticles r0 dt (particle # rest) amb =
     (let p1 = particle\<lparr>pAngle := pAngle particle + pSpeed particle * dt,
                         pDistance := pDistance particle - pSpeed particle * 8 * dt\<rparr>
      in if pDistance p1 < r0
         then (case Math_random amb of
                 (v, amb1) \<Rightarrow>
                   (case updateParticles r0 dt rest amb1 of
                      (rest', amb2) \<Rightarrow>
                        (p1\<lparr>pDistance := r0 + 30, pAngle := v * pi * 2\<rparr> # rest', amb2)))
         else (case updateParticles r0 dt rest amb of
                 (rest', amb2) \<Rightarrow> (p1 # rest', amb2)))"

definition BlackHole_update :: "real \<Rightarrow> BlackHole \<Rightarrow> Ambient \<Rightarrow> BlackHole \<times> Ambient" where
  "BlackHole_update dt this amb =
     (case updateParticles (radius this) dt (particles this) amb of
        (ps, amb') \<Rightarrow> (this\<lparr>rotation := rotation this + dt * (5 / 10), particles := ps\<rparr>, amb'))"

fun updateBlackHoles :: "real \<Rightarrow> BlackHole list \<Rightarrow> Ambient \<Rightarrow> BlackHole list \<times> Ambient" where
  "updateBlackHoles dt [] amb = ([], amb)"
| "updateBlackHoles dt (blackHole # rest) amb =
     (case BlackHole_update dt blackHole amb of
        (bh, amb1) \<Rightarrow>
          (case updateBlackHoles dt rest amb1 of
             (rest', amb2) \<Rightarrow> (bh # rest', amb2)))"

subsection \<open>Game state and level transitions\<close>

text \<open>
  The fields of the global \<^verbatim>\<open>gameState\<close> that the simulation step and the transition
  handlers read or write.  Rendering, menus, the particle pool, the screen shake and the
  writes to local storage are left out.  \<^verbatim>\<open>lives\<close> is \<^verbatim>\<open>Infinity\<close> in the speedrun and
  practice modes.  The field \<open>ambient\<close> is the stream of the results of the
  \<^verbatim>\<open>Math.random()\<close> calls still to come.
\<close>

datatype Mode = Endless | Speedrun | Daily | Practice

datatype Lives = Finite int | Infinite

text \<open>
  A value stored in a speedrun record: a number, \<^verbatim>\<open>Infinity\<close> (the records a game starts
  with), or \<^verbatim>\<open>null\<close> (what \<^verbatim>\<open>Infinity\<close> becomes once the records have been written to
  local storage and read back).  For a number \<open>n\<close>, \<open>below n stored\<close> is \<^verbatim>\<open>n < stored\<close>
  (where \<^verbatim>\<open>null\<close> counts as 0) and \<open>same n stored\<close> is \<^verbatim>\<open>n === stored\<close>.
\<close>

datatype Best = Infinity | Number real | Null

definition below :: "real \<Rightarrow> Best \<Rightarrow> bool" where
  "below n stored = (case stored of Infinity \<Rightarrow> True | Number m \<Rightarrow> n < m | Null \<Rightarrow> n < 0)"

definition same :: "real \<Rightarrow> Best \<Rightarrow> bool" where
  "same n stored = (case stored of Infinity \<Rightarrow> False | Number m \<Rightarrow> n = m | Null \<Rightarrow> False)"

text \<open>
  One entry of \<^verbatim>\<open>gameState.speedrunRecords\<close>; its fields \<^verbatim>\<open>time\<close> and \<^verbatim>\<open>deaths\<close> are
  \<open>bestTime\<close> and \<open>bestDeaths\<close>.  The object \<^verbatim>\<open>speedrunRecords\<close> is a map from the target
  (its key is \<^verbatim>\<open>target.toString()\<close>) to the entry; it starts with entries for 10, 25 and
  100 only.
\<close>

record SpeedrunRecord =
  bestTime :: Best
  bestDeaths :: Best
  deathlessTime :: Best

definition initialRecords :: "int \<Rightarrow> SpeedrunRecord option" where
  "initialRecords =
     (let unset = \<lparr>bestTime = Infinity, bestDeaths = Infinity, deathlessTime = Infinity\<rparr>
      in Map.empty(10 \<mapsto> unset, 25 \<mapsto> unset, 100 \<mapsto> unset))"

record Stats =
  totalDeaths :: int
  totalLevelsCompleted :: int
  totalTimePlayed :: real
  totalJumps :: int
  totalLandings :: int
  longestStreak :: int

record GameState =
  currentLevel :: Level
  player :: Player
  gameStarted :: bool
  paused :: bool
  keys :: Keys
  mobileInput :: MobileInput
  mode :: Mode
  speedrunTarget :: int
  currentLevelNumber :: int
  score :: int
  levelsCompleted :: int
  deaths :: int
  lives :: Lives
  startTime :: real
  currentTime :: real
  highScore :: int
  speedrunRecords :: "int \<Rightarrow> SpeedrunRecord option"
  dailyBestScore :: int
  gameSpeed :: real
  gravityMultiplier :: real
  stats :: Stats
  ambient :: Ambient

text \<open>The two versions of the source: \<^verbatim>\<open>script.js\<close> and the modular files.\<close>

datatype Version = Script | Modular

definition generateLevelOf :: "Version \<Rightarrow> int \<Rightarrow> Ambient \<Rightarrow> Level \<times> Ambient" where
  "generateLevelOf v = (case v of Script \<Rightarrow> generateLevel_script | Modular \<Rightarrow> generateLevel)"

definition newPlayerOf :: "Version \<Rightarrow> real \<Rightarrow> real \<Rightarrow> Planet option \<Rightarrow> Player" where
  "newPlayerOf v = (case v of Script \<Rightarrow> Player_new_script | Modular \<Rightarrow> Player_new)"

text \<open>\<^verbatim>\<open>planets[0]\<close>, \<^verbatim>\<open>undefined\<close> on an empty array.\<close>

definition firstPlanet :: "Level \<Rightarrow> Planet option" where
  "firstPlanet level = (case planets level of [] \<Rightarrow> None | p # rest \<Rightarrow> Some p)"

text \<open>
  \<^verbatim>\<open>new Player(currentLevel.startPosition.x, currentLevel.startPosition.y,
  currentLevel.planets[0])\<close>, the expression every transition ends with.
\<close>

definition spawnPlayer :: "Version \<Rightarrow> Level \<Rightarrow> Player" where
  "spawnPlayer v level =
     newPlayerOf v (fst (startPosition level)) (snd (startPosition level)) (firstPlanet level)"

text \<open>
  \<^verbatim>\<open>calculateEndlessScore()\<close>, and the part of \<^verbatim>\<open>updateUI()\<close> that writes the state.
  The score is an integer part: the quotients, the product and the sum under it are
  rounded (the level count, its cube and a thousand times it are integers).
\<close>

definition calculateEndlessScore :: "GameState \<Rightarrow> int" where
  "calculateEndlessScore gs =
     (let levels = levelsCompleted gs;
          time = double (currentTime gs / 1000)
      in if levels = 0 \<or> time = 0 then 0
         else (let baseScore = real_of_int levels * 1000;
                   speedBonus = double (double (6000 * real_of_int levels ^ 3) / time)
               in \<lfloor>double (baseScore + speedBonus)\<rfloor>))"

definition updateUI :: "GameState \<Rightarrow> GameState" where
  "updateUI gs =
     (if mode gs = Endless \<or> mode gs = Daily then gs\<lparr>score := calculateEndlessScore gs\<rparr> else gs)"

text \<open>
  \<^verbatim>\<open>gameState.currentLevel = Level.generateLevel(n)\<close>: the new level replaces the old one
  and the ambient stream advances.
\<close>

definition loadLevel :: "Version \<Rightarrow> int \<Rightarrow> GameState \<Rightarrow> GameState" where
  "loadLevel v n gs =
     (case generateLevelOf v n (ambient gs) of
        (level, amb') \<Rightarrow> gs\<lparr>currentLevel := level, ambient := amb'\<rparr>)"

text \<open>
  A handler either returns or throws.  \<^verbatim>\<open>completeSpeedrun\<close> reads
  \<^verbatim>\<open>gameState.speedrunRecords[target.toString()]\<close> and then a field of what it got; when
  the records hold no entry for the target, the read of the field throws a \<^verbatim>\<open>TypeError\<close>
  that nothing catches: the handler, \<^verbatim>\<open>update\<close> and the frame stop there, with every
  assignment made so far in place.  Both outcomes carry the state.
\<close>

datatype Outcome = Returned GameState | TypeError GameState

definition stateOf :: "Outcome \<Rightarrow> GameState" where
  "stateOf outcome = (case outcome of Returned gs \<Rightarrow> gs | TypeError gs \<Rightarrow> gs)"

definition threw :: "Outcome \<Rightarrow> bool" where
  "threw outcome = (case outcome of Returned gs \<Rightarrow> False | TypeError gs \<Rightarrow> True)"

text \<open>
  \<^verbatim>\<open>completeSpeedrun()\<close>.  The local \<^verbatim>\<open>current\<close> is the entry of the target; both
  conditions read a field of it, so a missing entry throws before anything is assigned.
  The entry is updated in place, the time played is added, and the game is stopped.
\<close>

definition completeSpeedrun :: "GameState \<Rightarrow> Outcome" where
  "completeSpeedrun gs =
     (let finalTime = currentTime gs;
          finalDeaths = deaths gs;
          target = speedrunTarget gs
      in case speedrunRecords gs target of
           None \<Rightarrow> TypeError gs
         | Some current \<Rightarrow>
             (let current1 =
                    (if finalDeaths = 0 \<and> below finalTime (deathlessTime current)
                     then current\<lparr>deathlessTime := Number finalTime\<rparr> else current);
                  current2 =
                    (if below finalTime (bestTime current1) \<or>
                        (same finalTime (bestTime current1) \<and>
                         below (real_of_int finalDeaths) (bestDeaths current1))
                     then current1\<lparr>bestTime := Number finalTime,
                                   bestDeaths := Number (real_of_int finalDeaths)\<rparr>
                     else current1)
              in Returned
                   (gs\<lparr>speedrunRecords := (speedrunRecords gs)(target \<mapsto> current2),
                       stats := (stats gs)\<lparr>totalTimePlayed :=
                                  totalTimePlayed (stats gs) + currentTime gs\<rparr>,
                       gameStarted := False\<rparr>)))"

text \<open>
  \<^verbatim>\<open>handleLevelComplete()\<close>.  \<open>dailySeed\<close> is the value of \<^verbatim>\<open>getDailyChallengeSeed()\<close>,
  a function of the calendar date.
\<close>

definition handleLevelComplete :: "Version \<Rightarrow> int \<Rightarrow> GameState \<Rightarrow> Outcome" where
  "handleLevelComplete v dailySeed gs0 =
     (let gs = gs0\<lparr>levelsCompleted := levelsCompleted gs0 + 1,
                    stats := (stats gs0)\<lparr>totalLevelsCompleted := totalLevelsCompleted (stats gs0) + 1\<rparr>\<rparr>
      in if mode gs = Speedrun \<and> levelsCompleted gs \<ge> speedrunTarget gs then completeSpeedrun gs
         else
           (let gs1 =
                  (case mode gs of
                     Speedrun \<Rightarrow>
                       (let g = gs\<lparr>currentLevelNumber := currentLevelNumber gs + 1\<rparr>
                        in loadLevel v (currentLevelNumber g) g)
                   | Endless \<Rightarrow>
                       (let g = gs\<lparr>currentLevelNumber := currentLevelNumber gs + 1\<rparr>;
                            g1 = loadLevel v (currentLevelNumber g) g;
                            g2 = g1\<lparr>score := calculateEndlessScore g1\<rparr>
                        in if score g2 > highScore g2 then g2\<lparr>highScore := score g2\<rparr> else g2)
                   | Daily \<Rightarrow>
                       (let g = gs\<lparr>currentLevelNumber := currentLevelNumber gs + 1\<rparr>;
                            g1 = loadLevel v (dailySeed + levelsCompleted g) g;
                            g2 = g1\<lparr>score := calculateEndlessScore g1\<rparr>
                        in if score g2 > dailyBestScore g2 then g2\<lparr>dailyBestScore := score g2\<rparr>
                           else g2)
                   | Practice \<Rightarrow>
                       (let g = gs\<lparr>currentLevelNumber := currentLevelNumber gs + 1\<rparr>
                        in loadLevel v (currentLevelNumber g) g))
            in Returned (updateUI (gs1\<lparr>player := spawnPlayer v (currentLevel gs1)\<rparr>))))"

text \<open>
  \<^verbatim>\<open>handlePlayerDeath()\<close>, with its result (\<^verbatim>\<open>false\<close> when the game is over).  With lives
  remaining it builds a new player on \<^verbatim>\<open>gameState.currentLevel\<close>, which it does not
  assign.
\<close>

definition decrementLives :: "Lives \<Rightarrow> Lives" where
  "decrementLives l = (case l of Finite n \<Rightarrow> Finite (n - 1) | Infinite \<Rightarrow> Infinite)"

definition noLivesLeft :: "Lives \<Rightarrow> bool" where
  "noLivesLeft l = (case l of Finite n \<Rightarrow> n \<le> 0 | Infinite \<Rightarrow> False)"

definition handlePlayerDeath :: "Version \<Rightarrow> GameState \<Rightarrow> GameState \<times> bool" where
  "handlePlayerDeath v gs0 =
     (let gs = gs0\<lparr>deaths := deaths gs0 + 1,
                    stats := (stats gs0)\<lparr>totalDeaths := totalDeaths (stats gs0) + 1\<rparr>\<rparr>;
          gs1 = (if mode gs = Endless \<or> mode gs = Daily
                 then gs\<lparr>lives := decrementLives (lives gs)\<rparr> else gs)
      in if (mode gs1 = Endless \<or> mode gs1 = Daily) \<and> noLivesLeft (lives gs1) then
           (let gs2 = gs1\<lparr>gameStarted := False\<rparr>;
                gs3 = (if levelsCompleted gs2 > longestStreak (stats gs2)
                       then gs2\<lparr>stats := (stats gs2)\<lparr>longestStreak := levelsCompleted gs2\<rparr>\<rparr>
                       else gs2)
            in (gs3\<lparr>stats := (stats gs3)\<lparr>totalTimePlayed :=
                                   totalTimePlayed (stats gs3) + currentTime gs3\<rparr>\<rparr>, False))
         else (updateUI (gs1\<lparr>player := spawnPlayer v (currentLevel gs1)\<rparr>), True))"

text \<open>\<^verbatim>\<open>restartLevel()\<close> (the \<^verbatim>\<open>R\<close> key does the same without touching \<^verbatim>\<open>paused\<close>).\<close>

definition restartLevel :: "Version \<Rightarrow> GameState \<Rightarrow> GameState" where
  "restartLevel v gs0 =
     (let gs = gs0\<lparr>paused := False\<rparr>;
          gs1 = loadLevel v (currentLevelNumber gs) gs
      in gs1\<lparr>player := spawnPlayer v (currentLevel gs1)\<rparr>)"

subsection \<open>The step\<close>

text \<open>\<^verbatim>\<open>updateMobileInput()\<close> of the modular version.\<close>

definition updateMobileInput :: "MobileInput \<Rightarrow> MobileInput" where
  "updateMobileInput m =
     (if \<not> active m then m\<lparr>left := False, right := False, targetSpeed := 0\<rparr>
      else (let deltaX = currentX m - centerX m;
                distance = \<bar>deltaX\<bar>
            in if distance < deadzone m then m\<lparr>left := False, right := False, targetSpeed := 0\<rparr>
               else (let clampedDistance = min distance (maxDistance m);
                         directionRight = (deltaX > 0)
                     in m\<lparr>targetSpeed := clampedDistance / maxDistance m,
                          left := \<not> directionRight, right := directionRight\<rparr>)))"

text \<open>
  The first part of \<^verbatim>\<open>update(deltaTime)\<close>, up to the collision checks: timer, previous
  position, player kinetics, black-hole animation.  \<open>now\<close> is the value of
  \<^verbatim>\<open>performance.now()\<close>.
\<close>

definition landed :: "bool \<Rightarrow> Stats \<Rightarrow> Stats" where
  "landed b st = (if b then st\<lparr>totalLandings := totalLandings st + 1\<rparr> else st)"

definition animateBlackHoles :: "real \<Rightarrow> GameState \<Rightarrow> GameState" where
  "animateBlackHoles deltaTime gs =
     (let bhDt = deltaTime * (1 / 1000) * gameSpeed gs
      in case updateBlackHoles bhDt (blackHoles (currentLevel gs)) (ambient gs) of
           (holes, amb') \<Rightarrow>
             gs\<lparr>currentLevel := (currentLevel gs)\<lparr>blackHoles := holes\<rparr>, ambient := amb'\<rparr>)"

text \<open>
  The two assignments \<^verbatim>\<open>gameState.player.prevX = gameState.player.x\<close> and
  \<^verbatim>\<open>gameState.player.prevY = gameState.player.y\<close>, and the call
  \<^verbatim>\<open>gameState.player.updatePhysics(gameState.currentLevel.planets, keys, deltaTime)\<close> of
  each version with the globals it reads; the modular version passes the keyboard keys
  combined with the joystick directions.
\<close>

definition storePrevious :: "GameState \<Rightarrow> GameState" where
  "storePrevious gs =
     gs\<lparr>player := (player gs)\<lparr>prevX := posX (player gs), prevY := posY (player gs)\<rparr>\<rparr>"

definition movePlayer_script :: "real \<Rightarrow> GameState \<Rightarrow> Player \<times> bool" where
  "movePlayer_script deltaTime gs =
     updatePhysics (updateAngularMovement_script (keys gs)) (gameSpeed gs)
       (gravityMultiplier gs) (currentLevel gs) (planets (currentLevel gs))
       deltaTime (player gs)"

definition movePlayer :: "real \<Rightarrow> GameState \<Rightarrow> Player \<times> bool" where
  "movePlayer deltaTime gs =
     (let combinedKeys = \<lparr>left = left (keys gs) \<or> left (mobileInput gs),
                           right = right (keys gs) \<or> right (mobileInput gs)\<rparr>
      in updatePhysics (updateAngularMovement (mobileInput gs) combinedKeys)
           (gameSpeed gs) (gravityMultiplier gs) (currentLevel gs)
           (planets (currentLevel gs)) deltaTime (player gs))"

definition kinetics_script :: "real \<Rightarrow> real \<Rightarrow> GameState \<Rightarrow> GameState" where
  "kinetics_script now deltaTime gs0 =
     (let gs1 = gs0\<lparr>currentTime := now - startTime gs0\<rparr>;
          gs2 = storePrevious gs1;
          moved = movePlayer_script deltaTime gs2;
          gs3 = gs2\<lparr>player := fst moved, stats := landed (snd moved) (stats gs2)\<rparr>
      in animateBlackHoles deltaTime gs3)"

definition kinetics :: "real \<Rightarrow> real \<Rightarrow> GameState \<Rightarrow> GameState" where
  "kinetics now deltaTime gs0 =
     (let gs1 = gs0\<lparr>currentTime := now - startTime gs0\<rparr>;
          gs2 = storePrevious gs1;
          gs2m = gs2\<lparr>mobileInput := updateMobileInput (mobileInput gs2)\<rparr>;
          moved = movePlayer deltaTime gs2m;
          gs3 = gs2m\<lparr>player := fst moved, stats := landed (snd moved) (stats gs2m)\<rparr>
      in animateBlackHoles deltaTime gs3)"

text \<open>
  The second part of \<^verbatim>\<open>update\<close>, the same in both versions: black-hole lethality, with
  \<^verbatim>\<open>return\<close> after the death handler, then goal completion, then the score display
  (\<open>scoreDisplay\<close>), which an exception of the completion handler skips.
\<close>

definition scoreDisplay :: "GameState \<Rightarrow> GameState" where
  "scoreDisplay gs = (if mode gs = Endless \<or> mode gs = Daily then updateUI gs else gs)"

definition evaluate :: "Version \<Rightarrow> int \<Rightarrow> GameState \<Rightarrow> Outcome" where
  "evaluate v dailySeed gs =
     (if checkBlackHoleCollision (player gs) (blackHoles (currentLevel gs))
      then Returned (fst (handlePlayerDeath v gs))
      else if checkGoal (currentLevel gs) (player gs)
      then (case handleLevelComplete v dailySeed gs of
              Returned gs1 \<Rightarrow> Returned (scoreDisplay gs1)
            | TypeError gs1 \<Rightarrow> TypeError gs1)
      else Returned (scoreDisplay gs))"

text \<open>
  \<^verbatim>\<open>update(deltaTime)\<close> of \<^verbatim>\<open>script.js\<close> and of the modular version.  A game that is not
  started or is paused changes nothing that is modelled.
\<close>

definition update_script :: "real \<Rightarrow> int \<Rightarrow> real \<Rightarrow> GameState \<Rightarrow> Outcome" where
  "update_script now dailySeed deltaTime gs =
     (if \<not> gameStarted gs \<or> paused gs then Returned gs
      else evaluate Script dailySeed (kinetics_script now deltaTime gs))"

definition update :: "real \<Rightarrow> int \<Rightarrow> real \<Rightarrow> GameState \<Rightarrow> Outcome" where
  "update now dailySeed deltaTime gs =
     (if \<not> gameStarted gs \<or> paused gs then Returned gs
      else evaluate Modular dailySeed (kinetics now deltaTime gs))"

subsection \<open>What a step must report\<close>

text \<open>
  The order of evaluation within one step, as a relation between the state before the
  step, the body \<open>moved\<close> that the player's physics update returns for that state, the
  state \<open>mid\<close> the checks are made on, and the outcome of the step.  The body of \<open>mid\<close> is
  \<open>moved\<close>: the kinetics have run when the checks are made.  The two checks are stated on
  \<open>moved\<close> and the level before the step (the black-hole animation moves no hole and the
  goal is fixed).  A lethal contact runs the death handler on \<open>mid\<close> and nothing else: one
  more death, no level completed, even when the goal test succeeds.  A goal reached
  without a lethal contact completes one level and counts no death.  Otherwise neither
  counter moves and the step leaves the body at \<open>moved\<close>.  No step counts both a death and
  a completed level.
\<close>

definition deathBeforeGoal :: "Version \<Rightarrow> GameState \<Rightarrow> Player \<Rightarrow> GameState \<Rightarrow> Outcome \<Rightarrow> bool" where
  "deathBeforeGoal v before moved mid outcome =
     (let lethal = checkBlackHoleCollision moved (blackHoles (currentLevel before));
          atGoal = checkGoal (currentLevel before) moved;
          after = stateOf outcome
      in player mid = moved \<and>
         deaths mid = deaths before \<and> levelsCompleted mid = levelsCompleted before \<and>
         (lethal \<longrightarrow> outcome = Returned (fst (handlePlayerDeath v mid)) \<and>
                     deaths after = deaths before + 1 \<and>
                     levelsCompleted after = levelsCompleted before) \<and>
         (\<not> lethal \<and> atGoal \<longrightarrow> deaths after = deaths before \<and>
                     levelsCompleted after = levelsCompleted before + 1) \<and>
         (\<not> lethal \<and> \<not> atGoal \<longrightarrow> deaths after = deaths before \<and>
                     levelsCompleted after = levelsCompleted before \<and>
                     player after = moved) \<and>
         \<not> (deaths after = deaths before + 1 \<and> levelsCompleted after = levelsCompleted before + 1))"

text \<open>
  The level number a completed level leads to, and the one goal completion that loads
  no level (the last level of a speedrun).
\<close>

definition nextLevelNumber :: "int \<Rightarrow> GameState \<Rightarrow> int" where
  "nextLevelNumber dailySeed gs =
     (if mode gs = Daily then dailySeed + (levelsCompleted gs + 1) else currentLevelNumber gs + 1)"

definition speedrunDone :: "GameState \<Rightarrow> bool" where
  "speedrunDone gs = (mode gs = Speedrun \<and> speedrunTarget gs \<le> levelsCompleted gs + 1)"

subsection \<open>Scenario states\<close>

text \<open>
  A body in flight one pixel from the right edge, moving right at 100 px/s, in a level with a
  black hole on the line of the wrap teleport.
\<close>

definition wrapHole :: BlackHole where
  "wrapHole = \<lparr>posX = 600, posY = 300, radius = 10, gravityStrength = 4, particles = [], rotation = 0\<rparr>"

definition wrapLevel :: Level where
  "wrapLevel = (Level_new [Planet_new 35 100 300 1] (150, 300) (400, 300))\<lparr>blackHoles := [wrapHole]\<rparr>"

definition flier :: Player where
  "flier =
     \<lparr>posX = 799, posY = 300, radius = 8,
      prevX = 799, prevY = 300, screenWrapped = False, vx = 100, vy = 0,
      onPlanet = False, currentPlanet = None, hasJumped = True,
      angle = 0, angularSpeed = 0, baseAngularSpeed = 37,
      angularAcceleration = 28, angularDeceleration = 17,
      escapeThreshold = 7 / 10\<rparr>"

text \<open>
  A running game in which the body flies at 3000 px/s towards a goal circle and a black
  hole that overlap: before the step it is 40 from the goal centre and 50 from the hole,
  touching neither, and a step of 16 ms carries it into both.  The black hole has been
  animated for three seconds (\<open>rotation = 3/2\<close>).  \<open>goalOnly\<close> is the same state without
  the black hole, \<open>lastLife\<close> the same state with one life left, \<open>lastLevel\<close> the goal-only
  state in the last level of a speedrun over 10 levels, and \<open>oddTarget\<close> the same with a
  target of 7 levels, for which the records have no entry.
\<close>

definition agedHole :: BlackHole where
  "agedHole = \<lparr>posX = 510, posY = 300, radius = 10, gravityStrength = 4, particles = [],
               rotation = 3 / 2\<rparr>"

definition contestLevel :: Level where
  "contestLevel =
     (Level_new [Planet_new 35 100 300 1] (150, 300) (500, 300))\<lparr>blackHoles := [agedHole]\<rparr>"

definition contested :: GameState where
  "contested =
     \<lparr>currentLevel = contestLevel,
      player = flier\<lparr>posX := 460, prevX := 460, vx := 3000\<rparr>,
      gameStarted = True, paused = False,
      keys = \<lparr>left = False, right = False\<rparr>,
      mobileInput = joystickIdle,
      mode = Endless, speedrunTarget = 10, currentLevelNumber = 7, score = 0,
      levelsCompleted = 6, deaths = 2, lives = Finite 3,
      startTime = 0, currentTime = 0, highScore = 0, speedrunRecords = initialRecords,
      dailyBestScore = 0,
      gameSpeed = 1, gravityMultiplier = 2,
      stats = \<lparr>totalDeaths = 2, totalLevelsCompleted = 6, totalTimePlayed = 0, totalJumps = 9,
               totalLandings = 8, longestStreak = 0\<rparr>,
      ambient = silentAmbient\<rparr>"

definition goalOnly :: GameState where
  "goalOnly = contested\<lparr>currentLevel := contestLevel\<lparr>blackHoles := []\<rparr>\<rparr>"

definition lastLife :: GameState where
  "lastLife = contested\<lparr>lives := Finite 1\<rparr>"

definition lastLevel :: GameState where
  "lastLevel = goalOnly\<lparr>mode := Speedrun, lives := Infinite, speedrunTarget := 10,
                         levelsCompleted := 9, currentLevelNumber := 10\<rparr>"

definition oddTarget :: GameState where
  "oddTarget = goalOnly\<lparr>mode := Speedrun, lives := Infinite, speedrunTarget := 7\<rparr>"

section \<open>Swept collision test in exact arithmetic\<close>

text \<open>
  With \<open>a > 0\<close> and a non-negative discriminant, the quadratic \<open>a t\<^sup>2 + b t + c\<close> is
  non-positive exactly between its two roots.
\<close>

lemma quad_key:
  fixes a b c t :: real
  assumes a: "0 < a" and d: "0 \<le> b * b - 4 * a * c"
  shows "a * t * t + b * t + c \<le> 0 \<longleftrightarrow>
         (- b - sqrt (b * b - 4 * a * c)) / (2 * a) \<le> t \<and> t \<le> (- b + sqrt (b * b - 4 * a * c)) / (2 * a)"
proof -
  define s where "s = sqrt (b * b - 4 * a * c)"
  have s0: "0 \<le> s" and s2: "s * s = b * b - 4 * a * c"
    using d by (simp_all add: s_def)
  have e: "4 * a * (a * t * t + b * t + c) = (2 * a * t + b) * (2 * a * t + b) - s * s"
    unfolding s2 by (simp add: algebra_simps)
  have "a * t * t + b * t + c \<le> 0 \<longleftrightarrow> 4 * a * (a * t * t + b * t + c) \<le> 0"
    using a by (simp add: mult_le_0_iff)
  also have "\<dots> \<longleftrightarrow> (2 * a * t + b) * (2 * a * t + b) \<le> s * s"
    unfolding e by simp
  also have "\<dots> \<longleftrightarrow> \<bar>2 * a * t + b\<bar> \<le> s"
    using s0 by (metis abs_le_square_iff abs_of_nonneg power2_eq_square)
  also have "\<dots> \<longleftrightarrow> (- b - s) / (2 * a) \<le> t \<and> t \<le> (- b + s) / (2 * a)"
    using a by (auto simp: field_simps abs_le_iff)
  finally show ?thesis unfolding s_def .
qed

lemma quad_neg_disc:
  fixes a b c t :: real
  assumes a: "0 < a" and q: "a * t * t + b * t + c \<le> 0"
  shows "0 \<le> b * b - 4 * a * c"
proof -
  have "b * b - 4 * a * c = (2 * a * t + b) * (2 * a * t + b) - 4 * a * (a * t * t + b * t + c)"
    by (simp add: algebra_simps)
  moreover have "4 * a * (a * t * t + b * t + c) \<le> 0"
    using a q by (simp add: mult_le_0_iff)
  moreover have "0 \<le> (2 * a * t + b) * (2 * a * t + b)" by simp
  ultimately show ?thesis by linarith
qed

lemma segDistSq_quad:
  "segDistSq x1 y1 x2 y2 cx cy t - r * r =
     ((x2 - x1) * (x2 - x1) + (y2 - y1) * (y2 - y1)) * t * t +
     (2 * ((x1 - cx) * (x2 - x1) + (y1 - cy) * (y2 - y1))) * t +
     (((x1 - cx) * (x1 - cx) + (y1 - cy) * (y1 - cy)) - r * r)"
  by (simp add: segDistSq_def algebra_simps)

lemma lsic_iff_segment:
  "lineSegmentIntersectsCircle x1 y1 x2 y2 cx cy r \<longleftrightarrow>
     (\<exists>t. 0 \<le> t \<and> t \<le> 1 \<and> segDistSq x1 y1 x2 y2 cx cy t \<le> r * r)"
proof -
  define a where "a = (x2 - x1) * (x2 - x1) + (y2 - y1) * (y2 - y1)"
  define b where "b = 2 * ((x1 - cx) * (x2 - x1) + (y1 - cy) * (y2 - y1))"
  define c where "c = ((x1 - cx) * (x1 - cx) + (y1 - cy) * (y1 - cy)) - r * r"
  have q: "segDistSq x1 y1 x2 y2 cx cy t \<le> r * r \<longleftrightarrow> a * t * t + b * t + c \<le> 0" for t
  proof -
    have "segDistSq x1 y1 x2 y2 cx cy t - r * r = a * t * t + b * t + c"
      unfolding a_def b_def c_def by (rule segDistSq_quad)
    then show ?thesis by linarith
  qed
  have a0: "0 \<le> a" by (simp add: a_def)
  have unf: "lineSegmentIntersectsCircle x1 y1 x2 y2 cx cy r =
     (if a = 0 then (x1 - cx) * (x1 - cx) + (y1 - cy) * (y1 - cy) \<le> r * r
      else if b * b - 4 * a * c < 0 then False
      else (((- b - sqrt (b * b - 4 * a * c)) / (2 * a) \<ge> 0 \<and> (- b - sqrt (b * b - 4 * a * c)) / (2 * a) \<le> 1) \<or>
            ((- b + sqrt (b * b - 4 * a * c)) / (2 * a) \<ge> 0 \<and> (- b + sqrt (b * b - 4 * a * c)) / (2 * a) \<le> 1) \<or>
            ((- b - sqrt (b * b - 4 * a * c)) / (2 * a) < 0 \<and> (- b + sqrt (b * b - 4 * a * c)) / (2 * a) > 1)))"
    unfolding lineSegmentIntersectsCircle_def Let_def a_def b_def c_def by (rule refl)
  show ?thesis
  proof (cases "a = 0")
    case True
    then have e: "x2 = x1" "y2 = y1"
      by (simp_all add: a_def sum_squares_eq_zero_iff flip: power2_eq_square)
    have "lineSegmentIntersectsCircle x1 y1 x2 y2 cx cy r \<longleftrightarrow>
            (x1 - cx) * (x1 - cx) + (y1 - cy) * (y1 - cy) \<le> r * r"
      using True by (simp add: unf)
    moreover have "segDistSq x1 y1 x2 y2 cx cy t = (x1 - cx) * (x1 - cx) + (y1 - cy) * (y1 - cy)" for t
      using e by (simp add: segDistSq_def)
    ultimately show ?thesis by auto
  next
    case False
    with a0 have apos: "0 < a" by simp
    show ?thesis
    proof (cases "b * b - 4 * a * c < 0")
      case True
      have "\<not> lineSegmentIntersectsCircle x1 y1 x2 y2 cx cy r"
        using True \<open>a \<noteq> 0\<close> by (simp add: unf)
      moreover have "\<not> (a * t * t + b * t + c \<le> 0)" for t
        using quad_neg_disc [OF apos, of t b c] True by auto
      ultimately show ?thesis by (simp add: q)
    next
      case False
      then have d: "0 \<le> b * b - 4 * a * c" by simp
      define t1 where "t1 = (- b - sqrt (b * b - 4 * a * c)) / (2 * a)"
      define t2 where "t2 = (- b + sqrt (b * b - 4 * a * c)) / (2 * a)"
      have t12: "t1 \<le> t2"
        using apos d by (simp add: t1_def t2_def field_simps)
      have code: "lineSegmentIntersectsCircle x1 y1 x2 y2 cx cy r \<longleftrightarrow>
            (t1 \<ge> 0 \<and> t1 \<le> 1) \<or> (t2 \<ge> 0 \<and> t2 \<le> 1) \<or> (t1 < 0 \<and> t2 > 1)"
        using False \<open>a \<noteq> 0\<close>
        by (simp add: unf t1_def t2_def)
      have k: "a * t * t + b * t + c \<le> 0 \<longleftrightarrow> t1 \<le> t \<and> t \<le> t2" for t
        using quad_key [OF apos d, of t] by (simp add: t1_def t2_def)
      have "(\<exists>t. 0 \<le> t \<and> t \<le> 1 \<and> t1 \<le> t \<and> t \<le> t2) \<longleftrightarrow> t1 \<le> 1 \<and> 0 \<le> t2"
      proof
        assume "\<exists>t. 0 \<le> t \<and> t \<le> 1 \<and> t1 \<le> t \<and> t \<le> t2"
        then show "t1 \<le> 1 \<and> 0 \<le> t2" by auto
      next
        assume h: "t1 \<le> 1 \<and> 0 \<le> t2"
        have "0 \<le> max 0 t1 \<and> max 0 t1 \<le> 1 \<and> t1 \<le> max 0 t1 \<and> max 0 t1 \<le> t2"
          using h t12 by auto
        then show "\<exists>t. 0 \<le> t \<and> t \<le> 1 \<and> t1 \<le> t \<and> t \<le> t2" by blast
      qed
      moreover have "(t1 \<ge> 0 \<and> t1 \<le> 1) \<or> (t2 \<ge> 0 \<and> t2 \<le> 1) \<or> (t1 < 0 \<and> t2 > 1) \<longleftrightarrow> t1 \<le> 1 \<and> 0 \<le> t2"
        using t12 by auto
      ultimately show ?thesis by (simp add: code q k)
    qed
  qed
qed

section \<open>Rounding\<close>

text \<open>
  \<^const>\<open>double\<close> is evaluated from the binary exponent of its argument: for
  \<open>2\<^bsup>e\<^esup> \<le> |x| < 2\<^bsup>e+1\<^esup>\<close> the result is the multiple of \<open>2\<^bsup>e-52\<^esup>\<close> nearest to \<open>x\<close>.
\<close>

lemma binaryExponent_eq:
  assumes "2 powi e \<le> \<bar>x\<bar>" and "\<bar>x\<bar> < 2 powi (e + 1)"
  shows "binaryExponent x = e"
proof -
  have pos: "0 < \<bar>x\<bar>" using assms(1) by (smt (verit) zero_less_power_int)
  have p: "(2::real) powr real_of_int k = 2 powi k" for k
    by (rule powr_real_of_int') simp_all
  have "2 powr real_of_int e \<le> \<bar>x\<bar> \<and> \<bar>x\<bar> < 2 powr real_of_int (e + 1)"
    unfolding p using assms by simp
  then show ?thesis
    unfolding binaryExponent_def using floor_log_eq_powr_iff [OF pos, of 2 e] by simp
qed

lemma double_eval:
  assumes "2 powi e \<le> \<bar>x\<bar>" and "\<bar>x\<bar> < 2 powi (e + 1)"
    and "nearestEven (x / 2 powi (e - 52)) = m"
    and "c = real_of_int m * 2 powi (e - 52)"
  shows "double x = c"
proof -
  have "x \<noteq> 0" using assms(1) by (smt (verit) zero_less_power_int)
  then show ?thesis
    by (simp add: double_def Let_def binaryExponent_eq [OF assms(1,2)] assms(3,4))
qed

lemma nearestEven_near:
  assumes "real_of_int m - 1 / 2 < y" and "y < real_of_int m + 1 / 2"
  shows "nearestEven y = m"
proof -
  consider "real_of_int m \<le> y" | "y < real_of_int m" by linarith
  then show ?thesis
  proof cases
    case 1
    then have "\<lfloor>y\<rfloor> = m" using assms by linarith
    then show ?thesis using assms by (simp add: nearestEven_def Let_def)
  next
    case 2
    then have f: "\<lfloor>y\<rfloor> = m - 1" using assms by linarith
    have "\<not> y - real_of_int (m - 1) < 1 / 2" "1 / 2 < y - real_of_int (m - 1)"
      using assms by simp_all
    then show ?thesis by (simp add: nearestEven_def Let_def f)
  qed
qed

lemma nearestEven_of_int [simp]: "nearestEven (real_of_int n) = n"
  by (rule nearestEven_near) simp_all

lemma double_zero [simp]: "double 0 = 0"
  by (simp add: double_def)

text \<open>Integers below \<open>2\<^sup>5\<^sup>3\<close> in absolute value are doubles.\<close>

lemma double_of_int:
  assumes "\<bar>n\<bar> < 2 ^ 53"
  shows "double (real_of_int n) = real_of_int n"
proof (cases "n = 0")
  case True
  then show ?thesis by simp
next
  case False
  define e where "e = binaryExponent (real_of_int n)"
  have pos: "0 < \<bar>real_of_int n\<bar>" using False by simp
  have b: "2 powr real_of_int e \<le> \<bar>real_of_int n\<bar> \<and> \<bar>real_of_int n\<bar> < 2 powr real_of_int (e + 1)"
    using floor_log_eq_powr_iff [OF pos, of 2 e] by (simp add: e_def binaryExponent_def)
  have e52: "e \<le> 52"
  proof (rule ccontr)
    assume "\<not> e \<le> 52"
    then have "53 \<le> e" by simp
    then have "(2::real) powr real_of_int 53 \<le> 2 powr real_of_int e"
      by (intro powr_mono) simp_all
    with b have "(2::real) powr real_of_int 53 \<le> \<bar>real_of_int n\<bar>" by linarith
    then have "(2::real) ^ 53 \<le> \<bar>real_of_int n\<bar>" by simp
    moreover have "\<bar>real_of_int n\<bar> < 2 ^ 53"
      using assms by (metis of_int_abs of_int_less_numeral_power_cancel_iff)
    ultimately show False by linarith
  qed
  define k where "k = nat (52 - e)"
  have "e - 52 = - int k" using e52 by (simp add: k_def)
  then have "(2::real) powi (e - 52) = inverse (2 ^ k)"
    by (simp only: power_int_minus power_int_of_nat)
  then have u: "(2::real) powi (e - 52) = 1 / 2 ^ k"
    by (simp add: inverse_eq_divide)
  have "real_of_int n / (1 / 2 ^ k) = real_of_int (n * 2 ^ k)" by simp
  then have "nearestEven (real_of_int n / (1 / 2 ^ k)) = n * 2 ^ k"
    by (simp only: nearestEven_of_int)
  then show ?thesis
    using False by (simp add: double_def Let_def u flip: e_def)
qed

lemma double_numeral:
  "(numeral n :: int) < 2 ^ 53 \<Longrightarrow> double (numeral n) = numeral n"
  using double_of_int [of "numeral n"] by simp

text \<open>
  The double nearest to a square root: \<open>m\<close> is the nearest mantissa when \<open>x\<close> lies strictly
  between the squares of the two midpoints around it.
\<close>

lemma double_sqrt_eval:
  assumes m: "0 < m"
    and lo: "((real_of_int m - 1 / 2) * 2 powi (e - 52))\<^sup>2 < x"
    and hi: "x < ((real_of_int m + 1 / 2) * 2 powi (e - 52))\<^sup>2"
    and e1: "(2 powi e)\<^sup>2 \<le> x" and e2: "x < (2 powi (e + 1))\<^sup>2"
    and c: "c = real_of_int m * 2 powi (e - 52)"
  shows "double (sqrt x) = c"
proof -
  define u :: real where "u = 2 powi (e - 52)"
  have u0: "0 < u" by (simp add: u_def)
  have x0: "0 \<le> x" using e1 by (smt (verit) zero_le_power2)
  have s1: "2 powi e \<le> sqrt x"
    using e1 by (metis abs_of_nonneg real_le_rsqrt zero_le_numeral zero_le_power_int)
  have s2: "sqrt x < 2 powi (e + 1)"
    using e2 x0 by (metis abs_of_nonneg real_sqrt_abs real_sqrt_less_iff zero_le_numeral zero_le_power_int)
  have a: "(real_of_int m - 1 / 2) * u < sqrt x"
  proof -
    have "0 \<le> (real_of_int m - 1 / 2) * u" using m u0 by simp
    then show ?thesis using lo unfolding u_def [symmetric]
      by (metis abs_of_nonneg real_sqrt_abs real_sqrt_less_iff)
  qed
  have b: "sqrt x < (real_of_int m + 1 / 2) * u"
  proof -
    have "0 \<le> (real_of_int m + 1 / 2) * u" using m u0 by simp
    then show ?thesis using hi unfolding u_def [symmetric]
      by (metis abs_of_nonneg real_sqrt_abs real_sqrt_less_iff)
  qed
  have "nearestEven (sqrt x / u) = m"
    by (rule nearestEven_near) (use a b u0 in \<open>simp_all add: field_simps\<close>)
  then show ?thesis
    using double_eval [of e "sqrt x" m c] s1 s2 c x0 by (simp add: u_def)
qed

section \<open>Swept collision test as computed\<close>

text \<open>
  The result of \<^const>\<open>lineSegmentIntersectsCircle_double\<close> on a segment of non-zero
  computed length and non-negative computed discriminant, from the value of each rounded
  operation.
\<close>

lemma lsic_double_trace:
  assumes "double (x2 - x1) = dx" and "double (y2 - y1) = dy"
    and "double (dx * dx) = dxx" and "double (dy * dy) = dyy" and "double (dxx + dyy) = a"
    and "a \<noteq> 0"
    and "double (x1 - cx) = fx" and "double (y1 - cy) = fy"
    and "double (fx * dx) = fxdx" and "double (fy * dy) = fydy"
    and "double (fxdx + fydy) = bs" and "double (2 * bs) = b"
    and "double (fx * fx) = fxx" and "double (fy * fy) = fyy" and "double (fxx + fyy) = ff"
    and "double (r * r) = rr" and "double (ff - rr) = c"
    and "double (b * b) = bb" and "double (4 * a) = a4" and "double (a4 * c) = a4c"
    and "double (bb - a4c) = disc" and "\<not> disc < 0"
    and "double (sqrt disc) = s"
    and "double (- b - s) = n1" and "double (- b + s) = n2" and "double (2 * a) = a2"
    and "double (n1 / a2) = t1" and "double (n2 / a2) = t2"
  shows "lineSegmentIntersectsCircle_double x1 y1 x2 y2 cx cy r =
           ((t1 \<ge> 0 \<and> t1 \<le> 1) \<or> (t2 \<ge> 0 \<and> t2 \<le> 1) \<or> (t1 < 0 \<and> t2 > 1))"
  using assms by (simp add: lineSegmentIntersectsCircle_double_def Let_def)

text \<open>
  On a segment of no length the computed test is the computed point test: the rounding
  that loses a root does not reach the branch for zero movement.
\<close>

lemma lsic_double_degenerate:
  "lineSegmentIntersectsCircle_double a b a b cx cy r = pointInCircle_double a b cx cy r"
  by (simp add: lineSegmentIntersectsCircle_double_def pointInCircle_double_def Let_def)

text \<open>
  Claim C2 says that \<^verbatim>\<open>lineSegmentIntersectsCircle\<close> returns true if and only if some
  point of the segment lies within distance \<open>r\<close> of the centre.  The program breaks it: for
  the segment from \<open>(609.4, 84.2)\<close> to \<open>(531, 135)\<close> and the circle of centre \<open>(511, 135)\<close>
  and radius 20, the end point is exactly 20 from the centre and the test is true in
  exact arithmetic, yet as computed in doubles the root of the end point is
  \<open>1 + 2\<^bsup>-51\<^esup>\<close>, the other root is larger, and the function returns false.
\<close>

theorem C2_rim_point_missed_in_doubles:
  "(\<exists>t. 0 \<le> t \<and> t \<le> 1 \<and>
        sqrt (segDistSq (double (6094 / 10)) (double (842 / 10)) 531 135 511 135 t) \<le> 20) \<and>
   lineSegmentIntersectsCircle (double (6094 / 10)) (double (842 / 10)) 531 135 511 135 20 \<and>
   \<not> lineSegmentIntersectsCircle_double (double (6094 / 10)) (double (842 / 10)) 531 135 511 135 20"
proof -
  have x1: "double (3047 / 5) = (5360339087733555 / 8796093022208)"
    by (rule double_eval [where e = "9" and m = "5360339087733555"]) (simp_all add: nearestEven_def Let_def)
  have y1: "double (421 / 5) = (5925048259759309 / 70368744177664)"
    by (rule double_eval [where e = "6" and m = "5925048259759309"]) (simp_all add: nearestEven_def Let_def)
  have dx: "double (531 - (5360339087733555 / 8796093022208)) = (- (689613692941107 / 8796093022208))"
    by (rule double_eval [where e = "6" and m = "- 5516909543528856"]) (simp_all add: nearestEven_def Let_def)
  have dy: "double (135 - (5925048259759309 / 70368744177664)) = (3574732204225331 / 70368744177664)"
    by (rule double_eval [where e = "5" and m = "7149464408450662"]) (simp_all add: nearestEven_def Let_def)
  have dxx: "double ((- (689613692941107 / 8796093022208)) * (- (689613692941107 / 8796093022208))) = (6758214190822847 / 1099511627776)"
    by (rule double_eval [where e = "12" and m = "6758214190822847"]) (simp_all add: nearestEven_def Let_def)
  have dyy: "double ((3574732204225331 / 70368744177664) * (3574732204225331 / 70368744177664)) = (5674887374207713 / 2199023255552)"
    by (rule double_eval [where e = "11" and m = "5674887374207713"]) (simp_all add: nearestEven_def Let_def)
  have a: "double ((6758214190822847 / 1099511627776) + (5674887374207713 / 2199023255552)) = (599728617370419 / 68719476736)"
    by (rule double_eval [where e = "13" and m = "4797828938963352"]) (simp_all add: nearestEven_def Let_def)
  have fx: "double ((5360339087733555 / 8796093022208) - 511) = (865535553385267 / 8796093022208)"
    by (rule double_eval [where e = "6" and m = "6924284427082136"]) (simp_all add: nearestEven_def Let_def)
  have fy: "double ((5925048259759309 / 70368744177664) - 135) = (- (3574732204225331 / 70368744177664))"
    by (rule double_eval [where e = "5" and m = "- 7149464408450662"]) (simp_all add: nearestEven_def Let_def)
  have fxdx: "double ((865535553385267 / 8796093022208) * (- (689613692941107 / 8796093022208))) = (- (4241124211587807 / 549755813888))"
    by (rule double_eval [where e = "12" and m = "- 8482248423175614"]) (simp_all add: nearestEven_def Let_def)
  have fydy: "double ((- (3574732204225331 / 70368744177664)) * (3574732204225331 / 70368744177664)) = (- (5674887374207713 / 2199023255552))"
    by (rule double_eval [where e = "11" and m = "- 5674887374207713"]) (simp_all add: nearestEven_def Let_def)
  have bs: "double ((- (4241124211587807 / 549755813888)) + (- (5674887374207713 / 2199023255552))) = (- (5659846055139735 / 549755813888))"
    by (rule double_eval [where e = "13" and m = "- 5659846055139735"]) (simp_all add: nearestEven_def Let_def)
  have b: "double (2 * (- (5659846055139735 / 549755813888))) = (- (5659846055139735 / 274877906944))"
    by (rule double_eval [where e = "14" and m = "- 5659846055139735"]) (simp_all add: nearestEven_def Let_def)
  have fxx: "double ((865535553385267 / 8796093022208) * (865535553385267 / 8796093022208)) = (5323043653319391 / 549755813888)"
    by (rule double_eval [where e = "13" and m = "5323043653319391"]) (simp_all add: nearestEven_def Let_def)
  have fyy: "double ((- (3574732204225331 / 70368744177664)) * (- (3574732204225331 / 70368744177664))) = (5674887374207713 / 2199023255552)"
    by (rule double_eval [where e = "11" and m = "5674887374207713"]) (simp_all add: nearestEven_def Let_def)
  have ff: "double ((5323043653319391 / 549755813888) + (5674887374207713 / 2199023255552)) = (6741765496871319 / 549755813888)"
    by (rule double_eval [where e = "13" and m = "6741765496871319"]) (simp_all add: nearestEven_def Let_def)
  have rr: "double (20 * 20) = 400"
    by (rule double_eval [where e = "8" and m = "7036874417766400"]) (simp_all add: nearestEven_def Let_def)
  have c: "double ((6741765496871319 / 549755813888) - 400) = (6521863171316119 / 549755813888)"
    by (rule double_eval [where e = "13" and m = "6521863171316119"]) (simp_all add: nearestEven_def Let_def)
  have bb: "double ((- (5659846055139735 / 274877906944)) * (- (5659846055139735 / 274877906944))) = (1778236300868975 / 4194304)"
    by (rule double_eval [where e = "28" and m = "7112945203475900"]) (simp_all add: nearestEven_def Let_def)
  have a4: "double (4 * (599728617370419 / 68719476736)) = (599728617370419 / 17179869184)"
    by (rule double_eval [where e = "15" and m = "4797828938963352"]) (simp_all add: nearestEven_def Let_def)
  have a4c: "double ((599728617370419 / 17179869184) * (6521863171316119 / 549755813888)) = (6947949739832765 / 16777216)"
    by (rule double_eval [where e = "28" and m = "6947949739832765"]) (simp_all add: nearestEven_def Let_def)
  have disc: "double ((1778236300868975 / 4194304) - (6947949739832765 / 16777216)) = (164995463643135 / 16777216)"
    by (rule double_eval [where e = "23" and m = "5279854836580320"]) (simp_all add: nearestEven_def Let_def)
  have s: "double (sqrt (164995463643135 / 16777216)) = (6896136929411051 / 2199023255552)"
    by (rule double_sqrt_eval [where e = "11" and m = "6896136929411051"]) (simp_all add: power2_eq_square)
  have n1: "double (- (- (5659846055139735 / 274877906944)) - (6896136929411051 / 2199023255552)) = (2398914469481677 / 137438953472)"
    by (rule double_eval [where e = "14" and m = "4797828938963354"]) (simp_all add: nearestEven_def Let_def)
  have n2: "double (- (- (5659846055139735 / 274877906944)) + (6896136929411051 / 2199023255552)) = (1630465792829029 / 68719476736)"
    by (rule double_eval [where e = "14" and m = "6521863171316116"]) (simp_all add: nearestEven_def Let_def)
  have a2: "double (2 * (599728617370419 / 68719476736)) = (599728617370419 / 34359738368)"
    by (rule double_eval [where e = "14" and m = "4797828938963352"]) (simp_all add: nearestEven_def Let_def)
  have t1: "double ((2398914469481677 / 137438953472) / (599728617370419 / 34359738368)) = (2251799813685249 / 2251799813685248)"
    by (rule double_eval [where e = "0" and m = "4503599627370498"]) (simp_all add: nearestEven_def Let_def)
  have t2: "double ((1630465792829029 / 68719476736) / (599728617370419 / 34359738368)) = (3060953289681779 / 2251799813685248)"
    by (rule double_eval [where e = "0" and m = "6121906579363558"]) (simp_all add: nearestEven_def Let_def)
  have nz: "(599728617370419 / 68719476736) \<noteq> (0::real)" by simp
  have nn: "\<not> (164995463643135 / 16777216) < (0::real)" by simp
  have swept: "\<not> lineSegmentIntersectsCircle_double (5360339087733555 / 8796093022208) (5925048259759309 / 70368744177664) 531 135 511 135 20"
    unfolding lsic_double_trace [OF dx dy dxx dyy a nz fx fy fxdx fydy bs b fxx fyy ff rr c bb a4 a4c disc nn s n1 n2 a2 t1 t2]
    by simp
  have sq: "sqrt 400 = 20" using real_sqrt_abs2 [of 20] by simp
  have at_end: "segDistSq p q 531 135 511 135 1 = 400" for p q
    by (simp add: segDistSq_def)
  have near: "\<exists>t. 0 \<le> t \<and> t \<le> 1 \<and> sqrt (segDistSq p q 531 135 511 135 t) \<le> 20" for p q
    by (rule exI [of _ 1]) (simp add: at_end sq)
  have exact: "lineSegmentIntersectsCircle p q 531 135 511 135 20" for p q
    unfolding lsic_iff_segment by (rule exI [of _ 1]) (simp add: at_end)
  have "\<not> lineSegmentIntersectsCircle_double (double (6094 / 10)) (double (842 / 10)) 531 135 511 135 20"
    using swept by (simp add: x1 y1)
  then show ?thesis
    using near exact by blast
qed

text \<open>
  Claim C9 says that the swept test returns true whenever the point-in-circle test at the
  end position succeeds.  The program breaks it: for the segment from \<open>(84.4, 476.4)\<close> to
  \<open>(553, 140)\<close> and the circle of centre \<open>(553, 120)\<close> and radius 20, the point test at the
  end position succeeds (\<open>400 \<le> 400\<close>) and the swept test, as computed in doubles, returns
  false: the root of the end point is computed as \<open>1 + 7 * 2\<^bsup>-51\<^esup>\<close>.
\<close>

theorem C9_end_point_test_not_covered_in_doubles:
  "pointInCircle_double 553 140 553 120 20 \<and>
   \<not> lineSegmentIntersectsCircle_double (double (844 / 10)) (double (4764 / 10)) 553 140 553 120 20"
proof -
  have x1: "double (422 / 5) = (2969561004297421 / 35184372088832)"
    by (rule double_eval [where e = "6" and m = "5939122008594842"]) (simp_all add: nearestEven_def Let_def)
  have y1: "double (2382 / 5) = (4190458715779891 / 8796093022208)"
    by (rule double_eval [where e = "8" and m = "8380917431559782"]) (simp_all add: nearestEven_def Let_def)
  have dx: "double (553 - (2969561004297421 / 35184372088832)) = (4121849190206669 / 8796093022208)"
    by (rule double_eval [where e = "8" and m = "8243698380413338"]) (simp_all add: nearestEven_def Let_def)
  have dy: "double (140 - (4190458715779891 / 8796093022208)) = (- (2959005692670771 / 8796093022208))"
    by (rule double_eval [where e = "8" and m = "- 5918011385341542"]) (simp_all add: nearestEven_def Let_def)
  have dxx: "double ((4121849190206669 / 8796093022208) * (4121849190206669 / 8796093022208)) = (3772458067443057 / 17179869184)"
    by (rule double_eval [where e = "17" and m = "7544916134886114"]) (simp_all add: nearestEven_def Let_def)
  have dyy: "double ((- (2959005692670771 / 8796093022208)) * (- (2959005692670771 / 8796093022208))) = (3888318418025185 / 34359738368)"
    by (rule double_eval [where e = "16" and m = "7776636836050370"]) (simp_all add: nearestEven_def Let_def)
  have a: "double ((3772458067443057 / 17179869184) + (3888318418025185 / 34359738368)) = (2858308638227825 / 8589934592)"
    by (rule double_eval [where e = "18" and m = "5716617276455650"]) (simp_all add: nearestEven_def Let_def)
  have fx: "double ((2969561004297421 / 35184372088832) - 553) = (- (4121849190206669 / 8796093022208))"
    by (rule double_eval [where e = "8" and m = "- 8243698380413338"]) (simp_all add: nearestEven_def Let_def)
  have fy: "double ((4190458715779891 / 8796093022208) - 120) = (3134927553114931 / 8796093022208)"
    by (rule double_eval [where e = "8" and m = "6269855106229862"]) (simp_all add: nearestEven_def Let_def)
  have fxdx: "double ((- (4121849190206669 / 8796093022208)) * (4121849190206669 / 8796093022208)) = (- (3772458067443057 / 17179869184))"
    by (rule double_eval [where e = "17" and m = "- 7544916134886114"]) (simp_all add: nearestEven_def Let_def)
  have fydy: "double ((3134927553114931 / 8796093022208) * (- (2959005692670771 / 8796093022208))) = (- (8238981475530177 / 68719476736))"
    by (rule double_eval [where e = "16" and m = "- 8238981475530177"]) (simp_all add: nearestEven_def Let_def)
  have bs: "double ((- (3772458067443057 / 17179869184)) + (- (8238981475530177 / 68719476736))) = (- (5832203436325601 / 17179869184))"
    by (rule double_eval [where e = "18" and m = "- 5832203436325601"]) (simp_all add: nearestEven_def Let_def)
  have b: "double (2 * (- (5832203436325601 / 17179869184))) = (- (5832203436325601 / 8589934592))"
    by (rule double_eval [where e = "19" and m = "- 5832203436325601"]) (simp_all add: nearestEven_def Let_def)
  have fxx: "double ((- (4121849190206669 / 8796093022208)) * (- (4121849190206669 / 8796093022208))) = (3772458067443057 / 17179869184)"
    by (rule double_eval [where e = "17" and m = "7544916134886114"]) (simp_all add: nearestEven_def Let_def)
  have fyy: "double ((3134927553114931 / 8796093022208) * (3134927553114931 / 8796093022208)) = (8728813905704385 / 68719476736)"
    by (rule double_eval [where e = "16" and m = "8728813905704385"]) (simp_all add: nearestEven_def Let_def)
  have ff: "double ((3772458067443057 / 17179869184) + (8728813905704385 / 68719476736)) = (5954661543869153 / 17179869184)"
    by (rule double_eval [where e = "18" and m = "5954661543869153"]) (simp_all add: nearestEven_def Let_def)
  have rr: "double (20 * 20) = 400"
    by (rule double_eval [where e = "8" and m = "7036874417766400"]) (simp_all add: nearestEven_def Let_def)
  have c: "double ((5954661543869153 / 17179869184) - 400) = (5947789596195553 / 17179869184)"
    by (rule double_eval [where e = "18" and m = "5947789596195553"]) (simp_all add: nearestEven_def Let_def)
  have bb: "double ((- (5832203436325601 / 8589934592)) * (- (5832203436325601 / 8589934592))) = (1888189433845619 / 4096)"
    by (rule double_eval [where e = "38" and m = "7552757735382476"]) (simp_all add: nearestEven_def Let_def)
  have a4: "double (4 * (2858308638227825 / 8589934592)) = (2858308638227825 / 2147483648)"
    by (rule double_eval [where e = "20" and m = "5716617276455650"]) (simp_all add: nearestEven_def Let_def)
  have a4c: "double ((2858308638227825 / 2147483648) * (5947789596195553 / 17179869184)) = (7549791183855053 / 16384)"
    by (rule double_eval [where e = "38" and m = "7549791183855053"]) (simp_all add: nearestEven_def Let_def)
  have disc: "double ((1888189433845619 / 4096) - (7549791183855053 / 16384)) = (2966551527423 / 16384)"
    by (rule double_eval [where e = "27" and m = "6075497528162304"]) (simp_all add: nearestEven_def Let_def)
  have s: "double (sqrt (2966551527423 / 16384)) = (7397514231675681 / 549755813888)"
    by (rule double_sqrt_eval [where e = "13" and m = "7397514231675681"]) (simp_all add: power2_eq_square)
  have n1: "double (- (- (5832203436325601 / 8589934592)) - (7397514231675681 / 549755813888)) = (1429154319113917 / 2147483648)"
    by (rule double_eval [where e = "19" and m = "5716617276455668"]) (simp_all add: nearestEven_def Let_def)
  have n2: "double (- (- (5832203436325601 / 8589934592)) + (7397514231675681 / 549755813888)) = (2973894798097767 / 4294967296)"
    by (rule double_eval [where e = "19" and m = "5947789596195534"]) (simp_all add: nearestEven_def Let_def)
  have a2: "double (2 * (2858308638227825 / 8589934592)) = (2858308638227825 / 4294967296)"
    by (rule double_eval [where e = "19" and m = "5716617276455650"]) (simp_all add: nearestEven_def Let_def)
  have t1: "double ((1429154319113917 / 2147483648) / (2858308638227825 / 4294967296)) = (2251799813685255 / 2251799813685248)"
    by (rule double_eval [where e = "0" and m = "4503599627370510"]) (simp_all add: nearestEven_def Let_def)
  have t2: "double ((2973894798097767 / 4294967296) / (2858308638227825 / 4294967296)) = (4685719143631765 / 4503599627370496)"
    by (rule double_eval [where e = "0" and m = "4685719143631765"]) (simp_all add: nearestEven_def Let_def)
  have nz: "(2858308638227825 / 8589934592) \<noteq> (0::real)" by simp
  have nn: "\<not> (2966551527423 / 16384) < (0::real)" by simp
  have swept: "\<not> lineSegmentIntersectsCircle_double (2969561004297421 / 35184372088832) (4190458715779891 / 8796093022208) 553 140 553 120 20"
    unfolding lsic_double_trace [OF dx dy dxx dyy a nz fx fy fxdx fydy bs b fxx fyy ff rr c bb a4 a4c disc nn s n1 n2 a2 t1 t2]
    by simp
  have point: "pointInCircle_double 553 140 553 120 20"
    by (simp add: pointInCircle_double_def Let_def double_numeral)
  have "\<not> lineSegmentIntersectsCircle_double (double (844 / 10)) (double (4764 / 10)) 553 140 553 120 20"
    using swept by (simp add: x1 y1)
  then show ?thesis
    using point by blast
qed

section \<open>Force law: correctness\<close>




section \<open>Jump launch\<close>

text \<open>Cosine and sine of \<^const>\<open>atan2\<close> away from the origin.\<close>

lemma sqrt_ratio_pos:
  fixes a b :: real
  assumes "a \<noteq> 0"
  shows "sqrt (1 + (b / a)\<^sup>2) = sqrt (a\<^sup>2 + b\<^sup>2) / \<bar>a\<bar>"
proof -
  have "1 + (b / a)\<^sup>2 = (a\<^sup>2 + b\<^sup>2) / a\<^sup>2"
    using assms by (simp add: field_simps power2_eq_square)
  then have "sqrt (1 + (b / a)\<^sup>2) = sqrt ((a\<^sup>2 + b\<^sup>2) / a\<^sup>2)" by simp
  also have "\<dots> = sqrt (a\<^sup>2 + b\<^sup>2) / \<bar>a\<bar>"
    by (simp add: real_sqrt_divide)
  finally show ?thesis .
qed

lemma cos_atan2:
  assumes "a \<noteq> 0 \<or> b \<noteq> 0"
  shows "cos (atan2 b a) = a / sqrt (a\<^sup>2 + b\<^sup>2)"
proof -
  consider "0 < a" | "a < 0" | "a = 0" "0 < b" | "a = 0" "b < 0"
    using assms by linarith
  then show ?thesis
  proof cases
    case 1
    then show ?thesis
      by (simp add: atan2_def cos_arctan sqrt_ratio_pos)
  next
    case 2
    then show ?thesis
      by (simp add: atan2_def cos_arctan sqrt_ratio_pos)
  next
    case 3
    then show ?thesis by (simp add: atan2_def)
  next
    case 4
    then show ?thesis by (simp add: atan2_def)
  qed
qed

lemma sin_atan2:
  assumes "a \<noteq> 0 \<or> b \<noteq> 0"
  shows "sin (atan2 b a) = b / sqrt (a\<^sup>2 + b\<^sup>2)"
proof -
  consider "0 < a" | "a < 0" | "a = 0" "0 < b" | "a = 0" "b < 0"
    using assms by linarith
  then show ?thesis
  proof cases
    case 1
    then show ?thesis
      by (simp add: atan2_def sin_arctan sqrt_ratio_pos)
  next
    case 2
    then show ?thesis
      by (simp add: atan2_def sin_arctan sqrt_ratio_pos)
  next
    case 3
    then show ?thesis by (simp add: atan2_def)
  next
    case 4
    then show ?thesis by (simp add: atan2_def)
  qed
qed

lemma jump_velocity:
  fixes p :: Player and pl :: Planet
  assumes on: "onPlanet p" and cp: "currentPlanet p = Some pl"
    and off: "posX p \<noteq> posX pl \<or> posY p \<noteq> posY pl"
  defines "d \<equiv> sqrt ((posX p - posX pl)\<^sup>2 + (posY p - posY pl)\<^sup>2)"
  shows "vx (jump p) = angularSpeed p * (radius pl + radius p + 2) * (- ((posY p - posY pl) / d))
                        + 50 * ((posX p - posX pl) / d)"
    and "vy (jump p) = angularSpeed p * (radius pl + radius p + 2) * ((posX p - posX pl) / d)
                        + 50 * ((posY p - posY pl) / d)"
proof -
  define th where "th = atan2 (posY p - posY pl) (posX p - posX pl)"
  have nz: "posX p - posX pl \<noteq> 0 \<or> posY p - posY pl \<noteq> 0" using off by auto
  have c: "cos th = (posX p - posX pl) / d" and s: "sin th = (posY p - posY pl) / d"
    unfolding th_def d_def using cos_atan2 [OF nz] sin_atan2 [OF nz] by simp_all
  show "vx (jump p) = angularSpeed p * (radius pl + radius p + 2) * (- ((posY p - posY pl) / d))
                        + 50 * ((posX p - posX pl) / d)"
  proof (cases "0 \<le> angularSpeed p")
    case True
    then show ?thesis
      using on cp by (simp add: jump_def Let_def cos_add flip: th_def c s)
  next
    case False
    then show ?thesis
      using on cp by (simp add: jump_def Let_def cos_diff flip: th_def c s)
  qed
  show "vy (jump p) = angularSpeed p * (radius pl + radius p + 2) * ((posX p - posX pl) / d)
                        + 50 * ((posY p - posY pl) / d)"
  proof (cases "0 \<le> angularSpeed p")
    case True
    then show ?thesis
      using on cp by (simp add: jump_def Let_def sin_add flip: th_def c s)
  next
    case False
    then show ?thesis
      using on cp by (simp add: jump_def Let_def sin_diff flip: th_def c s)
  qed
qed

lemma unit_radial:
  fixes a b :: real
  assumes "a \<noteq> 0 \<or> b \<noteq> 0"
  shows "(a / sqrt (a\<^sup>2 + b\<^sup>2)) * (a / sqrt (a\<^sup>2 + b\<^sup>2)) +
         (b / sqrt (a\<^sup>2 + b\<^sup>2)) * (b / sqrt (a\<^sup>2 + b\<^sup>2)) = 1"
proof -
  define s where "s = sqrt (a\<^sup>2 + b\<^sup>2)"
  have pos: "0 < a\<^sup>2 + b\<^sup>2" using assms by (metis sum_power2_gt_zero_iff)
  have s2: "s * s = a * a + b * b" using pos by (simp add: s_def power2_eq_square)
  have "(a / s) * (a / s) + (b / s) * (b / s) = (a * a + b * b) / (s * s)"
    by (simp add: add_divide_distrib)
  also have "\<dots> = 1" using assms unfolding s2 by auto
  finally show ?thesis unfolding s_def .
qed

text \<open>
  Claim C4.  For every body on a surface (not at the planet's centre), \<^const>\<open>jump\<close> sets
  the linear velocity to a tangential component \<open>angularSpeed * orbitalRadius\<close> along the
  counter-clockwise tangent (so of magnitude \<open>|angularSpeed| * orbitalRadius\<close>, signed by
  the rotation direction) plus a radial push of 50 along the unit vector from the planet's
  centre to the body; in particular a body whose ratio \<open>|angularSpeed| / baseAngularSpeed\<close>
  is exactly \<open>escapeThreshold\<close> gets tangential speed
  \<open>baseAngularSpeed * escapeThreshold * orbitalRadius\<close>.
\<close>

theorem C4_jump_launch_velocity:
  fixes p :: Player and pl :: Planet
  assumes on: "onPlanet p" and cp: "currentPlanet p = Some pl"
    and off: "posX p \<noteq> posX pl \<or> posY p \<noteq> posY pl"
    and rad: "0 \<le> radius pl \<and> 0 \<le> radius p"
    and base: "0 < baseAngularSpeed p"
  shows "let orbitalRadius = radius pl + radius p + 2;
             d = sqrt ((posX p - posX pl)\<^sup>2 + (posY p - posY pl)\<^sup>2);
             ux = (posX p - posX pl) / d;
             uy = (posY p - posY pl) / d;
             tangential = vx (jump p) * (- uy) + vy (jump p) * ux;
             radial = vx (jump p) * ux + vy (jump p) * uy
         in vx (jump p) = (angularSpeed p * orbitalRadius) * (- uy) + 50 * ux \<and>
            vy (jump p) = (angularSpeed p * orbitalRadius) * ux + 50 * uy \<and>
            tangential = angularSpeed p * orbitalRadius \<and>
            \<bar>tangential\<bar> = \<bar>angularSpeed p\<bar> * orbitalRadius \<and>
            radial = 50 \<and>
            (\<bar>angularSpeed p\<bar> / baseAngularSpeed p = escapeThreshold p \<longrightarrow>
               \<bar>tangential\<bar> = baseAngularSpeed p * escapeThreshold p * orbitalRadius)"
proof -
  define R where "R = radius pl + radius p + 2"
  define d where "d = sqrt ((posX p - posX pl)\<^sup>2 + (posY p - posY pl)\<^sup>2)"
  define ux where "ux = (posX p - posX pl) / d"
  define uy where "uy = (posY p - posY pl) / d"
  have nz: "posX p - posX pl \<noteq> 0 \<or> posY p - posY pl \<noteq> 0" using off by auto
  have unit: "ux * ux + uy * uy = 1"
    unfolding ux_def uy_def d_def by (rule unit_radial [OF nz])
  have R0: "0 \<le> R" using rad by (simp add: R_def)
  have v: "vx (jump p) = (angularSpeed p * R) * (- uy) + 50 * ux"
          "vy (jump p) = (angularSpeed p * R) * ux + 50 * uy"
    using jump_velocity [OF on cp off] by (simp_all add: R_def ux_def uy_def d_def)
  have t: "vx (jump p) * (- uy) + vy (jump p) * ux = angularSpeed p * R"
  proof -
    have "vx (jump p) * (- uy) + vy (jump p) * ux = (angularSpeed p * R) * (ux * ux + uy * uy)"
      unfolding v by (simp add: algebra_simps)
    then show ?thesis by (simp add: unit)
  qed
  have r: "vx (jump p) * ux + vy (jump p) * uy = 50"
  proof -
    have "vx (jump p) * ux + vy (jump p) * uy = 50 * (ux * ux + uy * uy)"
      unfolding v by (simp add: algebra_simps)
    then show ?thesis by (simp add: unit)
  qed
  have a: "\<bar>angularSpeed p * R\<bar> = \<bar>angularSpeed p\<bar> * R"
    using R0 by (simp add: abs_mult)
  have e: "\<bar>angularSpeed p\<bar> / baseAngularSpeed p = escapeThreshold p \<longrightarrow>
       \<bar>angularSpeed p\<bar> * R = baseAngularSpeed p * escapeThreshold p * R"
    using base by (auto simp: field_simps)
  show ?thesis
    unfolding Let_def
    using v t r a e
    by (simp only: R_def [symmetric] d_def [symmetric] ux_def [symmetric] uy_def [symmetric])
qed

theorem C4_witness:
  "onPlanet scenarioRunner \<and> currentPlanet scenarioRunner = Some scenarioPlanet \<and>
   vx (jump scenarioRunner) = 50 \<and> vy (jump scenarioRunner) = 90 \<and>
   \<bar>angularSpeed scenarioRunner\<bar> / baseAngularSpeed scenarioRunner = escapeThreshold scenarioRunner \<and>
   baseAngularSpeed scenarioRunner * escapeThreshold scenarioRunner * 45 = 90"
proof -
  have s: "sqrt 2025 = 45" using real_sqrt_abs2 [of 45] by simp
  have h1: "onPlanet scenarioRunner" by (simp add: scenarioRunner_def)
  have h2: "currentPlanet scenarioRunner = Some scenarioPlanet" by (simp add: scenarioRunner_def)
  have h3: "posX scenarioRunner \<noteq> posX scenarioPlanet \<or> posY scenarioRunner \<noteq> posY scenarioPlanet"
    by (simp add: scenarioRunner_def scenarioPlanet_def Planet_new_def)
  have h4: "0 \<le> radius scenarioPlanet \<and> 0 \<le> radius scenarioRunner"
    by (simp add: scenarioRunner_def scenarioPlanet_def Planet_new_def)
  have h5: "0 < baseAngularSpeed scenarioRunner" by (simp add: scenarioRunner_def)
  show ?thesis
    using C4_jump_launch_velocity [OF h1 h2 h3 h4 h5]
    by (simp add: Let_def scenarioRunner_def scenarioPlanet_def Planet_new_def s)
qed

section \<open>Angular movement with both inputs held\<close>

text \<open>
  Claim C8, as stated, fails.  In \<^verbatim>\<open>script.js\<close> the left key is tested first, so a body
  at rest with both keys held gets a negative angular speed; in the modular version a
  positive joystick target speed replaces the zero target chosen for both keys.
\<close>

theorem C8_counterexample:
  "left bothKeys \<and> right bothKeys \<and>
   angularSpeed (Player_new_script 45 0 (Some scenarioPlanet)) = 0 \<and>
   angularSpeed (updateAngularMovement_script bothKeys (1 / 100)
                   (Player_new_script 45 0 (Some scenarioPlanet))) = - (9 * pi / 100) \<and>
   targetSpeedOf joystickRight bothKeys (Player_new 45 0 (Some scenarioPlanet)) = 6 * pi"
  by (simp add: bothKeys_def joystickRight_def Player_new_script_def Player_new_def
        updateAngularMovement_script_def targetSpeedOf_def Let_def power2_eq_square)

text \<open>
  Claim C8, amended.  In the modular \<^const>\<open>updateAngularMovement\<close>, when both directional
  inputs are held and the joystick target speed is not positive, the target angular speed
  is zero: within the speed band the angular speed snaps to zero when closer than
  \<open>angularAcceleration * dt\<close>, and otherwise moves toward zero by exactly that amount.
\<close>

theorem C8_both_held_brakes_without_joystick:
  assumes both: "left ks \<and> right ks"
    and joy: "MobileInput.targetSpeed mi \<le> 0"
    and dt: "0 \<le> dt"
    and acc: "0 \<le> angularAcceleration p"
    and band: "\<bar>angularSpeed p\<bar> \<le> baseAngularSpeed p"
  shows "targetSpeedOf mi ks p = 0 \<and>
         (let w = angularSpeed p;
              w' = angularSpeed (updateAngularMovement mi ks dt p);
              a = angularAcceleration p * dt
          in (if \<bar>w\<bar> < a then w' = 0 else w' = w - sgn w * a) \<and>
             \<bar>w'\<bar> \<le> \<bar>w\<bar> \<and> \<bar>w' - w\<bar> \<le> a)"
proof -
  have t: "targetSpeedOf mi ks p = 0"
    using both joy by (simp add: targetSpeedOf_def)
  define a where "a = angularAcceleration p * dt"
  have a0: "0 \<le> a" using dt acc by (simp add: a_def)
  show ?thesis
  proof (cases "\<bar>angularSpeed p\<bar> < a")
    case True
    then show ?thesis
      using t band a0 by (simp add: updateAngularMovement_def Let_def flip: a_def)
  next
    case False
    have "\<bar>angularSpeed p - sgn (angularSpeed p) * a\<bar> \<le> \<bar>angularSpeed p\<bar>"
      using False a0 by (auto simp: sgn_if abs_if)
    moreover have "\<bar>sgn (angularSpeed p) * a\<bar> \<le> a"
      using a0 by (auto simp: sgn_if abs_if)
    ultimately show ?thesis
      using t band a0 False
      by (simp add: updateAngularMovement_def Let_def flip: a_def)
  qed
qed

theorem C8_witness:
  "left bothKeys \<and> right bothKeys \<and> MobileInput.targetSpeed joystickIdle \<le> 0 \<and>
   targetSpeedOf joystickIdle bothKeys scenarioRunner = 0 \<and>
   angularSpeed scenarioRunner = 2 \<and>
   angularSpeed (updateAngularMovement joystickIdle bothKeys (1 / 10) scenarioRunner) = 1 \<and>
   angularSpeed (updateAngularMovement joystickIdle bothKeys 1 scenarioRunner) = 0"
proof -
  have h1: "left bothKeys \<and> right bothKeys" by (simp add: bothKeys_def)
  have h2: "MobileInput.targetSpeed joystickIdle \<le> 0" by (simp add: joystickIdle_def)
  have h4: "0 \<le> angularAcceleration scenarioRunner" by (simp add: scenarioRunner_def)
  have h5: "\<bar>angularSpeed scenarioRunner\<bar> \<le> baseAngularSpeed scenarioRunner"
    by (simp add: scenarioRunner_def)
  show ?thesis
    using h1 h2
      C8_both_held_brakes_without_joystick [OF h1 h2 _ h4 h5, of "1 / 10"]
      C8_both_held_brakes_without_joystick [OF h1 h2 _ h4 h5, of 1]
    by (simp add: Let_def scenarioRunner_def)
qed

section \<open>Level generation: determinism\<close>

text \<open>
  The ambient stream reaches the generator only through the \<^verbatim>\<open>BlackHole\<close> constructor,
  and there only the vortex particles.  The placement loop reads the positions of the
  black holes placed so far, never their particles.
\<close>

lemma holes_near_cong:
  assumes "map physicalHole h1 = map physicalHole h2"
  shows "list_ex (\<lambda>bh. centreDistance x y bh < 150) h1 = list_ex (\<lambda>bh. centreDistance x y bh < 150) h2"
proof -
  have "list_ex (\<lambda>bh. centreDistance x y bh < 150) h =
        list_ex (\<lambda>t. sqrt ((x - fst t) * (x - fst t) + (y - fst (snd t)) * (y - fst (snd t))) < 150)
          (map physicalHole h)" for h :: "BlackHole list"
    by (simp add: list_ex_iff centreDistance_def physicalHole_def Let_def)
  then show ?thesis using assms by simp
qed

lemma blackHoleLoop_stop:
  "\<not> (\<not> v \<and> a < 50) \<Longrightarrow> blackHoleLoop ps gx gy st h v a x0 y0 s = (v, x0, y0, s)"
  by (subst blackHoleLoop.simps) auto

lemma blackHoleLoop_cong:
  assumes "map physicalHole h1 = map physicalHole h2"
  shows "blackHoleLoop ps gx gy st h1 v a x0 y0 s = blackHoleLoop ps gx gy st h2 v a x0 y0 s"
proof (induction "50 - a" arbitrary: v a x0 y0 s)
  case 0
  then show ?case by (simp add: blackHoleLoop_stop)
next
  case (Suc n)
  show ?case
  proof (cases "\<not> v \<and> a < 50")
    case False
    then show ?thesis by (simp add: blackHoleLoop_stop)
  next
    case True
    have n: "n = 50 - (a + 1)" using Suc.hyps(2) by simp
    show ?thesis
      apply (subst blackHoleLoop.simps)
      apply (subst (2) blackHoleLoop.simps)
      using True Suc.hyps(1) [OF n] holes_near_cong [OF assms]
      by (simp add: Let_def split: prod.splits)
  qed
qed

lemma physicalHole_new_script [simp]:
  "physicalHole (fst (BlackHole_new_script x y r amb)) = (x, y, r)"
  by (simp add: BlackHole_new_script_def physicalHole_def split: prod.splits)

lemma physicalHole_new [simp]:
  "physicalHole (fst (BlackHole_new x y r amb)) = (x, y, r)"
  by (simp add: BlackHole_new_def physicalHole_def split: prod.splits)

lemma placeBlackHoles_physical:
  assumes mk: "\<And>x y r amb. physicalHole (fst (mk x y r amb)) = (x, y, r)"
    and h: "map physicalHole h1 = map physicalHole h2"
  shows "map physicalHole (fst (placeBlackHoles mk ps gx gy st n h1 s amb1)) =
         map physicalHole (fst (placeBlackHoles mk ps gx gy st n h2 s amb2))"
  using h
proof (induction n arbitrary: h1 h2 s amb1 amb2)
  case 0
  then show ?case by simp
next
  case (Suc n)
  obtain v x y s1 where loop: "blackHoleLoop ps gx gy st h2 False 0 0 0 s = (v, x, y, s1)"
    by (metis prod_cases4)
  have loop1: "blackHoleLoop ps gx gy st h1 False 0 0 0 s = (v, x, y, s1)"
    using blackHoleLoop_cong [OF Suc.prems] loop by simp
  show ?case
  proof (cases v)
    case False
    then show ?thesis using loop loop1 Suc.IH [OF Suc.prems] by simp
  next
    case True
    obtain r s2 where rs: "random s1 = (r, s2)" by (cases "random s1")
    obtain b1 a1 where m1: "mk x y (8 + real_of_int \<lfloor>double (r * 4)\<rfloor>) amb1 = (b1, a1)"
      by (cases "mk x y (8 + real_of_int \<lfloor>double (r * 4)\<rfloor>) amb1")
    obtain b2 a2 where m2: "mk x y (8 + real_of_int \<lfloor>double (r * 4)\<rfloor>) amb2 = (b2, a2)"
      by (cases "mk x y (8 + real_of_int \<lfloor>double (r * 4)\<rfloor>) amb2")
    have "physicalHole b1 = physicalHole b2"
      using mk [of x y "8 + real_of_int \<lfloor>double (r * 4)\<rfloor>" amb1]
            mk [of x y "8 + real_of_int \<lfloor>double (r * 4)\<rfloor>" amb2] m1 m2 by simp
    then have "map physicalHole (h1 @ [b1]) = map physicalHole (h2 @ [b2])"
      using Suc.prems by simp
    from Suc.IH [OF this]
    show ?thesis using True loop loop1 rs m1 m2 by simp
  qed
qed

lemma addBlackHoles_physical:
  assumes mk: "\<And>x y r amb. physicalHole (fst (mk x y r amb)) = (x, y, r)"
  shows "physicalLevel (fst (addBlackHoles mk config placed amb1)) =
         physicalLevel (fst (addBlackHoles mk config placed amb2))"
proof -
  obtain ps start goalPos t where p: "placed = (ps, start, goalPos, t)"
    by (metis prod_cases4)
  have pb: "map physicalHole (fst (placeBlackHoles mk ps (fst goalPos) (snd goalPos) start
                (nat (blackHoleCount config)) [] t amb1)) =
            map physicalHole (fst (placeBlackHoles mk ps (fst goalPos) (snd goalPos) start
                (nat (blackHoleCount config)) [] t amb2))"
    by (rule placeBlackHoles_physical) (simp_all add: mk)
  show ?thesis
    by (simp add: addBlackHoles_def p physicalLevel_def Level_new_def case_prod_beta pb)
qed

lemma finalize_script_physical:
  "physicalLevel (fst (finalizeLevelGeneration_script lv config s ps amb1)) =
   physicalLevel (fst (finalizeLevelGeneration_script lv config s ps amb2))"
  unfolding finalizeLevelGeneration_script_def by (rule addBlackHoles_physical) simp

lemma finalize_physical:
  "physicalLevel (fst (finalizeLevelGeneration lv config s ps amb1)) =
   physicalLevel (fst (finalizeLevelGeneration lv config s ps amb2))"
  unfolding finalizeLevelGeneration_def by (rule addBlackHoles_physical) simp

lemma physicalLevel_tagged [simp]:
  "physicalLevel (l\<lparr>seed := a, archetype := b\<rparr>) = physicalLevel l"
  by (simp add: physicalLevel_def)

lemma fst_generateLevel_script:
  "fst (generateLevel_script levelNumber amb) =
     (fst (finalizeLevelGeneration_script levelNumber (fst (tierConfig levelNumber levelNumber))
            (snd (generateByArchetype levelNumber (fst (tierConfig levelNumber levelNumber))
                   (snd (tierConfig levelNumber levelNumber))))
            (fst (generateByArchetype levelNumber (fst (tierConfig levelNumber levelNumber))
                   (snd (tierConfig levelNumber levelNumber))))
            amb))
       \<lparr>seed := levelNumber, archetype := cfgArchetype (fst (tierConfig levelNumber levelNumber))\<rparr>"
  by (simp add: generateLevel_script_def Let_def case_prod_beta)

lemma fst_generateLevel:
  "fst (generateLevel levelNumber amb) =
     (fst (finalizeLevelGeneration levelNumber (fst (tierConfig levelNumber levelNumber))
            (snd (generateByArchetype levelNumber (fst (tierConfig levelNumber levelNumber))
                   (snd (tierConfig levelNumber levelNumber))))
            (fst (generateByArchetype levelNumber (fst (tierConfig levelNumber levelNumber))
                   (snd (tierConfig levelNumber levelNumber))))
            amb))
       \<lparr>seed := levelNumber, archetype := cfgArchetype (fst (tierConfig levelNumber levelNumber))\<rparr>"
  by (simp add: generateLevel_def Let_def case_prod_beta)

text \<open>
  Claim C1.  For every integer level number, two calls of \<^verbatim>\<open>Level.generateLevel\<close> with
  the same level number produce identical levels, whatever \<^verbatim>\<open>Math.random()\<close> returns
  during either call: the same planets (count, positions, radii, gravity strengths), the
  same start position, the same goal position and the same black-hole positions and
  radii.  Only the cosmetic particle state may differ.  This holds for the generator of
  \<^verbatim>\<open>script.js\<close> and for the generator of the modular version.
\<close>

theorem C1_generateLevel_deterministic:
  "physicalLevel (fst (generateLevel_script levelNumber amb1)) =
     physicalLevel (fst (generateLevel_script levelNumber amb2)) \<and>
   physicalLevel (fst (generateLevel levelNumber amb1)) =
     physicalLevel (fst (generateLevel levelNumber amb2))"
proof
  show "physicalLevel (fst (generateLevel_script levelNumber amb1)) =
     physicalLevel (fst (generateLevel_script levelNumber amb2))"
    unfolding fst_generateLevel_script physicalLevel_tagged by (rule finalize_script_physical)
  show "physicalLevel (fst (generateLevel levelNumber amb1)) =
     physicalLevel (fst (generateLevel levelNumber amb2))"
    unfolding fst_generateLevel physicalLevel_tagged by (rule finalize_physical)
qed

section \<open>Planet spacing\<close>

text \<open>
  A rejection loop that returns a valid position returns a candidate that is valid
  against the planets accepted so far; so every planet list built by \<^const>\<open>placePlanets\<close>
  from a spaced list is spaced, at the spacing of the loop or at any smaller one.
\<close>

lemma geometryKept_mkPlanet: "geometryKept mkPlanet"
  by (simp add: geometryKept_def mkPlanet_def Planet_new_def)

lemma geometryKept_mkPlanetChaos: "geometryKept mkPlanetChaos"
  by (simp add: geometryKept_def mkPlanetChaos_def Planet_new_def Let_def case_prod_beta)

lemma placeLoop_stop:
  "\<not> (\<not> v \<and> a < 100) \<Longrightarrow> placeLoop draw spacing ps v a cand s = (v, cand, s)"
  by (subst placeLoop.simps) auto

lemma placeLoop_step:
  "\<not> v \<and> a < 100 \<Longrightarrow>
   placeLoop draw spacing ps v a cand s =
   placeLoop draw spacing ps (validAgainst ps spacing (fst (draw s))) (a + 1) (fst (draw s)) (snd (draw s))"
  by (subst placeLoop.simps) (simp add: case_prod_beta)

lemma placeLoop_valid:
  assumes "placeLoop draw spacing ps v a cand s = (True, c, s')"
    and "v \<Longrightarrow> validAgainst ps spacing cand"
  shows "validAgainst ps spacing c"
  using assms
proof (induction "100 - a" arbitrary: v a cand s)
  case 0
  then show ?case by (simp add: placeLoop_stop)
next
  case (Suc n)
  show ?case
  proof (cases "\<not> v \<and> a < 100")
    case False
    then show ?thesis using Suc.prems by (simp add: placeLoop_stop)
  next
    case True
    have n: "n = 100 - (a + 1)" using Suc.hyps(2) by simp
    have "placeLoop draw spacing ps (validAgainst ps spacing (fst (draw s))) (a + 1)
            (fst (draw s)) (snd (draw s)) = (True, c, s')"
      using Suc.prems(1) placeLoop_step [OF True] by simp
    from Suc.hyps(1) [OF n this] show ?thesis by simp
  qed
qed

lemma planetDistance_sym: "planetDistance a b = planetDistance b a"
  by (simp add: planetDistance_def power2_commute)

lemma planetsSpaced_snoc:
  assumes sp: "planetsSpaced spacing ps"
    and v: "validAgainst ps spacing' (radius q, posX q, posY q)"
    and le: "spacing \<le> spacing'"
  shows "planetsSpaced spacing (ps @ [q])"
proof -
  have far: "radius e + radius q + spacing \<le> planetDistance q e" if "e \<in> set ps" for e
  proof -
    have "\<not> centreDistance (posX q) (posY q) e < radius e + radius q + spacing'"
      using v that by (simp add: validAgainst_def list_all_iff)
    then have "radius e + radius q + spacing' \<le> planetDistance q e"
      by (simp add: centreDistance_def planetDistance_def Let_def power2_eq_square)
    with le show ?thesis by linarith
  qed
  show ?thesis
    unfolding planetsSpaced_def
  proof (intro allI impI)
    fix i j
    assume h: "i < length (ps @ [q]) \<and> j < length (ps @ [q]) \<and> i \<noteq> j"
    consider "i < length ps" "j < length ps" | "i < length ps" "j = length ps"
      | "i = length ps" "j < length ps"
      using h by (auto simp: less_Suc_eq)
    then show "radius ((ps @ [q]) ! i) + radius ((ps @ [q]) ! j) + spacing
                 \<le> planetDistance ((ps @ [q]) ! i) ((ps @ [q]) ! j)"
    proof cases
      case 1
      then show ?thesis using sp h by (simp add: planetsSpaced_def nth_append)
    next
      case 2
      then show ?thesis
        using far [of "ps ! i"] planetDistance_sym [of q "ps ! i"] by (simp add: nth_append)
    next
      case 3
      then show ?thesis
        using far [of "ps ! j"] by (simp add: nth_append)
    qed
  qed
qed

lemma placePlanets_spaced:
  assumes mk: "geometryKept mk" and le: "spacing \<le> spacing'"
  shows "planetsSpaced spacing acc \<Longrightarrow>
         planetsSpaced spacing (fst (placePlanets draw spacing' mk n acc s))"
proof (induction n arbitrary: acc s)
  case 0
  then show ?case by simp
next
  case (Suc n)
  obtain v c s1 where loop: "placeLoop draw spacing' acc False 0 (0, 0, 0) s = (v, c, s1)"
    by (metis prod_cases3)
  show ?case
  proof (cases v)
    case False
    then show ?thesis using loop Suc by simp
  next
    case True
    obtain r x y where c: "c = (r, x, y)" by (metis prod_cases3)
    obtain q s2 where q: "mk c s1 = (q, s2)" by (cases "mk c s1")
    have geo: "radius q = r \<and> posX q = x \<and> posY q = y"
      using mk q c unfolding geometryKept_def by (metis fst_conv)
    have "validAgainst acc spacing' c"
      using placeLoop_valid [of draw spacing' acc False 0 "(0, 0, 0)" s c s1] loop True by simp
    then have "planetsSpaced spacing (acc @ [q])"
      using planetsSpaced_snoc [OF Suc.prems _ le, of q] geo c by simp
    from Suc.IH [OF this] show ?thesis using True loop q by simp
  qed
qed

lemma planetsSpaced_Nil [simp]: "planetsSpaced spacing []"
  by (simp add: planetsSpaced_def)

lemma planetsSpaced_single [simp]: "planetsSpaced spacing [q]"
  by (simp add: planetsSpaced_def)

lemma generateSimple_spaced:
  "planetsSpaced (minSpacing config) (fst (generateSimple lv config s))"
  by (simp add: generateSimple_def Let_def case_prod_beta placePlanets_spaced geometryKept_mkPlanet)

lemma generateGiant_spaced:
  "planetsSpaced (minSpacing config) (fst (generateGiant lv config s))"
  by (simp add: generateGiant_def Let_def case_prod_beta placePlanets_spaced geometryKept_mkPlanet)

lemma generatePrecision_spaced:
  "planetsSpaced (minSpacing config * (12 / 10)) (fst (generatePrecision lv config s))"
  by (simp add: generatePrecision_def Let_def case_prod_beta placePlanets_spaced geometryKept_mkPlanet)

lemma generateMaze_spaced:
  "planetsSpaced (minSpacing config * (7 / 10)) (fst (generateMaze lv config s))"
  by (simp add: generateMaze_def Let_def case_prod_beta placePlanets_spaced geometryKept_mkPlanet)

lemma generateChaos_spaced:
  "planetsSpaced (minSpacing config * (8 / 10)) (fst (generateChaos lv config s))"
  by (simp add: generateChaos_def Let_def case_prod_beta placePlanets_spaced geometryKept_mkPlanetChaos)

text \<open>
  The binary pair is placed on a diameter of length
  \<^verbatim>\<open>binaryRadius1 + binaryRadius2 + minSpacing * 0.7\<close> about the centre of the canvas, so its
  two planets are exactly that far apart; the supporting planets are sampled at the full
  spacing.
\<close>

lemma on_diameter:
  fixes c s d :: real
  assumes "c\<^sup>2 + s\<^sup>2 = 1"
  shows "sqrt ((c * d / 2 + c * d / 2)\<^sup>2 + (s * d / 2 + s * d / 2)\<^sup>2) = \<bar>d\<bar>"
proof -
  have "(c * d / 2 + c * d / 2)\<^sup>2 + (s * d / 2 + s * d / 2)\<^sup>2 = (c\<^sup>2 + s\<^sup>2) * d\<^sup>2"
    by (simp add: power2_eq_square algebra_simps)
  then show ?thesis by (simp add: assms)
qed

lemma pair_spaced:
  fixes a b :: Planet
  assumes "radius a + radius b + spacing \<le> planetDistance a b"
  shows "planetsSpaced spacing [a, b]"
  unfolding planetsSpaced_def
proof (intro allI impI)
  fix i j
  assume "i < length [a, b] \<and> j < length [a, b] \<and> i \<noteq> j"
  then consider "i = 0" "j = 1" | "i = 1" "j = 0"
    by (auto simp: less_Suc_eq)
  then show "radius ([a, b] ! i) + radius ([a, b] ! j) + spacing
               \<le> planetDistance ([a, b] ! i) ([a, b] ! j)"
  proof cases
    case 1
    then show ?thesis using assms by simp
  next
    case 2
    then show ?thesis using assms planetDistance_sym [of a b] by simp
  qed
qed

lemma generateBinarySystem_spaced:
  assumes "0 \<le> minSpacing config"
  shows "planetsSpaced (minSpacing config * (7 / 10)) (fst (generateBinarySystem lv config s))"
proof -
  have le: "minSpacing config * (7 / 10) \<le> minSpacing config" using assms by simp
  have pair: "planetsSpaced (minSpacing config * (7 / 10))
     [Planet_new b1 (CANVAS_WIDTH / 2 + cos a * (b1 + b2 + minSpacing config * (7 / 10)) / 2)
        (CANVAS_HEIGHT / 2 + sin a * (b1 + b2 + minSpacing config * (7 / 10)) / 2) g1,
      Planet_new b2 (CANVAS_WIDTH / 2 - cos a * (b1 + b2 + minSpacing config * (7 / 10)) / 2)
        (CANVAS_HEIGHT / 2 - sin a * (b1 + b2 + minSpacing config * (7 / 10)) / 2) g2]"
    for a b1 b2 g1 g2
  proof (rule pair_spaced)
    have u: "(cos a)\<^sup>2 + (sin a)\<^sup>2 = 1" by simp
    show "radius (Planet_new b1 (CANVAS_WIDTH / 2 + cos a * (b1 + b2 + minSpacing config * (7 / 10)) / 2)
             (CANVAS_HEIGHT / 2 + sin a * (b1 + b2 + minSpacing config * (7 / 10)) / 2) g1)
          + radius (Planet_new b2 (CANVAS_WIDTH / 2 - cos a * (b1 + b2 + minSpacing config * (7 / 10)) / 2)
             (CANVAS_HEIGHT / 2 - sin a * (b1 + b2 + minSpacing config * (7 / 10)) / 2) g2)
          + minSpacing config * (7 / 10)
          \<le> planetDistance
               (Planet_new b1 (CANVAS_WIDTH / 2 + cos a * (b1 + b2 + minSpacing config * (7 / 10)) / 2)
                  (CANVAS_HEIGHT / 2 + sin a * (b1 + b2 + minSpacing config * (7 / 10)) / 2) g1)
               (Planet_new b2 (CANVAS_WIDTH / 2 - cos a * (b1 + b2 + minSpacing config * (7 / 10)) / 2)
                  (CANVAS_HEIGHT / 2 - sin a * (b1 + b2 + minSpacing config * (7 / 10)) / 2) g2)"
      using on_diameter [OF u, of "b1 + b2 + minSpacing config * (7 / 10)"]
      by (simp add: planetDistance_def Planet_new_def)
  qed
  show ?thesis
    unfolding generateBinarySystem_def Let_def case_prod_beta
    by (rule placePlanets_spaced [OF geometryKept_mkPlanet le pair])
qed

lemma minSpacing_tierConfig: "0 \<le> minSpacing (fst (tierConfig lv s))"
  by (simp add: tierConfig_def Let_def case_prod_beta)

lemma fst_startAndGoal_script: "fst (startAndGoal_script config s ps0) = finalPlanets ps0"
  by (simp add: startAndGoal_script_def finalPlanets_def Let_def case_prod_beta)

lemma fst_startAndGoal: "fst (startAndGoal config s ps0) = finalPlanets ps0"
  by (simp add: startAndGoal_def finalPlanets_def Let_def case_prod_beta)

lemma planets_addBlackHoles: "planets (fst (addBlackHoles mk config placed amb)) = fst placed"
  by (simp add: addBlackHoles_def Level_new_def Let_def case_prod_beta)

lemma goalPosition_addBlackHoles:
  "goalPosition (fst (addBlackHoles mk config placed amb)) = fst (snd (snd placed))"
  by (simp add: addBlackHoles_def Level_new_def Let_def case_prod_beta)

lemma planets_generateLevel_script:
  "planets (fst (generateLevel_script lv amb)) =
     finalPlanets (fst (generateByArchetype lv (fst (tierConfig lv lv)) (snd (tierConfig lv lv))))"
  by (simp add: fst_generateLevel_script finalizeLevelGeneration_script_def
        planets_addBlackHoles fst_startAndGoal_script)

lemma planets_generateLevel:
  "planets (fst (generateLevel lv amb)) =
     finalPlanets (fst (generateByArchetype lv (fst (tierConfig lv lv)) (snd (tierConfig lv lv))))"
  by (simp add: fst_generateLevel finalizeLevelGeneration_def
        planets_addBlackHoles fst_startAndGoal)

lemma archetype_generateLevel_script:
  "archetype (fst (generateLevel_script lv amb)) = cfgArchetype (fst (tierConfig lv lv))"
  by (simp add: fst_generateLevel_script)

lemma archetype_generateLevel:
  "archetype (fst (generateLevel lv amb)) = cfgArchetype (fst (tierConfig lv lv))"
  by (simp add: fst_generateLevel)

lemma finalPlanets_spaced: "planetsSpaced spacing ps \<Longrightarrow> planetsSpaced spacing (finalPlanets ps)"
  by (simp add: finalPlanets_def)

lemma generateByArchetype_spacing:
  fixes config :: Config and lv s :: int
  assumes ms: "0 \<le> minSpacing config"
  defines "ps \<equiv> fst (generateByArchetype lv config s)"
  shows "(cfgArchetype config = Simple \<or> cfgArchetype config = Giant \<longrightarrow>
            planetsSpaced (minSpacing config) ps) \<and>
         (cfgArchetype config = Precision \<longrightarrow> planetsSpaced (minSpacing config * (12 / 10)) ps) \<and>
         (cfgArchetype config = Maze \<or> cfgArchetype config = Binary \<longrightarrow>
            planetsSpaced (minSpacing config * (7 / 10)) ps) \<and>
         (cfgArchetype config = Chaos \<longrightarrow> planetsSpaced (minSpacing config * (8 / 10)) ps)"
  unfolding ps_def
  using generateSimple_spaced [of config lv s] generateGiant_spaced [of config lv s]
    generatePrecision_spaced [of config lv s] generateMaze_spaced [of config lv s]
    generateChaos_spaced [of config lv s] generateBinarySystem_spaced [OF ms, of lv s]
  by (auto simp: generateByArchetype_def)

text \<open>
  The spacing a generated level keeps, in both versions: for every level number, every
  pair of distinct planets is at least the sum of the two radii plus the tier's
  \<^verbatim>\<open>minSpacing\<close> apart when the archetype is simple or giant, plus 1.2 times it for
  precision, 0.7 times it for maze and binary, 0.8 times it for chaos.
\<close>

lemma generateLevel_spacing:
  "spacingByArchetype (minSpacing (fst (tierConfig lv lv))) (fst (generateLevel lv amb))"
  "spacingByArchetype (minSpacing (fst (tierConfig lv lv))) (fst (generateLevel_script lv amb))"
proof -
  show "spacingByArchetype (minSpacing (fst (tierConfig lv lv))) (fst (generateLevel lv amb))"
    unfolding spacingByArchetype_def archetype_generateLevel planets_generateLevel
    using generateByArchetype_spacing [OF minSpacing_tierConfig, of lv lv lv "snd (tierConfig lv lv)"]
    by (auto intro: finalPlanets_spaced)
  show "spacingByArchetype (minSpacing (fst (tierConfig lv lv))) (fst (generateLevel_script lv amb))"
    unfolding spacingByArchetype_def archetype_generateLevel_script planets_generateLevel_script
    using generateByArchetype_spacing [OF minSpacing_tierConfig, of lv lv lv "snd (tierConfig lv lv)"]
    by (auto intro: finalPlanets_spaced)
qed

section \<open>Goal placement\<close>

text \<open>
  A point at distance \<open>d\<close> from the centre of a planet, in any direction, is exactly
  \<open>|d|\<close> from that centre and at least the distance of the two centres less \<open>|d|\<close> from
  the centre of any other planet.
\<close>

lemma centreDistance_own:
  "centreDistance (posX (p :: Planet) + cos a * d) (posY p + sin a * d) p = \<bar>d\<bar>"
proof -
  have "(cos a * d) * (cos a * d) + (sin a * d) * (sin a * d)
          = (cos a * cos a + sin a * sin a) * (d * d)"
    by algebra
  then have "(cos a * d) * (cos a * d) + (sin a * d) * (sin a * d) = d * d"
    by (simp only: sin_cos_squared_add3 mult_1)
  then show ?thesis by (simp add: centreDistance_def Let_def)
qed

lemma centreDistance_shift:
  "centreDistance px py (q :: Planet) - \<bar>d\<bar> \<le> centreDistance (px + cos a * d) (py + sin a * d) q"
proof -
  define u where "u = px + cos a * d - posX q"
  define v where "v = py + sin a * d - posY q"
  have m: "sqrt ((- (cos a * d))\<^sup>2 + (- (sin a * d))\<^sup>2) = \<bar>d\<bar>"
  proof -
    have "(- (cos a * d))\<^sup>2 + (- (sin a * d))\<^sup>2 = (cos a * cos a + sin a * sin a) * (d * d)"
      by algebra
    then have "(- (cos a * d))\<^sup>2 + (- (sin a * d))\<^sup>2 = d * d"
      by (simp only: sin_cos_squared_add3 mult_1)
    then show ?thesis by (simp only: real_sqrt_abs2)
  qed
  have "sqrt ((u + - (cos a * d))\<^sup>2 + (v + - (sin a * d))\<^sup>2)
          \<le> sqrt (u\<^sup>2 + v\<^sup>2) + sqrt ((- (cos a * d))\<^sup>2 + (- (sin a * d))\<^sup>2)"
    by (rule real_sqrt_sum_squares_triangle_ineq)
  then have "sqrt ((px - posX q)\<^sup>2 + (py - posY q)\<^sup>2) \<le> sqrt (u\<^sup>2 + v\<^sup>2) + \<bar>d\<bar>"
    unfolding m by (simp add: u_def v_def)
  then show ?thesis
    by (simp add: centreDistance_def Let_def u_def v_def power2_eq_square)
qed

lemma own_collision:
  assumes "p \<in> set ps" and "\<bar>d\<bar> < radius p + 20 + 40"
  shows "goalCollision ps (posX p + cos a * d) (posY p + sin a * d)"
  unfolding goalCollision_def list_ex_iff
  using assms centreDistance_own [of p a d] by (intro bexI [of _ p]) simp_all

lemma isolated_clear:
  assumes "\<And>q. q \<in> set ps \<Longrightarrow>
             (posX q = posX p \<and> posY q = posY p \<and> radius q + 20 + 40 \<le> \<bar>d\<bar>) \<or>
             radius q + 20 + 40 + \<bar>d\<bar> \<le> centreDistance (posX p) (posY p) q"
  shows "\<not> goalCollision ps (posX p + cos a * d) (posY p + sin a * d)"
  unfolding goalCollision_def list_ex_iff
proof
  assume "\<exists>q\<in>set ps. centreDistance (posX p + cos a * d) (posY p + sin a * d) q < radius q + 20 + 40"
  then obtain q where q: "q \<in> set ps"
    and c: "centreDistance (posX p + cos a * d) (posY p + sin a * d) q < radius q + 20 + 40"
    by blast
  from assms [OF q] show False
  proof
    assume h: "posX q = posX p \<and> posY q = posY p \<and> radius q + 20 + 40 \<le> \<bar>d\<bar>"
    then have "centreDistance (posX p + cos a * d) (posY p + sin a * d) q = \<bar>d\<bar>"
      using centreDistance_own [of q a d] by simp
    with h c show False by linarith
  next
    assume "radius q + 20 + 40 + \<bar>d\<bar> \<le> centreDistance (posX p) (posY p) q"
    with centreDistance_shift [of "posX p" "posY p" q d a] c show False by linarith
  qed
qed

lemma goalReroll_done:
  "attempts < 100 \<Longrightarrow> \<not> goalCollision ps gx gy \<Longrightarrow>
   goalReroll ps p gd attempts gx gy s = (gx, gy, attempts, s)"
  by (subst goalReroll.simps) simp

lemma goalReroll_again:
  "attempts < 100 \<Longrightarrow> goalCollision ps gx gy \<Longrightarrow> random s = (r1, s1) \<Longrightarrow> random s1 = (r2, s2) \<Longrightarrow>
   goalReroll ps p gd attempts gx gy s =
   goalReroll ps p gd (attempts + 1)
     (posX p + cos (r1 * pi * 2) * (gd + (r2 - 5 / 10) * 60))
     (posY p + sin (r1 * pi * 2) * (gd + (r2 - 5 / 10) * 60)) s2"
  by (subst goalReroll.simps) (simp add: Let_def)

lemma goalReroll_clear:
  assumes "goalReroll ps gp gd a gx gy s = (gx', gy', a', s')" and "a' < 100"
  shows "\<not> goalCollision ps gx' gy'"
  using assms
proof (induction "100 - a" arbitrary: a gx gy s)
  case 0
  then have "\<not> a < 100" by simp
  then have "goalReroll ps gp gd a gx gy s = (gx, gy, a, s)"
    by (subst goalReroll.simps) simp
  then show ?case using 0 by simp
next
  case (Suc n)
  then have a: "a < 100" by simp
  show ?case
  proof (cases "goalCollision ps gx gy")
    case False
    then show ?thesis using Suc.prems goalReroll_done [OF a False] by simp
  next
    case True
    have n: "n = 100 - (a + 1)" using Suc.hyps(2) by simp
    obtain r1 s1 where r1: "random s = (r1, s1)" by (cases "random s")
    obtain r2 s2 where r2: "random s1 = (r2, s2)" by (cases "random s1")
    from Suc.prems(1) goalReroll_again [OF a True r1 r2]
    have "goalReroll ps gp gd (a + 1)
            (posX gp + cos (r1 * pi * 2) * (gd + (r2 - 5 / 10) * 60))
            (posY gp + sin (r1 * pi * 2) * (gd + (r2 - 5 / 10) * 60)) s2 = (gx', gy', a', s')"
      by simp
    from Suc.hyps(1) [OF n this Suc.prems(2)] show ?thesis .
  qed
qed

lemma goalReroll_exhausted:
  "fst (snd (snd (goalReroll ps gp gd a gx gy s))) \<le> 100 \<or> 100 < a"
proof (induction "100 - a" arbitrary: a gx gy s)
  case 0
  then have "\<not> a < 100" by simp
  then have "goalReroll ps gp gd a gx gy s = (gx, gy, a, s)"
    by (subst goalReroll.simps) simp
  then show ?case using 0 by auto
next
  case (Suc n)
  then have a: "a < 100" by simp
  show ?case
  proof (cases "goalCollision ps gx gy")
    case False
    then show ?thesis using goalReroll_done [OF a False] a by simp
  next
    case True
    have n: "n = 100 - (a + 1)" using Suc.hyps(2) by simp
    obtain r1 s1 where r1: "random s = (r1, s1)" by (cases "random s")
    obtain r2 s2 where r2: "random s1 = (r2, s2)" by (cases "random s1")
    show ?thesis
      using Suc.hyps(1) [OF n] a unfolding goalReroll_again [OF a True r1 r2] by fastforce
  qed
qed

text \<open>After the forced displacement the goal is clear of the goal planet.\<close>

lemma forceGoalOutside_clear:
  assumes "100 \<le> attempts"
  shows "radius gp + 20 + 40
           \<le> centreDistance (fst (forceGoalOutside gp attempts gx gy))
                (snd (forceGoalOutside gp attempts gx gy)) gp"
proof (cases "sqrt ((gx - posX gp) * (gx - posX gp) + (gy - posY gp) * (gy - posY gp))
                < radius gp + 20 + 40")
  case True
  have "radius gp + 20 + 40 \<le> \<bar>radius gp + 20 + 40 + 20\<bar>" by simp
  then show ?thesis
    using assms True
      centreDistance_own [of gp "atan2 (gy - posY gp) (gx - posX gp)" "radius gp + 20 + 40 + 20"]
    by (simp add: forceGoalOutside_def Let_def)
next
  case False
  then show ?thesis
    using assms by (simp add: forceGoalOutside_def Let_def centreDistance_def)
qed

lemma forceGoalOutside_idle:
  "attempts < 100 \<Longrightarrow> forceGoalOutside gp attempts gx gy = (gx, gy)"
  by (simp add: forceGoalOutside_def)

text \<open>
  The goal of the level the modular generator returns is the clamp of the position before
  the clamp; the planets of that level are the planets the goal was tested against.
\<close>

lemma goalPosition_generateLevel:
  "goalPosition (fst (generateLevel lv amb)) =
     (clampGoal CANVAS_WIDTH (fst (snd (goalBeforeClamp lv))),
      clampGoal CANVAS_HEIGHT (fst (snd (snd (goalBeforeClamp lv)))))"
  by (simp add: fst_generateLevel finalizeLevelGeneration_def goalPosition_addBlackHoles
        startAndGoal_def goalBeforeClamp_def finalPlanets_def Let_def case_prod_beta)

lemma goalBeforeClamp_clear:
  "(snd (snd (snd (goalBeforeClamp lv))) < 100 \<longrightarrow>
      goalClear (planets (fst (generateLevel lv amb)))
        (fst (snd (goalBeforeClamp lv))) (fst (snd (snd (goalBeforeClamp lv))))) \<and>
   (100 \<le> snd (snd (snd (goalBeforeClamp lv))) \<longrightarrow>
      radius (fst (goalBeforeClamp lv)) + 20 + 40
        \<le> centreDistance (fst (snd (goalBeforeClamp lv))) (fst (snd (snd (goalBeforeClamp lv))))
             (fst (goalBeforeClamp lv)))"
proof -
  define config where "config = fst (tierConfig lv lv)"
  define ps where "ps = finalPlanets (fst (generateByArchetype lv config (snd (tierConfig lv lv))))"
  define s3 where "s3 = snd (random (snd (generateByArchetype lv config (snd (tierConfig lv lv)))))"
  obtain gp gx gy a s4 where g: "goalSearch config s3 ps = (gp, gx, gy, a, s4)"
    by (metis prod_cases5)
  have b: "goalBeforeClamp lv =
             (gp, fst (forceGoalOutside gp a gx gy), snd (forceGoalOutside gp a gx gy), a)"
    using g by (simp add: goalBeforeClamp_def Let_def case_prod_beta config_def ps_def s3_def)
  have p: "planets (fst (generateLevel lv amb)) = ps"
    by (simp add: planets_generateLevel ps_def config_def)
  obtain gd g0x g0y s' where r: "goalReroll ps gp gd 0 g0x g0y s' = (gx, gy, a, s4)"
    using g by (simp add: goalSearch_def Let_def case_prod_beta) metis
  show ?thesis
  proof (intro conjI impI)
    assume "snd (snd (snd (goalBeforeClamp lv))) < 100"
    then have a: "a < 100" by (simp add: b)
    have "\<not> goalCollision ps gx gy" by (rule goalReroll_clear [OF r a])
    then show "goalClear (planets (fst (generateLevel lv amb)))
        (fst (snd (goalBeforeClamp lv))) (fst (snd (snd (goalBeforeClamp lv))))"
      by (auto simp: p b forceGoalOutside_idle [OF a] goalCollision_def goalClear_def
            list_ex_iff not_less)
  next
    assume "100 \<le> snd (snd (snd (goalBeforeClamp lv)))"
    then have a: "100 \<le> a" by (simp add: b)
    show "radius (fst (goalBeforeClamp lv)) + 20 + 40
        \<le> centreDistance (fst (snd (goalBeforeClamp lv))) (fst (snd (snd (goalBeforeClamp lv))))
             (fst (goalBeforeClamp lv))"
      using forceGoalOutside_clear [OF a, of gp gx gy] by (simp add: b)
  qed
qed

text \<open>Bounds on a centre distance from squares, and on an angle just short of a quarter turn.\<close>

lemma sqrt_less_bound:
  fixes a b :: real
  assumes "0 \<le> b" and "a < b * b"
  shows "sqrt a < b"
proof -
  have "sqrt a < sqrt (b * b)" using assms(2) by (simp only: real_sqrt_less_iff)
  then show ?thesis using assms(1) by simp
qed

lemma far_enough:
  assumes "0 \<le> c"
    and "c * c \<le> (px - posX q) * (px - posX q) + (py - posY q) * (py - posY q)"
  shows "c \<le> centreDistance px py (q :: Planet)"
proof -
  have "sqrt (c * c) \<le> sqrt ((px - posX q) * (px - posX q) + (py - posY q) * (py - posY q))"
    using assms(2) by (simp only: real_sqrt_le_iff)
  then show ?thesis using assms(1) by (simp add: centreDistance_def Let_def)
qed

lemma near_quarter_turn:
  fixes r :: real
  assumes "1 / 8 \<le> r" and "r \<le> 1 / 4"
  shows "0 \<le> cos (r * pi * 2)"
    and "cos (r * pi * 2) \<le> 8 * (1 / 4 - r)"
    and "1 - (8 * (1 / 4 - r))\<^sup>2 \<le> sin (r * pi * 2)"
proof -
  define x where "x = 2 * pi * (1 / 4 - r)"
  have a: "r * pi * 2 = pi / 2 - x" by (simp add: x_def algebra_simps)
  have x0: "0 \<le> x" using assms by (simp add: x_def)
  have "pi * (1 / 4 - r) \<le> 4 * (1 / 4 - r)"
    using assms pi_less_4 by (intro mult_right_mono) simp_all
  then have x8: "x \<le> 8 * (1 / 4 - r)" by (simp add: x_def)
  have "pi * (1 / 4 - r) \<le> pi * (1 / 8)"
    using assms by (intro mult_left_mono) simp_all
  then have xq: "x \<le> pi / 4" by (simp add: x_def)
  have c: "cos (r * pi * 2) = sin x" unfolding a by (simp add: cos_diff)
  have s: "sin (r * pi * 2) = cos x" unfolding a by (simp add: sin_diff)
  have s0: "0 \<le> sin x" using x0 xq pi_ge_zero by (intro sin_ge_zero) linarith+
  have sx: "sin x \<le> x" using sin_x_le_x [OF x0] .
  show "0 \<le> cos (r * pi * 2)" using s0 c by simp
  show "cos (r * pi * 2) \<le> 8 * (1 / 4 - r)" using sx x8 c by simp
  have c0: "0 \<le> cos x" using x0 xq pi_ge_zero by (intro cos_ge_zero) linarith+
  have "cos x * cos x \<le> 1 * cos x" using c0 by (intro mult_right_mono) simp_all
  then have c2: "(cos x)\<^sup>2 \<le> cos x" by (simp add: power2_eq_square)
  have "sin x \<le> 8 * (1 / 4 - r)" using sx x8 by linarith
  then have s2: "(sin x)\<^sup>2 \<le> (8 * (1 / 4 - r))\<^sup>2" using s0 by (intro power_mono) simp_all
  have "(cos x)\<^sup>2 = 1 - (sin x)\<^sup>2" using sin_cos_squared_add [of x] by linarith
  then show "1 - (8 * (1 / 4 - r))\<^sup>2 \<le> sin (r * pi * 2)" using c2 s2 s by linarith
qed

text \<open>
  The finalizer on a planet list that is not empty, when the goal as first drawn collides
  with no planet: the re-roll returns it with no attempt made.
\<close>

lemma goalSearch_first:
  assumes "random s = (r2, s2)" and "random s2 = (r3, s3)"
    and "0 \<le> goalHops config" and "ps \<noteq> []"
    and "p = ps ! nat (min (goalHops config) (int (length ps) - 1))"
    and "gd = radius p + 40 + r3 * 30"
    and "\<not> goalCollision ps (posX p + cos (r2 * pi * 2) * gd) (posY p + sin (r2 * pi * 2) * gd)"
  shows "goalSearch config s ps =
           (p, posX p + cos (r2 * pi * 2) * gd, posY p + sin (r2 * pi * 2) * gd, 0, s3)"
proof -
  have "1 \<le> int (length ps)" using assms(4) by (cases ps) simp_all
  then have i: "\<not> min (goalHops config) (int (length ps) - 1) < 0" using assms(3) by linarith
  have "goalSearch config s ps =
          (p, goalReroll ps p gd 0 (posX p + cos (r2 * pi * 2) * gd)
                (posY p + sin (r2 * pi * 2) * gd) s3)"
    using i by (simp add: goalSearch_def Let_def assms(1,2,5,6))
  then show ?thesis using goalReroll_done [OF _ assms(7), of 0 p gd s3] by simp
qed

lemma goalBeforeClamp_first:
  assumes "tierConfig lv lv = (config, s1)" and "generateByArchetype lv config s1 = (ps0, s2)"
    and "random s2 = (r1, s3)"
    and "goalSearch config s3 (finalPlanets ps0) = (p, gx, gy, n, s4)" and "n < 100"
  shows "goalBeforeClamp lv = (p, gx, gy, n)"
  using assms by (simp add: goalBeforeClamp_def forceGoalOutside_idle)

lemma goalPosition_script_first:
  assumes "tierConfig lv lv = (config, s1)" and "generateByArchetype lv config s1 = (ps, s2)"
    and "random s2 = (r1, s3)" and "random s3 = (r2, s4)" and "random s4 = (r3, s5)"
    and "0 \<le> goalHops config" and "ps \<noteq> []"
    and "p = ps ! nat (min (goalHops config) (int (length ps) - 1))"
    and "gd = radius p + 40 + r3 * 30"
  shows "goalPosition (fst (generateLevel_script lv amb)) =
           (clampGoal CANVAS_WIDTH (posX p + cos (r2 * pi * 2) * gd),
            clampGoal CANVAS_HEIGHT (posY p + sin (r2 * pi * 2) * gd))"
proof -
  have "1 \<le> int (length ps)" using assms(7) by (cases ps) simp_all
  then have i: "\<not> min (goalHops config) (int (length ps) - 1) < 0" using assms(6) by linarith
  show ?thesis
    using i assms(7)
    by (simp add: fst_generateLevel_script finalizeLevelGeneration_script_def
          goalPosition_addBlackHoles startAndGoal_script_def Let_def assms(1-5,8,9))
qed

section \<open>Evaluated levels\<close>

text \<open>
  A call of \<^const>\<open>random\<close> on a state below the modulus: the product and the sum are
  integers below \<open>2\<^sup>5\<^sup>3\<close>, and the quotient is rounded as \<^const>\<open>double\<close> says.
\<close>

lemma random_eval:
  assumes "0 \<le> s" and "s < 233280" and "s' = (s * 9301 + 49297) mod 233280"
    and "2 powi e \<le> real_of_int s' / 233280" and "real_of_int s' / 233280 < 2 powi (e + 1)"
    and "nearestEven (real_of_int s' / 233280 / 2 powi (e - 52)) = m"
    and "v = real_of_int m * 2 powi (e - 52)"
  shows "random s = (v, s')"
proof -
  have "\<bar>s * 9301\<bar> < 2 ^ 53" using assms(1,2) by simp
  then have a: "double (real_of_int s * 9301) = real_of_int (s * 9301)"
    using double_of_int [of "s * 9301"] by simp
  have "\<bar>s * 9301 + 49297\<bar> < 2 ^ 53" using assms(1,2) by simp
  then have b: "double (real_of_int (s * 9301) + 49297) = real_of_int (s * 9301 + 49297)"
    using double_of_int [of "s * 9301 + 49297"] by simp
  have "double (double (real_of_int s * 9301) + 49297) = real_of_int (s * 9301 + 49297)"
    using a b by simp
  then have fl: "\<lfloor>double (double (real_of_int s * 9301) + 49297)\<rfloor> = s * 9301 + 49297"
    by (simp only: floor_of_int)
  have "0 \<le> s * 9301 + 49297" using assms(1) by simp
  then have c: "(s * 9301 + 49297) smod 233280 = s'"
    using assms(3) by (simp add: signed_modulo_int_def sgn_if)
  have pos: "0 < real_of_int s' / 233280"
    using assms(4) by (smt (verit) zero_less_power_int)
  have "double (real_of_int s' / 233280) = v"
    by (rule double_eval [where e = e and m = m]) (use assms(4-7) pos in simp_all)
  then show ?thesis
    unfolding random_def fl c Let_def by simp
qed

lemma random_25: "random 25 = ((7497041601914219 / 36028797018963968), 48542)"
  by (rule random_eval [where e = "- 3" and m = "7497041601914219"]) (simp_all add: nearestEven_def Let_def)

lemma random_48542: "random 48542 = ((5468838714172923 / 9007199254740992), 141639)"
  by (rule random_eval [where e = "- 1" and m = "5468838714172923"]) (simp_all add: nearestEven_def Let_def)

lemma random_141639: "random 141639 = ((7836201573851997 / 18014398509481984), 101476)"
  by (rule random_eval [where e = "- 2" and m = "7836201573851997"]) (simp_all add: nearestEven_def Let_def)

lemma random_101476: "random 101476 = ((8245170428902651 / 72057594037927936), 26693)"
  by (rule random_eval [where e = "- 4" and m = "8245170428902651"]) (simp_all add: nearestEven_def Let_def)

lemma random_26693: "random 26693 = ((2142337322742215 / 4503599627370496), 110970)"
  by (rule random_eval [where e = "- 2" and m = "8569349290968860"]) (simp_all add: nearestEven_def Let_def)

lemma random_110970: "random 110970 = ((363299153968271 / 562949953421312), 150547)"
  by (rule random_eval [where e = "- 1" and m = "5812786463492336"]) (simp_all add: nearestEven_def Let_def)

lemma random_150547: "random 150547 = ((5420381773737823 / 9007199254740992), 140384)"
  by (rule random_eval [where e = "- 1" and m = "5420381773737823"]) (simp_all add: nearestEven_def Let_def)

lemma random_140384: "random 140384 = ((7160121074235593 / 18014398509481984), 92721)"
  by (rule random_eval [where e = "- 2" and m = "7160121074235593"]) (simp_all add: nearestEven_def Let_def)

lemma random_92721: "random 92721 = ((1723290968525377 / 36028797018963968), 11158)"
  by (rule random_eval [where e = "- 5" and m = "6893163874101508"]) (simp_all add: nearestEven_def Let_def)

lemma random_11158: "random 11158 = ((6256543926775679 / 72057594037927936), 20255)"
  by (rule random_eval [where e = "- 4" and m = "6256543926775679"]) (simp_all add: nearestEven_def Let_def)

lemma rounded_25_1: "double (7497041601914219 / 18014398509481984) = (7497041601914219 / 18014398509481984)"
  by (rule double_eval [where e = "- 2" and m = "7497041601914219"]) (simp_all add: nearestEven_def Let_def)

lemma rounded_25_2: "double (5468838714172923 / 2251799813685248) = (5468838714172923 / 2251799813685248)"
  by (rule double_eval [where e = "1" and m = "5468838714172923"]) (simp_all add: nearestEven_def Let_def)

lemma tierConfig_25: "tierConfig 25 25 =
  (\<lparr>planetCount = (5, 6), sizeRange = (15, 65), minSpacing = 160,
     blackHoleCount = 0, goalHops = 2, cfgArchetype = Gauntlet\<rparr>, 141639)"
  by (simp add: tierConfig_def pick_def random_25 random_48542 rounded_25_1 rounded_25_2)

lemma generateGauntlet_25:
  "generateGauntlet 25 \<lparr>planetCount = (5, 6), sizeRange = (15, 65), minSpacing = 160,
     blackHoleCount = 0, goalHops = 2, cfgArchetype = Gauntlet\<rparr> 141639 =
   ([\<lparr>posX = (500 / 3), posY = (2007569111670764675 / 9007199254740992), radius = (91 / 2),
      gravityStrength = (2197 / 1000)\<rparr>,
   \<lparr>posX = (850 / 3), posY = (23156227684739575 / 70368744177664), radius = (167243048662248105 / 9007199254740992),
      gravityStrength = (37422622097444830528012136244501973502893996910061 / 250647530802249850471931948810842537870992431120384)\<rparr>,
   \<lparr>posX = 400, posY = (360689525711970375 / 1125899906842624), radius = (91 / 2),
      gravityStrength = (2197 / 1000)\<rparr>,
   \<lparr>posX = (1550 / 3), posY = (943802199687233625 / 4503599627370496), radius = (647833771397993415 / 36028797018963968),
      gravityStrength = (2175107564377784126501104229468511595382845088877987 / 16041441971343990430203644723893922423743515591704576)\<rparr>,
   \<lparr>posX = (1900 / 3), posY = (1957853449117590375 / 9007199254740992), radius = (91 / 2),
      gravityStrength = (2197 / 1000)\<rparr>],
  20255)"
  by (simp add: generateGauntlet_def gauntletStep_def Planet_new_def CANVAS_WIDTH_def CANVAS_HEIGHT_def upt_rec
        power3_eq_cube random_141639 random_101476 random_26693 random_110970 random_150547 random_140384 random_92721 random_11158 rounded_25_1 rounded_25_2)

lemma random_3916: "random 3916 = ((3101746132249263 / 9007199254740992), 80333)"
  by (rule random_eval [where e = "- 2" and m = "6203492264498526"]) (simp_all add: nearestEven_def Let_def)

lemma random_80333: "random 80333 = ((1184974901954737 / 9007199254740992), 30690)"
  by (rule random_eval [where e = "- 3" and m = "4739899607818948"]) (simp_all add: nearestEven_def Let_def)

lemma random_30690: "random 30690 = ((7550286319730953 / 9007199254740992), 195547)"
  by (rule random_eval [where e = "- 1" and m = "7550286319730953"]) (simp_all add: nearestEven_def Let_def)

lemma random_195547: "random 195547 = ((6991081643777533 / 9007199254740992), 181064)"
  by (rule random_eval [where e = "- 1" and m = "6991081643777533"]) (simp_all add: nearestEven_def Let_def)

lemma random_181064: "random 181064 = ((46599384165183 / 140737488355328), 77241)"
  by (rule random_eval [where e = "- 2" and m = "5964721173143424"]) (simp_all add: nearestEven_def Let_def)

lemma random_77241: "random 77241 = ((7672722142933901 / 9007199254740992), 198718)"
  by (rule random_eval [where e = "- 1" and m = "7672722142933901"]) (simp_all add: nearestEven_def Let_def)

lemma random_198718: "random 198718 = ((463091975572487 / 2251799813685248), 47975)"
  by (rule random_eval [where e = "- 3" and m = "7409471609159792"]) (simp_all add: nearestEven_def Let_def)

lemma random_47975: "random 47975 = ((5218986234845809 / 9223372036854775808), 132)"
  by (rule random_eval [where e = "- 11" and m = "5218986234845809"]) (simp_all add: nearestEven_def Let_def)

lemma random_132: "random 132 = ((4271508257684933 / 9007199254740992), 110629)"
  by (rule random_eval [where e = "- 2" and m = "8543016515369866"]) (simp_all add: nearestEven_def Let_def)

lemma random_110629: "random 110629 = ((7132861632046605 / 144115188075855872), 11546)"
  by (rule random_eval [where e = "- 5" and m = "7132861632046605"]) (simp_all add: nearestEven_def Let_def)

lemma random_11546: "random 11546 = ((2506691042595453 / 4503599627370496), 129843)"
  by (rule random_eval [where e = "- 1" and m = "5013382085190906"]) (simp_all add: nearestEven_def Let_def)

lemma random_129843: "random 129843 = ((8797154827675701 / 72057594037927936), 28480)"
  by (rule random_eval [where e = "- 4" and m = "8797154827675701"]) (simp_all add: nearestEven_def Let_def)

lemma random_28480: "random 28480 = ((6524389182391841 / 9007199254740992), 168977)"
  by (rule random_eval [where e = "- 1" and m = "6524389182391841"]) (simp_all add: nearestEven_def Let_def)

lemma random_168977: "random 168977 = ((7491636046805921 / 18014398509481984), 97014)"
  by (rule random_eval [where e = "- 2" and m = "7491636046805921"]) (simp_all add: nearestEven_def Let_def)

lemma random_97014: "random 97014 = ((1910130119732903 / 9007199254740992), 49471)"
  by (rule random_eval [where e = "- 3" and m = "7640520478931612"]) (simp_all add: nearestEven_def Let_def)

lemma random_49471: "random 49471 = ((5826725073450161 / 9007199254740992), 150908)"
  by (rule random_eval [where e = "- 1" and m = "5826725073450161"]) (simp_all add: nearestEven_def Let_def)

lemma random_150908: "random 150908 = ((4481301712548767 / 4503599627370496), 232125)"
  by (rule random_eval [where e = "- 1" and m = "8962603425097534"]) (simp_all add: nearestEven_def Let_def)

lemma rounded_3916_1: "double (1958 / 25) = (1377820010998661 / 17592186044416)"
  by (rule double_eval [where e = "6" and m = "5511280043994644"]) (simp_all add: nearestEven_def Let_def)

lemma rounded_3916_2: "double (9305238396747789 / 9007199254740992) = (2326309599186947 / 2251799813685248)"
  by (rule double_eval [where e = "0" and m = "4652619198373894"]) (simp_all add: nearestEven_def Let_def)

lemma rounded_3916_3: "double (5924874509773685 / 9007199254740992) = (5924874509773685 / 9007199254740992)"
  by (rule double_eval [where e = "- 1" and m = "5924874509773685"]) (simp_all add: nearestEven_def Let_def)

lemma rounded_3916_4: "double (309561739108969073 / 4503599627370496) = (2418451086788821 / 35184372088832)"
  by (rule double_eval [where e = "6" and m = "4836902173577642"]) (simp_all add: nearestEven_def Let_def)

lemma rounded_3916_5: "double (314581607860289941 / 4503599627370496) = (2457668811408515 / 35184372088832)"
  by (rule double_eval [where e = "6" and m = "4915337622817030"]) (simp_all add: nearestEven_def Let_def)

lemma rounded_3916_6: "double (175131838565082253 / 4503599627370496) = (1368217488789705 / 35184372088832)"
  by (rule double_eval [where e = "5" and m = "5472869955158820"]) (simp_all add: nearestEven_def Let_def)

lemma rounded_3916_7: "double (360683347934703741 / 36028797018963968) = (2817838655739873 / 281474976710656)"
  by (rule double_eval [where e = "3" and m = "5635677311479746"]) (simp_all add: nearestEven_def Let_def)

lemma rounded_3916_8: "double (78315334909049023 / 4503599627370496) = (1223677107953891 / 70368744177664)"
  by (rule double_eval [where e = "4" and m = "4894708431815564"]) (simp_all add: nearestEven_def Let_def)

lemma tierConfig_3916: "tierConfig 3916 3916 =
  (\<lparr>planetCount = (6, 9), sizeRange = (8, 90), minSpacing = 220,
     blackHoleCount = 3, goalHops = 4, cfgArchetype = Void\<rparr>, 30690)"
  by (simp add: tierConfig_def pick_def random_3916 random_80333 rounded_3916_1 rounded_3916_2 rounded_3916_3 rounded_3916_4 rounded_3916_5 rounded_3916_6 rounded_3916_7 rounded_3916_8)

lemma generateVoid_3916:
  "generateVoid 3916 \<lparr>planetCount = (6, 9), sizeRange = (8, 90), minSpacing = 220,
     blackHoleCount = 3, goalHops = 4, cfgArchetype = Void\<rparr> 30690 =
   ([\<lparr>posX = (626971185901949227 / 1125899906842624), posY = (2092132626375337 / 8796093022208), radius = 76,
      gravityStrength = (438976 / 42875)\<rparr>,
   \<lparr>posX = (262785318187600829 / 1125899906842624), posY = (540522338636981167815 / 4611686018427387904), radius = 77,
      gravityStrength = (1331 / 125)\<rparr>,
   \<lparr>posX = (4218335819862218233 / 36028797018963968), posY = (365043333546179135 / 1125899906842624), radius = 46,
      gravityStrength = (97336 / 42875)\<rparr>,
   \<lparr>posX = (1246274939382749195 / 2251799813685248), posY = (1167696740051005209 / 4503599627370496), radius = 18,
      gravityStrength = (5832 / 42875)\<rparr>,
   \<lparr>posX = (2244686875384886175 / 4503599627370496), posY = (1199472890338501365 / 2251799813685248), radius = 25,
      gravityStrength = (125 / 343)\<rparr>],
  232125)"
  by (simp add: generateVoid_def voidStep_def Planet_new_def CANVAS_WIDTH_def CANVAS_HEIGHT_def upt_rec
        power3_eq_cube random_30690 random_195547 random_181064 random_77241 random_198718 random_47975 random_132 random_110629 random_11546 random_129843 random_28480 random_168977 random_97014 random_49471 random_150908 rounded_3916_1 rounded_3916_2 rounded_3916_3 rounded_3916_4 rounded_3916_5 rounded_3916_6 rounded_3916_7 rounded_3916_8)

lemma random_232125: "random 232125 = ((2897531982479351 / 18014398509481984), 37522)"
  by (rule random_eval [where e = "- 3" and m = "5795063964958702"]) (simp_all add: nearestEven_def Let_def)

lemma random_37522: "random 37522 = ((8423244858613151 / 36028797018963968), 54539)"
  by (rule random_eval [where e = "- 3" and m = "8423244858613151"]) (simp_all add: nearestEven_def Let_def)

lemma random_54539: "random 54539 = ((6402339470268057 / 9007199254740992), 165816)"
  by (rule random_eval [where e = "- 1" and m = "6402339470268057"]) (simp_all add: nearestEven_def Let_def)

text \<open>
  The spacing of the claim is not kept by the archetypes that place their planets without
  a test.  Level 25 is a horizontal gauntlet (\<^verbatim>\<open>minSpacing = 160\<close>): its first two planets
  have radii 45.5 and about 18.57 and centres about 157.8 apart, less than the sum of the
  radii plus 160.
\<close>

lemma not_spaced_pair:
  assumes "i < length ps" and "j < length ps" and "i \<noteq> j"
    and "planetDistance (ps ! i) (ps ! j) < radius (ps ! i) + radius (ps ! j) + spacing"
  shows "\<not> planetsSpaced spacing ps"
  using assms unfolding planetsSpaced_def by (metis not_le)

lemma close_by:
  fixes a b :: Planet
  assumes "0 \<le> c" and "(posX a - posX b)\<^sup>2 + (posY a - posY b)\<^sup>2 < c * c"
  shows "planetDistance a b < c"
  unfolding planetDistance_def using assms by (rule sqrt_less_bound)

lemma gauntlet_25_close:
  "\<not> planetsSpaced 160 (fst (generateGauntlet 25 (fst (tierConfig 25 25)) 141639))"
  unfolding tierConfig_25 fst_conv generateGauntlet_25
  apply (rule not_spaced_pair [of 0 _ 1])
     apply simp
    apply simp
   apply simp
  apply (rule close_by)
   apply (simp_all add: power2_eq_square)
  done

lemma gauntlet_level_not_spaced:
  "archetype (fst (generateLevel 25 amb)) = Gauntlet"
  "archetype (fst (generateLevel_script 25 amb)) = Gauntlet"
  "minSpacing (fst (tierConfig 25 25)) = 160"
  "\<not> planetsSpaced 160 (planets (fst (generateLevel 25 amb)))"
  "\<not> planetsSpaced 160 (planets (fst (generateLevel_script 25 amb)))"
  using gauntlet_25_close
  by (simp_all add: planets_generateLevel planets_generateLevel_script archetype_generateLevel
        archetype_generateLevel_script generateByArchetype_def tierConfig_25 generateGauntlet_25
        finalPlanets_def)

text \<open>
  Claim C5, the goal.  The modular \<^verbatim>\<open>Level.generateLevel\<close> re-rolls the goal until it is
  clear of every planet (\<^verbatim>\<open>// Ensure goal doesn't spawn inside any planet\<close>) and clamps it
  to the canvas afterwards, with no further test.  At level 3916 (a void level of five
  planets) the goal planet has radius 25 and centre about (498.4, 532.7); the goal as
  first drawn, about 86.3 from that centre at an angle just short of a quarter turn, is
  clear of every planet by the full buffer, so no re-roll is made; it lies below the canvas
  margin (\<open>y > 550\<close>), the clamp moves it up to \<open>y = 550\<close>, and the level is returned with
  the goal centre inside the goal planet's disc.  The level of \<^verbatim>\<open>script.js\<close>, which clamps
  the goal as drawn, has the same goal.
\<close>

theorem C5_goal_inside_planet_after_clamp:
  "(case goalBeforeClamp 3916 of
      (goalPlanet, goalX, goalY, attempts) \<Rightarrow>
        attempts = 0 \<and> 550 < goalY \<and>
        \<not> goalCollision (planets (fst (generateLevel 3916 amb))) goalX goalY) \<and>
   snd (goalPosition (fst (generateLevel 3916 amb))) = 550 \<and>
   goalInside (planets (fst (generateLevel 3916 amb))) (goalPosition (fst (generateLevel 3916 amb))) \<and>
   goalInside (planets (fst (generateLevel_script 3916 amb)))
     (goalPosition (fst (generateLevel_script 3916 amb)))"
proof -
  define q0 :: Planet where
    "q0 = \<lparr>posX = (626971185901949227 / 1125899906842624), posY = (2092132626375337 / 8796093022208), radius = 76, gravityStrength = (438976 / 42875)\<rparr>"
  define q1 :: Planet where
    "q1 = \<lparr>posX = (262785318187600829 / 1125899906842624), posY = (540522338636981167815 / 4611686018427387904), radius = 77, gravityStrength = (1331 / 125)\<rparr>"
  define q2 :: Planet where
    "q2 = \<lparr>posX = (4218335819862218233 / 36028797018963968), posY = (365043333546179135 / 1125899906842624), radius = 46, gravityStrength = (97336 / 42875)\<rparr>"
  define q3 :: Planet where
    "q3 = \<lparr>posX = (1246274939382749195 / 2251799813685248), posY = (1167696740051005209 / 4503599627370496), radius = 18, gravityStrength = (5832 / 42875)\<rparr>"
  define p :: Planet where
    "p = \<lparr>posX = (2244686875384886175 / 4503599627370496), posY = (1199472890338501365 / 2251799813685248), radius = 25, gravityStrength = (125 / 343)\<rparr>"
  define ps where "ps = [q0, q1, q2, q3, p]"
  define cfg :: Config where
    "cfg = \<lparr>planetCount = (6, 9), sizeRange = (8, 90), minSpacing = 220, blackHoleCount = 3, goalHops = 4, cfgArchetype = Void\<rparr>"
  define gd :: real where "gd = (388769067833103095 / 4503599627370496)"
  define a :: real where "a = 8423244858613151 / 36028797018963968 * pi * 2"
  define u where "u = cos a * gd"
  define v where "v = sin a * gd"
  have tc: "tierConfig 3916 3916 = (cfg, 30690)"
    by (simp add: tierConfig_3916 cfg_def)
  have gen: "generateByArchetype 3916 cfg 30690 = (ps, 232125)"
    by (simp add: generateByArchetype_def cfg_def ps_def q0_def q1_def q2_def q3_def p_def generateVoid_3916)
  have fin: "finalPlanets ps = ps" by (simp add: finalPlanets_def ps_def)
  have gd0: "0 \<le> gd" and own: "radius p + 20 + 40 \<le> \<bar>gd\<bar>"
    by (simp_all add: gd_def p_def)
  have clear: "\<not> goalCollision ps (posX p + cos a * gd) (posY p + sin a * gd)"
  proof (rule isolated_clear)
    fix q
    assume "q \<in> set ps"
    then consider "q = q0" | "q = q1" | "q = q2" | "q = q3" | "q = p"
      by (auto simp: ps_def)
    then show "(posX q = posX p \<and> posY q = posY p \<and> radius q + 20 + 40 \<le> \<bar>gd\<bar>) \<or>
               radius q + 20 + 40 + \<bar>gd\<bar> \<le> centreDistance (posX p) (posY p) q"
    proof cases
      case 1
      have "radius q0 + 20 + 40 + \<bar>gd\<bar> \<le> centreDistance (posX p) (posY p) q0"
        by (rule far_enough) (simp_all add: q0_def p_def gd_def)
      then show ?thesis using 1 by simp
    next
      case 2
      have "radius q1 + 20 + 40 + \<bar>gd\<bar> \<le> centreDistance (posX p) (posY p) q1"
        by (rule far_enough) (simp_all add: q1_def p_def gd_def)
      then show ?thesis using 2 by simp
    next
      case 3
      have "radius q2 + 20 + 40 + \<bar>gd\<bar> \<le> centreDistance (posX p) (posY p) q2"
        by (rule far_enough) (simp_all add: q2_def p_def gd_def)
      then show ?thesis using 3 by simp
    next
      case 4
      have "radius q3 + 20 + 40 + \<bar>gd\<bar> \<le> centreDistance (posX p) (posY p) q3"
        by (rule far_enough) (simp_all add: q3_def p_def gd_def)
      then show ?thesis using 4 by simp
    next
      case 5
      then show ?thesis using own by simp
    qed
  qed
  have search: "goalSearch cfg 37522 ps = (p, posX p + cos a * gd, posY p + sin a * gd, 0, 165816)"
    unfolding a_def
  proof (rule goalSearch_first [OF random_37522 random_54539])
    show "0 \<le> goalHops cfg" by (simp add: cfg_def)
    show "ps \<noteq> []" by (simp add: ps_def)
    show "p = ps ! nat (min (goalHops cfg) (int (length ps) - 1))" by (simp add: cfg_def ps_def)
    show "gd = radius p + 40 + 6402339470268057 / 9007199254740992 * 30" by (simp add: gd_def p_def)
    show "\<not> goalCollision ps (posX p + cos (8423244858613151 / 36028797018963968 * pi * 2) * gd)
            (posY p + sin (8423244858613151 / 36028797018963968 * pi * 2) * gd)"
      using clear unfolding a_def .
  qed
  have before: "goalBeforeClamp 3916 = (p, posX p + u, posY p + v, 0)"
    unfolding u_def v_def
    by (rule goalBeforeClamp_first [OF tc gen random_232125]) (simp_all add: fin search)
  have planets: "planets (fst (generateLevel 3916 amb)) = ps"
    by (simp add: planets_generateLevel tc gen fin)
  have planets_script: "planets (fst (generateLevel_script 3916 amb)) = ps"
    by (simp add: planets_generateLevel_script tc gen fin)
  have pos: "goalPosition (fst (generateLevel 3916 amb)) =
               (clampGoal CANVAS_WIDTH (posX p + u), clampGoal CANVAS_HEIGHT (posY p + v))"
    by (simp add: goalPosition_generateLevel before)
  have pos_script: "goalPosition (fst (generateLevel_script 3916 amb)) =
               (clampGoal CANVAS_WIDTH (posX p + u), clampGoal CANVAS_HEIGHT (posY p + v))"
    unfolding u_def v_def a_def
  proof (rule goalPosition_script_first [OF tc gen random_232125 random_37522 random_54539])
    show "0 \<le> goalHops cfg" by (simp add: cfg_def)
    show "ps \<noteq> []" by (simp add: ps_def)
    show "p = ps ! nat (min (goalHops cfg) (int (length ps) - 1))" by (simp add: cfg_def ps_def)
    show "gd = radius p + 40 + 6402339470268057 / 9007199254740992 * 30" by (simp add: gd_def p_def)
  qed
  have c0: "0 \<le> cos a"
    unfolding a_def by (rule near_quarter_turn(1)) simp_all
  have c1: "cos a \<le> 8 * (1 / 4 - 8423244858613151 / 36028797018963968)"
    unfolding a_def by (rule near_quarter_turn(2)) simp_all
  have s1: "1 - (8 * (1 / 4 - 8423244858613151 / 36028797018963968))\<^sup>2 \<le> sin a"
    unfolding a_def by (rule near_quarter_turn(3)) simp_all
  have u0: "0 \<le> u" using c0 gd0 by (simp add: u_def)
  have "cos a * gd \<le> 8 * (1 / 4 - 8423244858613151 / 36028797018963968) * gd"
    using c1 gd0 by (intro mult_right_mono) simp_all
  also have "\<dots> \<le> 12" by (simp add: gd_def)
  finally have u1: "u \<le> 12" by (simp add: u_def)
  have "(1 - (8 * (1 / 4 - 8423244858613151 / 36028797018963968))\<^sup>2) * gd \<le> sin a * gd"
    using s1 gd0 by (intro mult_right_mono) simp_all
  moreover have "80 \<le> (1 - (8 * (1 / 4 - 8423244858613151 / 36028797018963968))\<^sup>2) * gd"
    by (simp add: gd_def power2_eq_square)
  ultimately have v0: "80 \<le> v" by (simp add: v_def)
  have cx: "clampGoal CANVAS_WIDTH (posX p + u) = posX p + u"
    using u0 u1 by (simp add: clampGoal_def CANVAS_WIDTH_def p_def)
  have cy: "clampGoal CANVAS_HEIGHT (posY p + v) = 550"
    using v0 by (simp add: clampGoal_def CANVAS_HEIGHT_def p_def)
  have below: "550 < posY p + v" using v0 by (simp add: p_def)
  have "u * u \<le> 12 * 12" using u0 u1 by (intro mult_mono) simp_all
  then have "u * u + (550 - posY p) * (550 - posY p) < radius p * radius p"
    by (simp add: p_def)
  then have "sqrt (u * u + (550 - posY p) * (550 - posY p)) < radius p"
    by (intro sqrt_less_bound) (simp_all add: p_def)
  then have "centreDistance (posX p + u) 550 p < radius p"
    by (simp add: centreDistance_def Let_def)
  then have inside: "goalInside ps (posX p + u, 550)"
    by (simp add: goalInside_def ps_def)
  have clear_before: "\<not> goalCollision ps (posX p + u) (posY p + v)"
    using clear by (simp add: u_def v_def)
  show ?thesis
    using clear_before below inside
    by (simp add: before planets planets_script pos pos_script cx cy)
qed

section \<open>Screen wrap and the swept tests\<close>

text \<open>
  A degenerate segment makes the swept test the point test, and with it the goal test and
  the black-hole test.
\<close>

lemma lsic_degenerate:
  "lineSegmentIntersectsCircle a b a b cx cy r = pointInCircle a b cx cy r"
  by (simp add: lineSegmentIntersectsCircle_def pointInCircle_def)

lemma wrapAndReset_changed:
  assumes "posX (wrapScreenPosition m) \<noteq> posX m \<or> posY (wrapScreenPosition m) \<noteq> posY m"
  shows "screenWrapped (wrapAndReset m) \<and>
         posX (wrapAndReset m) = posX (wrapScreenPosition m) \<and>
         posY (wrapAndReset m) = posY (wrapScreenPosition m) \<and>
         prevX (wrapAndReset m) = posX (wrapAndReset m) \<and>
         prevY (wrapAndReset m) = posY (wrapAndReset m)"
proof -
  have a: "posX (wrapScreenPosition (m\<lparr>screenWrapped := False\<rparr>)) = posX (wrapScreenPosition m)"
          "posY (wrapScreenPosition (m\<lparr>screenWrapped := False\<rparr>)) = posY (wrapScreenPosition m)"
    by (simp_all add: wrapScreenPosition_def Let_def)
  show ?thesis
    using assms by (simp add: wrapAndReset_def Let_def a)
qed

lemma checkBlackHoleCollision_degenerate:
  "prevX p = posX p \<Longrightarrow> prevY p = posY p \<Longrightarrow>
   checkBlackHoleCollision p holes =
     list_ex (\<lambda>bh. pointInCircle (posX p) (posY p) (posX bh) (posY bh) (radius bh + radius p)) holes"
  by (induction holes) (auto simp: Let_def lsic_degenerate pointInCircle_def)

lemma checkGoal_degenerate:
  "prevX p = posX p \<Longrightarrow> prevY p = posY p \<Longrightarrow>
   checkGoal l p =
     pointInCircle (posX p) (posY p) (fst (goalPosition l)) (snd (goalPosition l)) (goalRadius l)"
  by (auto simp: checkGoal_def Let_def lsic_degenerate pointInCircle_def)

text \<open>
  Claim C6.  Whenever the screen-wrap transform changes the body's position during a
  flight step (the body is in flight and lands on no planet), \<^verbatim>\<open>prevX, prevY\<close> are set to
  the wrapped position within that same \<^verbatim>\<open>updatePhysics\<close> call; the swept segment of the
  step is then degenerate, so every swept test on it, the goal test and the black-hole test
  of the step included, is the point test at the wrapped position: no collision comes from
  the teleport.
\<close>

theorem C6_wrap_resets_previous_position:
  fixes this :: Player
  assumes flight: "\<not> onPlanet this"
    and noLanding: "landingLoop this ps = (this, False)"
    and wrapped: "posX (wrapScreenPosition (integrate gm level ps (deltaTime * (1 / 1000) * speed) this))
                    \<noteq> posX (integrate gm level ps (deltaTime * (1 / 1000) * speed) this) \<or>
                  posY (wrapScreenPosition (integrate gm level ps (deltaTime * (1 / 1000) * speed) this))
                    \<noteq> posY (integrate gm level ps (deltaTime * (1 / 1000) * speed) this)"
  shows "let r = fst (updatePhysics angular speed gm level ps deltaTime this)
         in screenWrapped r \<and>
            posX r = posX (wrapScreenPosition (integrate gm level ps (deltaTime * (1 / 1000) * speed) this)) \<and>
            posY r = posY (wrapScreenPosition (integrate gm level ps (deltaTime * (1 / 1000) * speed) this)) \<and>
            prevX r = posX r \<and> prevY r = posY r \<and>
            (\<forall>cx cy rad. lineSegmentIntersectsCircle (prevX r) (prevY r) (posX r) (posY r) cx cy rad
               = pointInCircle (posX r) (posY r) cx cy rad) \<and>
            checkGoal lvl r
              = pointInCircle (posX r) (posY r) (fst (goalPosition lvl)) (snd (goalPosition lvl))
                  (goalRadius lvl) \<and>
            checkBlackHoleCollision r holes
              = list_ex (\<lambda>bh. pointInCircle (posX r) (posY r) (posX bh) (posY bh)
                                 (radius bh + radius r)) holes"
proof -
  define m where "m = integrate gm level ps (deltaTime * (1 / 1000) * speed) this"
  have r: "fst (updatePhysics angular speed gm level ps deltaTime this) = wrapAndReset m"
    using flight noLanding by (simp add: updatePhysics_def Let_def freeFallPhase_def m_def)
  have w: "screenWrapped (wrapAndReset m) \<and>
         posX (wrapAndReset m) = posX (wrapScreenPosition m) \<and>
         posY (wrapAndReset m) = posY (wrapScreenPosition m) \<and>
         prevX (wrapAndReset m) = posX (wrapAndReset m) \<and>
         prevY (wrapAndReset m) = posY (wrapAndReset m)"
    using wrapped unfolding m_def [symmetric] by (rule wrapAndReset_changed)
  show ?thesis
    unfolding Let_def r m_def [symmetric]
    using w checkGoal_degenerate [of "wrapAndReset m" lvl]
      checkBlackHoleCollision_degenerate [of "wrapAndReset m" holes]
    by (simp add: lsic_degenerate)
qed

lemma sqrt_squares:
  "sqrt 488601 = 699" "sqrt 159201 = 399" "sqrt 39601 = 199"
  using real_sqrt_abs2 [of 699] real_sqrt_abs2 [of 399] real_sqrt_abs2 [of 199] by simp_all

lemma flier_integrated:
  "posX (integrate 2 wrapLevel (planets wrapLevel) (16 * (1 / 1000) * 1) flier) > 800 \<and>
   posY (integrate 2 wrapLevel (planets wrapLevel) (16 * (1 / 1000) * 1) flier) = 300"
  by (simp add: integrate_def totalForce_def wrapLevel_def wrapHole_def flier_def Level_new_def
        Planet_new_def Planet_calculateGravity_def goal_calculateGravity_def
        BlackHole_calculateGravity_def GRAVITY_CONSTANT_def Let_def sqrt_squares)

lemma updatePhysics_flight:
  "\<not> onPlanet this \<Longrightarrow> landingLoop this ps = (this, False) \<Longrightarrow>
   fst (updatePhysics angular speed gm level ps deltaTime this) =
     freeFallPhase gm level ps (deltaTime * (1 / 1000) * speed) this"
  by (simp add: updatePhysics_def Let_def)

lemma radius_freeFallPhase: "radius (freeFallPhase gm level ps dt this) = radius this"
  by (simp add: freeFallPhase_def wrapAndReset_def wrapScreenPosition_def integrate_def Let_def)

theorem C6_witness:
  "\<not> onPlanet flier \<and> landingLoop flier (planets wrapLevel) = (flier, False) \<and>
   screenWrapped (fst (updatePhysics (updateAngularMovement_script \<lparr>left = False, right = False\<rparr>)
                         1 2 wrapLevel (planets wrapLevel) 16 flier)) \<and>
   posX (fst (updatePhysics (updateAngularMovement_script \<lparr>left = False, right = False\<rparr>)
                1 2 wrapLevel (planets wrapLevel) 16 flier)) = 0 \<and>
   prevX (fst (updatePhysics (updateAngularMovement_script \<lparr>left = False, right = False\<rparr>)
                 1 2 wrapLevel (planets wrapLevel) 16 flier)) = 0 \<and>
   lineSegmentIntersectsCircle 799 300 0 300 (posX wrapHole) (posY wrapHole) (radius wrapHole + 8) \<and>
   \<not> checkBlackHoleCollision
        (fst (updatePhysics (updateAngularMovement_script \<lparr>left = False, right = False\<rparr>)
                1 2 wrapLevel (planets wrapLevel) 16 flier))
        (blackHoles wrapLevel)"
proof -
  have h1: "\<not> onPlanet flier" by (simp add: flier_def)
  have h2: "landingLoop flier (planets wrapLevel) = (flier, False)"
    by (simp add: wrapLevel_def Level_new_def Planet_new_def flier_def Let_def
          lineSegmentIntersectsCircle_def)
  have w: "posX (wrapScreenPosition (integrate 2 wrapLevel (planets wrapLevel) (16 * (1 / 1000) * 1) flier)) = 0 \<and>
           posY (wrapScreenPosition (integrate 2 wrapLevel (planets wrapLevel) (16 * (1 / 1000) * 1) flier)) = 300"
    using flier_integrated by (simp add: wrapScreenPosition_def CANVAS_WIDTH_def CANVAS_HEIGHT_def Let_def)
  have h3: "posX (wrapScreenPosition (integrate 2 wrapLevel (planets wrapLevel) (16 * (1 / 1000) * 1) flier))
              \<noteq> posX (integrate 2 wrapLevel (planets wrapLevel) (16 * (1 / 1000) * 1) flier) \<or>
            posY (wrapScreenPosition (integrate 2 wrapLevel (planets wrapLevel) (16 * (1 / 1000) * 1) flier))
              \<noteq> posY (integrate 2 wrapLevel (planets wrapLevel) (16 * (1 / 1000) * 1) flier)"
    using w flier_integrated by simp
  have teleport: "lineSegmentIntersectsCircle 799 300 0 300 (posX wrapHole) (posY wrapHole) (radius wrapHole + 8)"
    unfolding lsic_iff_segment
    by (rule exI [of _ "199 / 799"]) (simp add: segDistSq_def wrapHole_def)
  have rad: "radius (fst (updatePhysics (updateAngularMovement_script \<lparr>left = False, right = False\<rparr>)
                1 2 wrapLevel (planets wrapLevel) 16 flier)) = 8"
    using h1 h2 by (simp add: updatePhysics_flight radius_freeFallPhase) (simp add: flier_def)
  show ?thesis
    using h1 h2 w teleport rad
      C6_wrap_resets_previous_position [OF h1 h2 h3,
        of "updateAngularMovement_script \<lparr>left = False, right = False\<rparr>" wrapLevel
           "blackHoles wrapLevel"]
    by (simp add: Let_def) (simp add: wrapLevel_def wrapHole_def pointInCircle_def)
qed

section \<open>Order of evaluation in a step\<close>

lemma updateUI_counters [simp]:
  "deaths (updateUI g) = deaths g" "levelsCompleted (updateUI g) = levelsCompleted g"
  "currentLevel (updateUI g) = currentLevel g" "player (updateUI g) = player g"
  by (simp_all add: updateUI_def)

lemma scoreDisplay_counters [simp]:
  "deaths (scoreDisplay g) = deaths g" "levelsCompleted (scoreDisplay g) = levelsCompleted g"
  "currentLevel (scoreDisplay g) = currentLevel g" "player (scoreDisplay g) = player g"
  by (simp_all add: scoreDisplay_def)

lemma loadLevel_counters [simp]:
  "deaths (loadLevel v n g) = deaths g" "levelsCompleted (loadLevel v n g) = levelsCompleted g"
  "mode (loadLevel v n g) = mode g" "currentLevelNumber (loadLevel v n g) = currentLevelNumber g"
  "currentLevel (loadLevel v n g) = fst (generateLevelOf v n (ambient g))"
  by (simp_all add: loadLevel_def split: prod.splits)

lemma handlePlayerDeath_counters:
  "deaths (fst (handlePlayerDeath v g)) = deaths g + 1"
  "levelsCompleted (fst (handlePlayerDeath v g)) = levelsCompleted g"
  by (simp_all add: handlePlayerDeath_def Let_def)

lemma completeSpeedrun_counters:
  "deaths (stateOf (completeSpeedrun g)) = deaths g"
  "levelsCompleted (stateOf (completeSpeedrun g)) = levelsCompleted g"
  by (simp_all add: completeSpeedrun_def stateOf_def Let_def split: option.splits)

lemma handleLevelComplete_counters:
  "deaths (stateOf (handleLevelComplete v d g)) = deaths g"
  "levelsCompleted (stateOf (handleLevelComplete v d g)) = levelsCompleted g + 1"
proof -
  define g' where "g' = g\<lparr>levelsCompleted := levelsCompleted g + 1,
      stats := (stats g)\<lparr>totalLevelsCompleted := totalLevelsCompleted (stats g) + 1\<rparr>\<rparr>"
  show "deaths (stateOf (handleLevelComplete v d g)) = deaths g"
  proof (cases "mode g = Speedrun \<and> speedrunTarget g \<le> levelsCompleted g + 1")
    case True
    then have "handleLevelComplete v d g = completeSpeedrun g'"
      by (simp add: handleLevelComplete_def Let_def g'_def)
    then show ?thesis by (simp add: completeSpeedrun_counters g'_def)
  next
    case False
    then show ?thesis
      by (auto simp: handleLevelComplete_def stateOf_def Let_def split: Mode.splits)
  qed
  show "levelsCompleted (stateOf (handleLevelComplete v d g)) = levelsCompleted g + 1"
  proof (cases "mode g = Speedrun \<and> speedrunTarget g \<le> levelsCompleted g + 1")
    case True
    then have "handleLevelComplete v d g = completeSpeedrun g'"
      by (simp add: handleLevelComplete_def Let_def g'_def)
    then show ?thesis by (simp add: completeSpeedrun_counters g'_def)
  next
    case False
    then show ?thesis
      by (auto simp: handleLevelComplete_def stateOf_def Let_def split: Mode.splits)
  qed
qed

lemma animateBlackHoles_counters [simp]:
  "deaths (animateBlackHoles dt g) = deaths g"
  "levelsCompleted (animateBlackHoles dt g) = levelsCompleted g"
  "player (animateBlackHoles dt g) = player g"
  "goalPosition (currentLevel (animateBlackHoles dt g)) = goalPosition (currentLevel g)"
  "goalRadius (currentLevel (animateBlackHoles dt g)) = goalRadius (currentLevel g)"
  by (simp_all add: animateBlackHoles_def Let_def split: prod.splits)

text \<open>
  The animation of the black holes changes the rotation phase and the particles only, and
  the lethality test reads the position and radius only.
\<close>

lemma updateBlackHoles_physical:
  "map physicalHole (fst (updateBlackHoles dt hs amb)) = map physicalHole hs"
  by (induction hs arbitrary: amb)
     (simp_all add: BlackHole_update_def physicalHole_def case_prod_beta)

lemma checkBlackHoleCollision_cong:
  "map physicalHole h1 = map physicalHole h2 \<Longrightarrow>
   checkBlackHoleCollision p h1 = checkBlackHoleCollision p h2"
proof (induction h1 arbitrary: h2)
  case Nil
  then show ?case by simp
next
  case (Cons a h1)
  then obtain b h2' where h2: "h2 = b # h2'" by (cases h2) auto
  with Cons.prems have ab: "physicalHole a = physicalHole b"
    and rest: "map physicalHole h1 = map physicalHole h2'" by simp_all
  from ab have "posX a = posX b" "posY a = posY b" "radius a = radius b"
    by (simp_all add: physicalHole_def)
  with Cons.IH [OF rest] show ?case by (simp add: h2 Let_def)
qed

lemma animateBlackHoles_checks:
  "checkBlackHoleCollision p (blackHoles (currentLevel (animateBlackHoles dt g))) =
     checkBlackHoleCollision p (blackHoles (currentLevel g))"
  "checkGoal (currentLevel (animateBlackHoles dt g)) p = checkGoal (currentLevel g) p"
proof -
  have "map physicalHole (blackHoles (currentLevel (animateBlackHoles dt g))) =
        map physicalHole (blackHoles (currentLevel g))"
    using updateBlackHoles_physical
      [of "dt * (1 / 1000) * gameSpeed g" "blackHoles (currentLevel g)" "ambient g"]
    by (simp add: animateBlackHoles_def Let_def case_prod_beta)
  then show "checkBlackHoleCollision p (blackHoles (currentLevel (animateBlackHoles dt g))) =
     checkBlackHoleCollision p (blackHoles (currentLevel g))"
    by (rule checkBlackHoleCollision_cong)
  show "checkGoal (currentLevel (animateBlackHoles dt g)) p = checkGoal (currentLevel g) p"
    by (simp add: checkGoal_def)
qed

lemma movePlayer_time [simp]:
  "movePlayer_script dt (storePrevious (g\<lparr>currentTime := t\<rparr>)) = movePlayer_script dt (storePrevious g)"
  "movePlayer dt ((storePrevious (g\<lparr>currentTime := t\<rparr>))\<lparr>mobileInput := m\<rparr>) =
     movePlayer dt ((storePrevious g)\<lparr>mobileInput := m\<rparr>)"
  by (simp_all add: movePlayer_script_def movePlayer_def storePrevious_def)

lemma kinetics_counters:
  "deaths (kinetics_script now dt g) = deaths g"
  "levelsCompleted (kinetics_script now dt g) = levelsCompleted g"
  "deaths (kinetics now dt g) = deaths g"
  "levelsCompleted (kinetics now dt g) = levelsCompleted g"
  by (simp_all add: kinetics_script_def kinetics_def storePrevious_def Let_def)

lemma kinetics_player:
  "player (kinetics_script now dt g) = fst (movePlayer_script dt (storePrevious g))"
  "player (kinetics now dt g) =
     fst (movePlayer dt ((storePrevious g)\<lparr>mobileInput := updateMobileInput (mobileInput g)\<rparr>))"
  by (simp_all add: kinetics_script_def kinetics_def Let_def)
     (simp_all add: storePrevious_def)

lemma kinetics_checks:
  "checkBlackHoleCollision p (blackHoles (currentLevel (kinetics_script now dt g))) =
     checkBlackHoleCollision p (blackHoles (currentLevel g))"
  "checkGoal (currentLevel (kinetics_script now dt g)) p = checkGoal (currentLevel g) p"
  "checkBlackHoleCollision p (blackHoles (currentLevel (kinetics now dt g))) =
     checkBlackHoleCollision p (blackHoles (currentLevel g))"
  "checkGoal (currentLevel (kinetics now dt g)) p = checkGoal (currentLevel g) p"
  by (simp_all add: kinetics_script_def kinetics_def Let_def animateBlackHoles_checks)
     (simp_all add: storePrevious_def)

lemma evaluate_order:
  assumes "player mid = moved"
    and "deaths mid = deaths before" and "levelsCompleted mid = levelsCompleted before"
    and "checkBlackHoleCollision moved (blackHoles (currentLevel mid)) =
         checkBlackHoleCollision moved (blackHoles (currentLevel before))"
    and "checkGoal (currentLevel mid) moved = checkGoal (currentLevel before) moved"
  shows "deathBeforeGoal v before moved mid (evaluate v d mid)"
proof -
  have goal: "deaths (stateOf (case handleLevelComplete v d mid of
                 Returned gs1 \<Rightarrow> Returned (scoreDisplay gs1) | TypeError gs1 \<Rightarrow> TypeError gs1))
                = deaths mid \<and>
              levelsCompleted (stateOf (case handleLevelComplete v d mid of
                 Returned gs1 \<Rightarrow> Returned (scoreDisplay gs1) | TypeError gs1 \<Rightarrow> TypeError gs1))
                = levelsCompleted mid + 1"
    using handleLevelComplete_counters [of v d mid]
    by (cases "handleLevelComplete v d mid") (simp_all add: stateOf_def)
  show ?thesis
    using assms goal
    by (simp add: deathBeforeGoal_def evaluate_def Let_def handlePlayerDeath_counters stateOf_def)
qed

text \<open>
  Claim C7.  In every simulation step of a running game, in \<^verbatim>\<open>script.js\<close> and in the
  modular version, the player kinetics are updated first: the state on which the checks
  are made carries the body returned by the player's physics update for the state before
  the step.  Black-hole lethality is evaluated second and goal completion last, both on
  that body.  When a black-hole collision is detected the step is the death handler's
  result and the goal is not evaluated, so no step reports both a death and a reached
  goal, and death takes precedence over simultaneous goal entry.
\<close>

theorem C7_death_takes_precedence_over_goal:
  assumes "gameStarted gs \<and> \<not> paused gs"
  shows "deathBeforeGoal Script gs
           (fst (movePlayer_script deltaTime (storePrevious gs)))
           (kinetics_script now deltaTime gs)
           (update_script now dailySeed deltaTime gs) \<and>
         deathBeforeGoal Modular gs
           (fst (movePlayer deltaTime
                   ((storePrevious gs)\<lparr>mobileInput := updateMobileInput (mobileInput gs)\<rparr>)))
           (kinetics now deltaTime gs)
           (update now dailySeed deltaTime gs)"
proof
  have "deathBeforeGoal Script gs (fst (movePlayer_script deltaTime (storePrevious gs)))
          (kinetics_script now deltaTime gs) (evaluate Script dailySeed (kinetics_script now deltaTime gs))"
    by (rule evaluate_order) (simp_all add: kinetics_player kinetics_counters kinetics_checks)
  then show "deathBeforeGoal Script gs (fst (movePlayer_script deltaTime (storePrevious gs)))
          (kinetics_script now deltaTime gs) (update_script now dailySeed deltaTime gs)"
    using assms by (simp add: update_script_def)
  have "deathBeforeGoal Modular gs
          (fst (movePlayer deltaTime
                  ((storePrevious gs)\<lparr>mobileInput := updateMobileInput (mobileInput gs)\<rparr>)))
          (kinetics now deltaTime gs) (evaluate Modular dailySeed (kinetics now deltaTime gs))"
    by (rule evaluate_order) (simp_all add: kinetics_player kinetics_counters kinetics_checks)
  then show "deathBeforeGoal Modular gs
          (fst (movePlayer deltaTime
                  ((storePrevious gs)\<lparr>mobileInput := updateMobileInput (mobileInput gs)\<rparr>)))
          (kinetics now deltaTime gs) (update now dailySeed deltaTime gs)"
    using assms by (simp add: update_def)
qed

text \<open>
  The scenario: before the step the body touches neither the hole nor the goal; the body
  returned by the physics update touches both.
\<close>

lemma sqrt_scene: "sqrt 129600 = 360" "sqrt 1600 = 40" "sqrt 2500 = 50"
  using real_sqrt_abs2 [of 360] real_sqrt_abs2 [of 40] real_sqrt_abs2 [of 50] by simp_all

lemmas step_defs =
  movePlayer_script_def movePlayer_def storePrevious_def updateMobileInput_def joystickIdle_def
  contested_def goalOnly_def contestLevel_def agedHole_def flier_def
  Level_new_def Planet_new_def updatePhysics_def Let_def lineSegmentIntersectsCircle_def
  freeFallPhase_def integrate_def totalForce_def wrapAndReset_def wrapScreenPosition_def
  Planet_calculateGravity_def goal_calculateGravity_def BlackHole_calculateGravity_def
  GRAVITY_CONSTANT_def CANVAS_WIDTH_def CANVAS_HEIGHT_def sqrt_scene checkGoal_def

lemma contested_before:
  "\<not> checkBlackHoleCollision (player contested) (blackHoles (currentLevel contested))"
  "\<not> checkGoal (currentLevel contested) (player contested)"
  "posX (player contested) = 460"
  by (simp_all add: step_defs)

lemma contested_moved:
  "posX (fst (movePlayer_script 16 (storePrevious contested))) = 11435154188092 / 22393515625"
  "checkBlackHoleCollision (fst (movePlayer_script 16 (storePrevious contested)))
     (blackHoles (currentLevel contested))"
  "checkGoal (currentLevel contested) (fst (movePlayer_script 16 (storePrevious contested)))"
  "checkBlackHoleCollision
     (fst (movePlayer 16 ((storePrevious contested)\<lparr>mobileInput :=
             updateMobileInput (mobileInput contested)\<rparr>)))
     (blackHoles (currentLevel contested))"
  by (simp_all add: step_defs)

lemma goalOnly_moved:
  "\<not> checkBlackHoleCollision (fst (movePlayer_script 16 (storePrevious goalOnly)))
     (blackHoles (currentLevel goalOnly))"
  "checkGoal (currentLevel goalOnly) (fst (movePlayer_script 16 (storePrevious goalOnly)))"
  "\<not> checkGoal (currentLevel goalOnly) (player goalOnly)"
  by (simp_all add: step_defs)

theorem C7_witness:
  "gameStarted contested \<and> \<not> paused contested \<and>
   \<not> checkBlackHoleCollision (player contested) (blackHoles (currentLevel contested)) \<and>
   \<not> checkGoal (currentLevel contested) (player contested) \<and>
   player (kinetics_script 1000 16 contested) = fst (movePlayer_script 16 (storePrevious contested)) \<and>
   checkBlackHoleCollision (fst (movePlayer_script 16 (storePrevious contested)))
     (blackHoles (currentLevel contested)) \<and>
   checkGoal (currentLevel contested) (fst (movePlayer_script 16 (storePrevious contested))) \<and>
   deaths (stateOf (update_script 1000 0 16 contested)) = 3 \<and>
   levelsCompleted (stateOf (update_script 1000 0 16 contested)) = 6 \<and>
   deaths (stateOf (update 1000 0 16 contested)) = 3 \<and>
   levelsCompleted (stateOf (update 1000 0 16 contested)) = 6 \<and>
   \<not> checkGoal (currentLevel goalOnly) (player goalOnly) \<and>
   deaths (stateOf (update_script 1000 0 16 goalOnly)) = 2 \<and>
   levelsCompleted (stateOf (update_script 1000 0 16 goalOnly)) = 7"
proof -
  have run: "gameStarted contested \<and> \<not> paused contested" by (simp add: contested_def)
  have run': "gameStarted goalOnly \<and> \<not> paused goalOnly" by (simp add: goalOnly_def contested_def)
  have c: "deaths contested = 2" "levelsCompleted contested = 6"
          "deaths goalOnly = 2" "levelsCompleted goalOnly = 6"
    by (simp_all add: goalOnly_def contested_def)
  have t1: "deathBeforeGoal Script contested (fst (movePlayer_script 16 (storePrevious contested)))
              (kinetics_script 1000 16 contested) (update_script 1000 0 16 contested)"
   and t2: "deathBeforeGoal Modular contested
              (fst (movePlayer 16 ((storePrevious contested)\<lparr>mobileInput :=
                      updateMobileInput (mobileInput contested)\<rparr>)))
              (kinetics 1000 16 contested) (update 1000 0 16 contested)"
    using C7_death_takes_precedence_over_goal [OF run, of 16 1000 0] by simp_all
  have t3: "deathBeforeGoal Script goalOnly (fst (movePlayer_script 16 (storePrevious goalOnly)))
              (kinetics_script 1000 16 goalOnly) (update_script 1000 0 16 goalOnly)"
    using C7_death_takes_precedence_over_goal [OF run', of 16 1000 0] by simp
  have r0: "player (kinetics_script 1000 16 contested) = fst (movePlayer_script 16 (storePrevious contested))"
    using t1 unfolding deathBeforeGoal_def Let_def by blast
  have r1: "deaths (stateOf (update_script 1000 0 16 contested)) = deaths contested + 1 \<and>
            levelsCompleted (stateOf (update_script 1000 0 16 contested)) = levelsCompleted contested"
    using t1 contested_moved(2) unfolding deathBeforeGoal_def Let_def by blast
  have r2: "deaths (stateOf (update 1000 0 16 contested)) = deaths contested + 1 \<and>
            levelsCompleted (stateOf (update 1000 0 16 contested)) = levelsCompleted contested"
    using t2 contested_moved(4) unfolding deathBeforeGoal_def Let_def by blast
  have r3: "deaths (stateOf (update_script 1000 0 16 goalOnly)) = deaths goalOnly \<and>
            levelsCompleted (stateOf (update_script 1000 0 16 goalOnly)) = levelsCompleted goalOnly + 1"
    using t3 goalOnly_moved(1,2) unfolding deathBeforeGoal_def Let_def by blast
  show ?thesis
    using run contested_before(1,2) contested_moved(2,3) goalOnly_moved(3) r0 r1 r2 r3
    by (simp add: c)
qed

section \<open>Level transitions\<close>

lemma loadLevel_ambient_free [simp]:
  "player (loadLevel v n g) = player g"
  by (simp add: loadLevel_def split: prod.splits)

lemma restartLevel_fresh:
  "currentLevel (restartLevel v gs) = fst (generateLevelOf v (currentLevelNumber gs) (ambient gs))"
  "player (restartLevel v gs) = spawnPlayer v (currentLevel (restartLevel v gs))"
  by (simp_all add: restartLevel_def Let_def)

lemma handleLevelComplete_fresh:
  assumes "\<not> speedrunDone gs"
  shows "\<not> threw (handleLevelComplete v dailySeed gs)"
    and "currentLevel (stateOf (handleLevelComplete v dailySeed gs)) =
           fst (generateLevelOf v (nextLevelNumber dailySeed gs) (ambient gs))"
    and "player (stateOf (handleLevelComplete v dailySeed gs)) =
           spawnPlayer v (currentLevel (stateOf (handleLevelComplete v dailySeed gs)))"
  using assms
  by (auto simp: handleLevelComplete_def speedrunDone_def nextLevelNumber_def Let_def
        stateOf_def threw_def split: Mode.splits)

lemma handleLevelComplete_done:
  assumes "speedrunDone gs"
  shows "currentLevel (stateOf (handleLevelComplete v dailySeed gs)) = currentLevel gs"
    and "player (stateOf (handleLevelComplete v dailySeed gs)) = player gs"
    and "speedrunRecords gs (speedrunTarget gs) \<noteq> None \<Longrightarrow>
           \<not> threw (handleLevelComplete v dailySeed gs) \<and>
           \<not> gameStarted (stateOf (handleLevelComplete v dailySeed gs))"
    and "speedrunRecords gs (speedrunTarget gs) = None \<Longrightarrow>
           threw (handleLevelComplete v dailySeed gs) \<and>
           gameStarted (stateOf (handleLevelComplete v dailySeed gs)) = gameStarted gs"
  using assms
  by (auto simp: handleLevelComplete_def speedrunDone_def completeSpeedrun_def Let_def
        stateOf_def threw_def split: option.splits)

lemma handlePlayerDeath_keeps_level:
  "currentLevel (fst (handlePlayerDeath v gs)) = currentLevel gs"
  by (simp add: handlePlayerDeath_def Let_def)

lemma handlePlayerDeath_player:
  "snd (handlePlayerDeath v gs) \<Longrightarrow> player (fst (handlePlayerDeath v gs)) = spawnPlayer v (currentLevel gs)"
  "\<not> snd (handlePlayerDeath v gs) \<Longrightarrow>
     player (fst (handlePlayerDeath v gs)) = player gs \<and> \<not> gameStarted (fst (handlePlayerDeath v gs))"
  by (auto simp: handlePlayerDeath_def Let_def split: if_splits)

text \<open>
  Claim C10, as stated, fails.  On a death with lives remaining the handler keeps
  \<^verbatim>\<open>gameState.currentLevel\<close>: the level after the death is the level before it, with the
  rotation phase \<open>3/2\<close> its black hole had reached, where a newly constructed black hole
  has rotation 0.
\<close>

theorem C10_counterexample:
  "snd (handlePlayerDeath Script contested) \<and>
   map rotation (blackHoles (currentLevel contested)) = [3 / 2] \<and>
   currentLevel (fst (handlePlayerDeath Script contested)) = currentLevel contested \<and>
   map rotation (blackHoles (currentLevel (fst (handlePlayerDeath Script contested)))) = [3 / 2] \<and>
   snd (handlePlayerDeath Modular contested) \<and>
   currentLevel (fst (handlePlayerDeath Modular contested)) = currentLevel contested \<and>
   rotation (fst (BlackHole_new_script 510 300 10 silentAmbient)) = 0 \<and>
   rotation (fst (BlackHole_new 510 300 10 silentAmbient)) = 0"
  by (simp add: handlePlayerDeath_def Let_def contested_def contestLevel_def agedHole_def
        decrementLives_def noLivesLeft_def BlackHole_new_script_def BlackHole_new_def
        split: prod.splits)

text \<open>
  Claim C10, amended.  Restart and goal completion (other than the completion of a
  speedrun) replace \<^verbatim>\<open>gameState.currentLevel\<close> by the level generated from the level
  number, and the player by a newly constructed player placed on that level: nothing of the
  former level or player enters either.  A death with lives remaining replaces the player
  only, by a newly constructed player on the current level, which is kept.  Game over and
  the completion of a speedrun keep both; game over stops the game, and so does the
  completion of a speedrun whose target has an entry in the speedrun records, while for a
  target without an entry the completion handler throws before it stops the game.
\<close>

theorem C10_transitions_rebuild_player_and_level_except_on_death:
  "(currentLevel (restartLevel v gs) = fst (generateLevelOf v (currentLevelNumber gs) (ambient gs)) \<and>
    player (restartLevel v gs) = spawnPlayer v (currentLevel (restartLevel v gs))) \<and>
   (\<not> speedrunDone gs \<longrightarrow>
      \<not> threw (handleLevelComplete v dailySeed gs) \<and>
      currentLevel (stateOf (handleLevelComplete v dailySeed gs)) =
        fst (generateLevelOf v (nextLevelNumber dailySeed gs) (ambient gs)) \<and>
      player (stateOf (handleLevelComplete v dailySeed gs)) =
        spawnPlayer v (currentLevel (stateOf (handleLevelComplete v dailySeed gs)))) \<and>
   (speedrunDone gs \<longrightarrow>
      currentLevel (stateOf (handleLevelComplete v dailySeed gs)) = currentLevel gs \<and>
      player (stateOf (handleLevelComplete v dailySeed gs)) = player gs \<and>
      (speedrunRecords gs (speedrunTarget gs) \<noteq> None \<longrightarrow>
         \<not> threw (handleLevelComplete v dailySeed gs) \<and>
         \<not> gameStarted (stateOf (handleLevelComplete v dailySeed gs))) \<and>
      (speedrunRecords gs (speedrunTarget gs) = None \<longrightarrow>
         threw (handleLevelComplete v dailySeed gs) \<and>
         gameStarted (stateOf (handleLevelComplete v dailySeed gs)) = gameStarted gs)) \<and>
   (snd (handlePlayerDeath v gs) \<longrightarrow>
      currentLevel (fst (handlePlayerDeath v gs)) = currentLevel gs \<and>
      player (fst (handlePlayerDeath v gs)) = spawnPlayer v (currentLevel gs)) \<and>
   (\<not> snd (handlePlayerDeath v gs) \<longrightarrow>
      currentLevel (fst (handlePlayerDeath v gs)) = currentLevel gs \<and>
      player (fst (handlePlayerDeath v gs)) = player gs \<and>
      \<not> gameStarted (fst (handlePlayerDeath v gs)))"
  using restartLevel_fresh [of v gs] handleLevelComplete_fresh [of gs v dailySeed]
    handleLevelComplete_done [of gs v dailySeed] handlePlayerDeath_keeps_level [of v gs]
    handlePlayerDeath_player [of v gs]
  by blast

theorem C10_witness:
  "\<not> speedrunDone goalOnly \<and>
   currentLevel (stateOf (handleLevelComplete Script 0 goalOnly)) = fst (generateLevel_script 8 silentAmbient) \<and>
   player (stateOf (handleLevelComplete Script 0 goalOnly)) =
     spawnPlayer Script (fst (generateLevel_script 8 silentAmbient)) \<and>
   speedrunDone lastLevel \<and> speedrunRecords lastLevel (speedrunTarget lastLevel) \<noteq> None \<and>
   currentLevel (stateOf (handleLevelComplete Script 0 lastLevel)) = currentLevel goalOnly \<and>
   player (stateOf (handleLevelComplete Script 0 lastLevel)) = player goalOnly \<and>
   \<not> threw (handleLevelComplete Script 0 lastLevel) \<and>
   \<not> gameStarted (stateOf (handleLevelComplete Script 0 lastLevel)) \<and>
   speedrunDone oddTarget \<and> speedrunRecords oddTarget (speedrunTarget oddTarget) = None \<and>
   threw (handleLevelComplete Modular 0 oddTarget) \<and>
   gameStarted (stateOf (handleLevelComplete Modular 0 oddTarget)) \<and>
   currentLevel (stateOf (handleLevelComplete Modular 0 oddTarget)) = currentLevel goalOnly \<and>
   snd (handlePlayerDeath Modular contested) \<and>
   currentLevel (fst (handlePlayerDeath Modular contested)) = contestLevel \<and>
   player (fst (handlePlayerDeath Modular contested)) = spawnPlayer Modular contestLevel \<and>
   \<not> snd (handlePlayerDeath Modular lastLife) \<and>
   player (fst (handlePlayerDeath Modular lastLife)) = player contested \<and>
   currentLevel (restartLevel Modular contested) = fst (generateLevel 7 silentAmbient)"
proof -
  have h1: "\<not> speedrunDone goalOnly"
    by (simp add: speedrunDone_def goalOnly_def contested_def)
  have h2: "speedrunDone lastLevel" "speedrunRecords lastLevel (speedrunTarget lastLevel) \<noteq> None"
    by (simp_all add: speedrunDone_def lastLevel_def goalOnly_def contested_def initialRecords_def
          Let_def)
  have h3: "speedrunDone oddTarget" "speedrunRecords oddTarget (speedrunTarget oddTarget) = None"
    by (simp_all add: speedrunDone_def oddTarget_def goalOnly_def contested_def initialRecords_def
          Let_def)
  have h4: "snd (handlePlayerDeath Modular contested)"
    by (simp add: handlePlayerDeath_def Let_def contested_def decrementLives_def noLivesLeft_def)
  have h5: "\<not> snd (handlePlayerDeath Modular lastLife)"
    by (simp add: handlePlayerDeath_def Let_def lastLife_def contested_def decrementLives_def
          noLivesLeft_def)
  have v: "nextLevelNumber 0 goalOnly = 8" "ambient goalOnly = silentAmbient"
          "currentLevel contested = contestLevel" "player lastLife = player contested"
          "currentLevelNumber contested = 7" "ambient contested = silentAmbient"
          "currentLevel lastLevel = currentLevel goalOnly" "player lastLevel = player goalOnly"
          "currentLevel oddTarget = currentLevel goalOnly" "gameStarted oddTarget"
    by (simp_all add: nextLevelNumber_def goalOnly_def contested_def lastLife_def lastLevel_def
          oddTarget_def)
  show ?thesis
    using h1 h2 h3 h4 h5
      C10_transitions_rebuild_player_and_level_except_on_death [of Script goalOnly 0]
      C10_transitions_rebuild_player_and_level_except_on_death [of Script lastLevel 0]
      C10_transitions_rebuild_player_and_level_except_on_death [of Modular oddTarget 0]
      C10_transitions_rebuild_player_and_level_except_on_death [of Modular contested 0]
      C10_transitions_rebuild_player_and_level_except_on_death [of Modular lastLife 0]
    by (simp add: v generateLevelOf_def)
qed

end
